(* ===== verification/Prelude.thy ===== *)
theory Prelude
  imports Complex_Main "HOL-Library.List_Lexorder" "HOL-Library.Char_ord"
begin

text \<open>
  Shared vocabulary of the development: the JavaScript number semantics the
  TypeScript sources rely on (division that yields \<open>NaN\<close> or an infinity
  instead of failing, \<open>Math.round\<close>, \<open>Number.prototype.toFixed(1)\<close>), the
  theorem collections the component theories fill, and generic lemmas on
  lists, sums and rounding that several components share.

  A JavaScript \<open>number\<close> is a double.  The development models a finite number
  as an exact rational (\<open>rat\<close>); floating-point rounding of the additions is
  not modelled.  This is exact for every value of the static dataset (all are
  integers far below \<open>2^53\<close>), and it is the reading the specification takes.
\<close>

named_theorems js_simps "evaluation rules of the JavaScript number helpers"
named_theorems fixture_simps "unfolding rules of the static dataset"

subsection \<open>JavaScript numbers\<close>

text \<open>The result of a JavaScript arithmetic operation that may leave the finite numbers.\<close>

datatype js_value = JNum rat | JNaN | JInf | JNegInf

text \<open>\<open>a / b\<close> on finite operands: \<open>0/0\<close> is \<open>NaN\<close>, \<open>x/0\<close> an infinity of the sign of \<open>x\<close>.\<close>

definition js_div :: "rat \<Rightarrow> rat \<Rightarrow> js_value" where
  "js_div a b =
     (if b \<noteq> 0 then JNum (a / b)
      else if a = 0 then JNaN else if 0 < a then JInf else JNegInf)"

text \<open>\<open>v * k\<close> for a positive finite constant \<open>k\<close>, as in \<open>(x / total) * 100\<close>.\<close>

fun js_scale :: "js_value \<Rightarrow> rat \<Rightarrow> js_value" where
  "js_scale (JNum x) k = JNum (x * k)"
| "js_scale JNaN k = JNaN"
| "js_scale JInf k = JInf"
| "js_scale JNegInf k = JNegInf"

text \<open>\<open>Math.round\<close>: the nearest integer, ties towards \<open>+\<infinity>\<close>.\<close>

definition js_round :: "rat \<Rightarrow> int" where
  "js_round x = \<lfloor>x + 1/2\<rfloor>"

text \<open>
  What \<open>toFixed(1)\<close> prints: a finite value as a number of tenths (the
  integer \<open>n\<close> nearest to \<open>10 x\<close>, ties away from zero, as ECMA-262 picks the
  larger \<open>n\<close> after taking the sign apart), otherwise the strings
  \<open>"NaN"\<close>, \<open>"Infinity"\<close>, \<open>"-Infinity"\<close>.
\<close>

datatype fixed_text = Tenths int | TextNaN | TextInf | TextNegInf

fun to_fixed1 :: "js_value \<Rightarrow> fixed_text" where
  "to_fixed1 (JNum x) =
     Tenths (if 0 \<le> x then \<lfloor>10 * x + 1/2\<rfloor> else - \<lfloor>- 10 * x + 1/2\<rfloor>)"
| "to_fixed1 JNaN = TextNaN"
| "to_fixed1 JInf = TextInf"
| "to_fixed1 JNegInf = TextNegInf"

definition tenths_value :: "fixed_text \<Rightarrow> rat" where
  "tenths_value t = (case t of Tenths n \<Rightarrow> of_int n / 10 | _ \<Rightarrow> 0)"

subsection \<open>Lists\<close>

text \<open>
  The distinct elements of a list in order of first occurrence: the iteration
  order of a JavaScript \<open>Set\<close> built from the list, and the order in which a
  reduction that appends unseen keys meets them.  (\<open>remdups\<close> keeps the last
  occurrence instead.)
\<close>

definition first_occurrences :: "'a list \<Rightarrow> 'a list" where
  "first_occurrences xs = rev (remdups (rev xs))"

subsection \<open>Evaluation rules\<close>

lemma floor_numeral_div_rat [simp, js_simps]:
  "\<lfloor>(numeral a :: rat) / numeral b\<rfloor> = numeral a div numeral b"
  using floor_divide_of_int_eq [where 'a = rat, of "numeral a" "numeral b"] by simp

lemma js_div_nonzero [js_simps]: "b \<noteq> 0 \<Longrightarrow> js_div a b = JNum (a / b)"
  by (simp add: js_div_def)

lemma js_div_zero_zero [js_simps]: "js_div 0 0 = JNaN"
  by (simp add: js_div_def)

subsection \<open>Rounding bounds\<close>

lemma floor_half_error: "\<bar>of_int \<lfloor>y + 1/2\<rfloor> - y\<bar> \<le> (1/2 :: rat)"
proof -
  have "of_int \<lfloor>y + 1/2\<rfloor> \<le> y + 1/2" and "y + 1/2 < of_int (\<lfloor>y + 1/2\<rfloor> + 1)"
    by (rule floor_correct [THEN conjunct1], rule floor_correct [THEN conjunct2])
  then show ?thesis unfolding abs_le_iff by linarith
qed

lemma js_round_error: "\<bar>of_int (js_round x) - x\<bar> \<le> 1/2"
  unfolding js_round_def by (rule floor_half_error)

lemma to_fixed1_error:
  "\<bar>tenths_value (to_fixed1 (JNum x)) - x\<bar> \<le> 1/20"
proof (cases "0 \<le> x")
  case True
  have err: "\<bar>of_int \<lfloor>10 * x + 1/2\<rfloor> - 10 * x\<bar> \<le> (1/2 :: rat)" by (rule floor_half_error)
  from True have "tenths_value (to_fixed1 (JNum x)) = of_int \<lfloor>10 * x + 1/2\<rfloor> / 10"
    by (simp add: tenths_value_def)
  with err show ?thesis unfolding abs_le_iff by linarith
next
  case False
  have err: "\<bar>of_int \<lfloor>- 10 * x + 1/2\<rfloor> - (- 10 * x)\<bar> \<le> (1/2 :: rat)" by (rule floor_half_error)
  from False have "tenths_value (to_fixed1 (JNum x)) = - of_int \<lfloor>- 10 * x + 1/2\<rfloor> / 10"
    by (simp add: tenths_value_def)
  with err show ?thesis unfolding abs_le_iff by linarith
qed

text \<open>Rounding every term of a sum by at most \<open>e\<close> moves the sum by at most \<open>n e\<close>.\<close>

lemma sum_list_error_bound:
  assumes "\<And>x. x \<in> set xs \<Longrightarrow> \<bar>f x - g x\<bar> \<le> (e :: rat)"
  shows "\<bar>sum_list (map f xs) - sum_list (map g xs)\<bar> \<le> of_nat (length xs) * e"
  using assms
proof (induction xs)
  case Nil
  then show ?case by simp
next
  case (Cons x xs)
  have "\<bar>f x - g x\<bar> \<le> e" and "\<bar>sum_list (map f xs) - sum_list (map g xs)\<bar> \<le> of_nat (length xs) * e"
    using Cons by auto
  then show ?case by (simp add: abs_le_iff algebra_simps)
qed


lemma sum_list_bounds:
  assumes "\<forall>x\<in>set xs. a \<le> f x \<and> f x \<le> (b :: rat)"
  shows "of_nat (length xs) * a \<le> sum_list (map f xs) \<and> sum_list (map f xs) \<le> of_nat (length xs) * b"
  using assms
proof (induction xs)
  case Nil
  then show ?case by simp
next
  case (Cons x xs)
  then have "a \<le> f x" "f x \<le> b" "of_nat (length xs) * a \<le> sum_list (map f xs)"
    "sum_list (map f xs) \<le> of_nat (length xs) * b" by simp_all
  then show ?case by (simp add: distrib_right)
qed

lemma js_round_mono: "x \<le> y \<Longrightarrow> js_round x \<le> js_round y"
  unfolding js_round_def by (simp add: floor_mono)

lemma js_round_of_int [simp, js_simps]: "js_round (of_int n) = n"
  unfolding js_round_def by (simp add: floor_eq_iff)
subsection \<open>Folds, sets and grouping\<close>

text \<open>A left fold that adds up a field is the sum of the field.\<close>

lemma foldl_add_sum_list:
  "foldl (\<lambda>s x. s + f x) a xs = a + sum_list (map f xs)"
  by (induction xs arbitrary: a) (simp_all add: add.assoc)

lemma find_notin_map: "x \<notin> set (map f xs) \<Longrightarrow> find (\<lambda>y. f y = x) xs = None"
  by (induction xs) auto

lemma find_distinct_key:
  "distinct (map f xs) \<Longrightarrow> x \<in> set xs \<Longrightarrow> find (\<lambda>y. f y = f x) xs = Some x"
  by (induction xs) (auto simp: image_iff)

lemma sum_list_map_concat:
  "sum_list (map f (concat xss)) = sum_list (map (\<lambda>xs. sum_list (map f xs)) xss)"
  by (induction xss) auto

lemma sum_list_map_eq_0: "(\<And>x. x \<in> set xs \<Longrightarrow> f x = 0) \<Longrightarrow> sum_list (map f xs) = 0"
  by (induction xs) simp_all

lemma first_occurrences_Nil [simp]: "first_occurrences [] = []"
  by (simp add: first_occurrences_def)

lemma first_occurrences_snoc [simp]:
  "first_occurrences (xs @ [x]) =
     (if x \<in> set xs then first_occurrences xs else first_occurrences xs @ [x])"
  by (simp add: first_occurrences_def)

lemma set_first_occurrences [simp]: "set (first_occurrences xs) = set xs"
  by (simp add: first_occurrences_def)

lemma distinct_first_occurrences [simp]: "distinct (first_occurrences xs)"
  by (simp add: first_occurrences_def)

lemma length_first_occurrences: "length (first_occurrences xs) = card (set xs)"
  by (simp add: first_occurrences_def length_remdups_card_conv)

text \<open>
  Grouping by a key conserves a sum: adding up, per distinct key, the
  elements of that key gives the sum of all elements.
\<close>

lemma sum_list_delta_distinct:
  "distinct ks \<Longrightarrow>
   sum_list (map (\<lambda>k. if k = k0 then c else 0) ks) = (if k0 \<in> set ks then c else (0 :: 'b :: comm_monoid_add))"
  by (induction ks) auto

lemma sum_list_group_by_keys:
  assumes "distinct ks" and "set (map key xs) \<subseteq> set ks"
  shows "sum_list (map (\<lambda>k. sum_list (map f (filter (\<lambda>x. key x = k) xs))) ks)
         = (sum_list (map f xs) :: 'b :: comm_monoid_add)"
  using assms(2)
proof (induction xs)
  case Nil
  then show ?case by (simp add: sum_list_delta_distinct [OF assms(1), where c = 0])
next
  case (Cons x xs)
  have split: "(\<lambda>k. sum_list (map f (filter (\<lambda>y. key y = k) (x # xs))))
      = (\<lambda>k. (if k = key x then f x else 0) + sum_list (map f (filter (\<lambda>y. key y = k) xs)))"
    by (auto simp: fun_eq_iff)
  from Cons.prems have "key x \<in> set ks" and "set (map key xs) \<subseteq> set ks" by auto
  with Cons.IH show ?case
    by (simp only: split sum_list_addf sum_list_delta_distinct [OF assms(1)]) simp
qed

lemma sum_list_group_by:
  "sum_list (map (\<lambda>k. sum_list (map f (filter (\<lambda>x. key x = k) xs))) (first_occurrences (map key xs)))
   = (sum_list (map f xs) :: 'b :: comm_monoid_add)"
  by (rule sum_list_group_by_keys) simp_all

end
