(* ===== verification/Domain.thy ===== *)
theory Domain
  imports Prelude
begin

text \<open>
  The domain model of \<open>src/src/data/cropData.ts\<close>: the interfaces
  \<open>CropData\<close>, \<open>District\<close>, \<open>State\<close> and \<open>PricePrediction\<close> as records, the
  string-literal union \<open>"High" | "Medium" | "Low"\<close> as a datatype, and the
  closed value sets the admin form offers (\<open>seasons\<close>, \<open>months\<close> of
  \<open>src/src/pages/Admin.tsx\<close>).  The well-formedness predicate \<open>crop_wf\<close>
  is the specification's invariant of a crop (section 3 of the spec): the
  TypeScript types do not enforce it (\<open>season\<close> is any \<open>string\<close>, every
  quantity any \<open>number\<close>).

  Field names follow the source; where two interfaces share a field name, or a
  name is a HOL constant (\<open>id\<close>), the field carries its record's prefix:
  \<open>crop_id\<close>, \<open>district_id\<close>, \<open>district_name\<close>, \<open>state_id\<close>, \<open>state_name\<close>,
  \<open>pp_currentPrice\<close> for \<open>PricePrediction.currentPrice\<close>, and
  \<open>pp_supply\<close> for \<open>PricePrediction.supply\<close> (\<open>supply\<close> is an Isar keyword).
\<close>

record crop_data =
  crop_id :: string
  name :: string
  landUsed :: rat
  expectedYield :: rat
  currentPrice :: rat
  season :: string
  sowingMonth :: string
  harvestMonth :: string

record district =
  district_id :: string
  district_name :: string
  crops :: "crop_data list"

record state =
  state_id :: string
  state_name :: string
  districts :: "district list"

datatype level = High | Medium | Low

record price_prediction =
  cropId :: string
  cropName :: string
  pp_currentPrice :: rat
  predictedPrice :: rat
  priceChange :: rat
  changePercentage :: rat
  demand :: level
  pp_supply :: level
  reason :: string
  confidence :: rat

text \<open>The value sets of the admin form's \<open>Select\<close> components.\<close>

definition seasons :: "string list" where
  "seasons = [''Kharif'', ''Rabi'', ''Zaid'', ''Annual'', ''Perennial'']"

definition months :: "string list" where
  "months = [''January'', ''February'', ''March'', ''April'', ''May'', ''June'',
             ''July'', ''August'', ''September'', ''October'', ''November'', ''December'']"

text \<open>The specification's invariant of a crop record.\<close>

definition crop_wf :: "crop_data \<Rightarrow> bool" where
  "crop_wf c \<longleftrightarrow>
     0 \<le> landUsed c \<and> 0 \<le> expectedYield c \<and> 0 \<le> currentPrice c \<and>
     season c \<in> set seasons \<and> sowingMonth c \<in> set months \<and> harvestMonth c \<in> set months"

text \<open>All crops of a state, in the order \<open>state.districts.flatMap(d => d.crops)\<close> lists them.\<close>

definition state_crops :: "state \<Rightarrow> crop_data list" where
  "state_crops s = concat (map crops (districts s))"

definition database_crops :: "state list \<Rightarrow> crop_data list" where
  "database_crops db = concat (map state_crops db)"

end
