(* ===== verification/Fixtures.thy ===== *)
theory Fixtures
  imports Domain
begin

text \<open>
  The static dataset of \<open>src/src/data/cropData.ts\<close>: \<open>cropDatabase\<close>, three
  states with seven districts and twenty-three crops, and the four
  \<open>pricePredictions\<close>.  Each state is its own definition so that a proof
  unfolds only what it needs; \<open>fixture_simps\<close> collects the unfolding rules.
  The lemmas check the dataset against the specification's invariants:
  every crop well formed with positive land, identifiers unique, and every
  prediction's change fields consistent with its prices.
\<close>

definition telangana :: state where
  "telangana = \<lparr>state_id = ''telangana'', state_name = ''Telangana'', districts = [
     \<lparr>district_id = ''hyderabad'', district_name = ''Hyderabad'', crops = [
       \<lparr>crop_id = ''rice-hyd'', name = ''Rice'', landUsed = 12500, expectedYield = 38750, currentPrice = 2100, season = ''Kharif'', sowingMonth = ''June'', harvestMonth = ''October''\<rparr>,
       \<lparr>crop_id = ''maize-hyd'', name = ''Maize'', landUsed = 8200, expectedYield = 32800, currentPrice = 1850, season = ''Kharif'', sowingMonth = ''June'', harvestMonth = ''September''\<rparr>,
       \<lparr>crop_id = ''cotton-hyd'', name = ''Cotton'', landUsed = 15600, expectedYield = 9360, currentPrice = 5800, season = ''Kharif'', sowingMonth = ''May'', harvestMonth = ''December''\<rparr>,
       \<lparr>crop_id = ''turmeric-hyd'', name = ''Turmeric'', landUsed = 3200, expectedYield = 19200, currentPrice = 7500, season = ''Kharif'', sowingMonth = ''July'', harvestMonth = ''February''\<rparr>]\<rparr>,
     \<lparr>district_id = ''warangal'', district_name = ''Warangal'', crops = [
       \<lparr>crop_id = ''rice-war'', name = ''Rice'', landUsed = 28500, expectedYield = 88350, currentPrice = 2100, season = ''Kharif'', sowingMonth = ''June'', harvestMonth = ''October''\<rparr>,
       \<lparr>crop_id = ''cotton-war'', name = ''Cotton'', landUsed = 35200, expectedYield = 21120, currentPrice = 5800, season = ''Kharif'', sowingMonth = ''May'', harvestMonth = ''December''\<rparr>,
       \<lparr>crop_id = ''soybean-war'', name = ''Soybean'', landUsed = 12800, expectedYield = 19200, currentPrice = 4200, season = ''Kharif'', sowingMonth = ''June'', harvestMonth = ''October''\<rparr>,
       \<lparr>crop_id = ''redgram-war'', name = ''Red Gram'', landUsed = 9500, expectedYield = 8550, currentPrice = 6800, season = ''Kharif'', sowingMonth = ''June'', harvestMonth = ''December''\<rparr>]\<rparr>,
     \<lparr>district_id = ''nizamabad'', district_name = ''Nizamabad'', crops = [
       \<lparr>crop_id = ''rice-niz'', name = ''Rice'', landUsed = 22000, expectedYield = 68200, currentPrice = 2100, season = ''Kharif'', sowingMonth = ''June'', harvestMonth = ''October''\<rparr>,
       \<lparr>crop_id = ''maize-niz'', name = ''Maize'', landUsed = 18500, expectedYield = 74000, currentPrice = 1850, season = ''Kharif'', sowingMonth = ''June'', harvestMonth = ''September''\<rparr>,
       \<lparr>crop_id = ''turmeric-niz'', name = ''Turmeric'', landUsed = 8900, expectedYield = 53400, currentPrice = 7500, season = ''Kharif'', sowingMonth = ''July'', harvestMonth = ''February''\<rparr>]\<rparr>]\<rparr>"

definition andhra_pradesh :: state where
  "andhra_pradesh = \<lparr>state_id = ''andhra-pradesh'', state_name = ''Andhra Pradesh'', districts = [
     \<lparr>district_id = ''visakhapatnam'', district_name = ''Visakhapatnam'', crops = [
       \<lparr>crop_id = ''rice-vis'', name = ''Rice'', landUsed = 35000, expectedYield = 108500, currentPrice = 2100, season = ''Kharif'', sowingMonth = ''June'', harvestMonth = ''October''\<rparr>,
       \<lparr>crop_id = ''sugarcane-vis'', name = ''Sugarcane'', landUsed = 12000, expectedYield = 840000, currentPrice = 350, season = ''Annual'', sowingMonth = ''February'', harvestMonth = ''December''\<rparr>,
       \<lparr>crop_id = ''cashew-vis'', name = ''Cashew'', landUsed = 8500, expectedYield = 5950, currentPrice = 18000, season = ''Perennial'', sowingMonth = ''June'', harvestMonth = ''March''\<rparr>]\<rparr>,
     \<lparr>district_id = ''guntur'', district_name = ''Guntur'', crops = [
       \<lparr>crop_id = ''chilli-gun'', name = ''Red Chilli'', landUsed = 25000, expectedYield = 50000, currentPrice = 12000, season = ''Rabi'', sowingMonth = ''August'', harvestMonth = ''February''\<rparr>,
       \<lparr>crop_id = ''cotton-gun'', name = ''Cotton'', landUsed = 18500, expectedYield = 11100, currentPrice = 5800, season = ''Kharif'', sowingMonth = ''May'', harvestMonth = ''December''\<rparr>,
       \<lparr>crop_id = ''tobacco-gun'', name = ''Tobacco'', landUsed = 15200, expectedYield = 22800, currentPrice = 15000, season = ''Rabi'', sowingMonth = ''September'', harvestMonth = ''February''\<rparr>]\<rparr>]\<rparr>"

definition maharashtra :: state where
  "maharashtra = \<lparr>state_id = ''maharashtra'', state_name = ''Maharashtra'', districts = [
     \<lparr>district_id = ''pune'', district_name = ''Pune'', crops = [
       \<lparr>crop_id = ''sugarcane-pun'', name = ''Sugarcane'', landUsed = 45000, expectedYield = 3150000, currentPrice = 350, season = ''Annual'', sowingMonth = ''February'', harvestMonth = ''December''\<rparr>,
       \<lparr>crop_id = ''onion-pun'', name = ''Onion'', landUsed = 28000, expectedYield = 560000, currentPrice = 2500, season = ''Rabi'', sowingMonth = ''November'', harvestMonth = ''April''\<rparr>,
       \<lparr>crop_id = ''grapes-pun'', name = ''Grapes'', landUsed = 18500, expectedYield = 370000, currentPrice = 8000, season = ''Annual'', sowingMonth = ''June'', harvestMonth = ''February''\<rparr>]\<rparr>,
     \<lparr>district_id = ''nashik'', district_name = ''Nashik'', crops = [
       \<lparr>crop_id = ''onion-nas'', name = ''Onion'', landUsed = 35000, expectedYield = 700000, currentPrice = 2500, season = ''Rabi'', sowingMonth = ''November'', harvestMonth = ''April''\<rparr>,
       \<lparr>crop_id = ''grapes-nas'', name = ''Grapes'', landUsed = 22000, expectedYield = 440000, currentPrice = 8000, season = ''Annual'', sowingMonth = ''June'', harvestMonth = ''February''\<rparr>,
       \<lparr>crop_id = ''wheat-nas'', name = ''Wheat'', landUsed = 18500, expectedYield = 55500, currentPrice = 2200, season = ''Rabi'', sowingMonth = ''November'', harvestMonth = ''April''\<rparr>]\<rparr>]\<rparr>"

definition cropDatabase :: "state list" where
  "cropDatabase = [telangana, andhra_pradesh, maharashtra]"

definition pricePredictions :: "price_prediction list" where
  "pricePredictions = [
   \<lparr>cropId = ''rice'', cropName = ''Rice'', pp_currentPrice = 2100, predictedPrice = 2280, priceChange = 180, changePercentage = (857 / 100), demand = High, pp_supply = Medium, reason = ''Festival season approaching, increased consumption expected'', confidence = 85\<rparr>,
   \<lparr>cropId = ''cotton'', cropName = ''Cotton'', pp_currentPrice = 5800, predictedPrice = 6100, priceChange = 300, changePercentage = (517 / 100), demand = High, pp_supply = Low, reason = ''Export demand increasing, reduced cultivation in some areas'', confidence = 78\<rparr>,
   \<lparr>cropId = ''onion'', cropName = ''Onion'', pp_currentPrice = 2500, predictedPrice = 3200, priceChange = 700, changePercentage = 28, demand = High, pp_supply = Low, reason = ''Monsoon damage in key producing regions, festival demand'', confidence = 92\<rparr>,
   \<lparr>cropId = ''turmeric'', cropName = ''Turmeric'', pp_currentPrice = 7500, predictedPrice = 8100, priceChange = 600, changePercentage = 8, demand = High, pp_supply = Medium, reason = ''Wedding season and export orders increasing demand'', confidence = 80\<rparr>]"

declare telangana_def [fixture_simps] andhra_pradesh_def [fixture_simps]
  maharashtra_def [fixture_simps] cropDatabase_def [fixture_simps]
  pricePredictions_def [fixture_simps]

lemma cropDatabase_crops_positive_land:
  "list_all (\<lambda>c. 0 < landUsed c) (database_crops cropDatabase)"
  by (simp add: database_crops_def state_crops_def fixture_simps)

text \<open>
  Every crop of the static dataset satisfies the specification's crop
  invariant: non-negative land, yield and price, a season of the closed set,
  and sowing and harvest months among the twelve month names.
\<close>

theorem cropDatabase_well_formed: "list_all crop_wf (database_crops cropDatabase)"
  by (simp add: database_crops_def state_crops_def crop_wf_def seasons_def months_def fixture_simps)

text \<open>
  Identifiers in the static dataset are unique: state ids, district ids
  (even across states) and crop ids (even across districts), so the
  dashboard's lookups by id are unambiguous.
\<close>

theorem cropDatabase_ids_unique:
  "distinct (map state_id cropDatabase) \<and>
   distinct (map district_id (concat (map districts cropDatabase))) \<and>
   distinct (map crop_id (database_crops cropDatabase))"
  by (simp add: database_crops_def state_crops_def fixture_simps)

text \<open>
  Every fixture prediction states its price change as predicted minus
  current price exactly, and its percentage change as change over current
  price times 100 to within the two decimals it is printed with.
\<close>

theorem pricePredictions_consistent:
  "list_all (\<lambda>p. priceChange p = predictedPrice p - pp_currentPrice p \<and>
                 \<bar>changePercentage p - priceChange p / pp_currentPrice p * 100\<bar> \<le> 1/200)
     pricePredictions"
  by (simp add: fixture_simps)

end
