(* ===== verification/Predictions.thy ===== *)
theory Predictions
  imports Fixtures
begin

text \<open>
  The predictions page (\<open>src/src/pages/Predictions.tsx\<close>): the selected card
  and its lookup (lines 31 to 34), the random price history drawn for the
  chart (lines 37 to 47), the mock usage table (lines 50 to 83), and the
  classifiers the cards and the detail view render with (lines 100 to 240
  and 285 to 301).  \<open>Math.random()\<close> is a parameter \<open>rnd\<close>: \<open>rnd k\<close> is the
  value of the \<open>k\<close>-th call during one run of \<open>generateHistoricalData\<close>, in
  the order the object literals evaluate their fields.  The page reads the
  fixture \<open>pricePredictions\<close>; the lookup takes the list as an argument.
\<close>

definition selectedPrediction :: "price_prediction list \<Rightarrow> string \<Rightarrow> price_prediction option" where
  "selectedPrediction preds selectedCrop =
     (if selectedCrop \<noteq> '''' then find (\<lambda>p. cropId p = selectedCrop) preds else None)"

record history_point =
  hp_month :: string
  hp_price :: int
  hp_demand :: int
  hp_supply :: int

definition history_months :: "string list" where
  "history_months = [''Sep'', ''Oct'', ''Nov'', ''Dec'', ''Jan'']"

definition generateHistoricalData :: "string \<Rightarrow> rat \<Rightarrow> (nat \<Rightarrow> rat) \<Rightarrow> history_point list" where
  "generateHistoricalData crop_name current_price rnd =
     map (\<lambda>(index, month).
            \<lparr>hp_month = month,
             hp_price = js_round (current_price + (rnd (3 * index) - 1/2) * 200 + of_nat index * 50),
             hp_demand = js_round (60 + rnd (3 * index + 1) * 40),
             hp_supply = js_round (70 + rnd (3 * index + 2) * 30)\<rparr>)
         (enumerate 0 history_months)"

record crop_usage =
  usage_crop :: string
  lastMonth :: rat
  thisMonth :: rat
  nextMonth :: rat
  festival :: string
  usage_reason :: string

definition cropUsageData :: "crop_usage list" where
  "cropUsageData = [
     \<lparr>usage_crop = ''Rice'', lastMonth = 125000, thisMonth = 138000, nextMonth = 152000,
      festival = ''Sankranti'', usage_reason = ''Festival consumption increases by 35%''\<rparr>,
     \<lparr>usage_crop = ''Cotton'', lastMonth = 89000, thisMonth = 85000, nextMonth = 95000,
      festival = ''Wedding Season'', usage_reason = ''Textile demand for wedding season''\<rparr>,
     \<lparr>usage_crop = ''Onion'', lastMonth = 67000, thisMonth = 72000, nextMonth = 98000,
      festival = ''Festival Season'', usage_reason = ''Increased cooking and festival preparations''\<rparr>,
     \<lparr>usage_crop = ''Turmeric'', lastMonth = 15000, thisMonth = 18000, nextMonth = 24000,
      festival = ''Wedding Season'', usage_reason = ''Religious ceremonies and wedding preparations''\<rparr>]"

text \<open>The badge of a usage row: \<open>((next - this) / this * 100).toFixed(1)\<close>, then "% increase expected".\<close>

definition usage_increase :: "crop_usage \<Rightarrow> fixed_text" where
  "usage_increase u = to_fixed1 (js_scale (js_div (nextMonth u - thisMonth u) (thisMonth u)) 100)"

datatype badge_variant = BDestructive | BDefault | BSecondary

datatype trend_icon = TrendingUp | TrendingDown

datatype volatility_note = HighVolatility | ModerateMovement

text \<open>A card's icon and percentage badge, and the detail view's volatility note.\<close>

definition card_trend :: "rat \<Rightarrow> trend_icon" where
  "card_trend pct = (if 0 < pct then TrendingUp else TrendingDown)"

definition change_badge :: "rat \<Rightarrow> badge_variant" where
  "change_badge pct =
     (if 15 < pct then BDestructive else if 5 < pct then BDefault else BSecondary)"

definition volatility :: "rat \<Rightarrow> volatility_note" where
  "volatility pct = (if 15 < pct then HighVolatility else ModerateMovement)"

text \<open>The detail view colours and signs the absolute change by \<open>priceChange > 0\<close>.\<close>

definition change_positive :: "price_prediction \<Rightarrow> bool" where
  "change_positive p = (0 < priceChange p)"

fun demand_badge :: "level \<Rightarrow> badge_variant" where
  "demand_badge High = BDestructive"
| "demand_badge Medium = BDefault"
| "demand_badge Low = BSecondary"

fun supply_badge :: "level \<Rightarrow> badge_variant" where
  "supply_badge Low = BDestructive"
| "supply_badge Medium = BDefault"
| "supply_badge High = BSecondary"


subsection \<open>Lemmas\<close>

lemma js_round_between:
  "of_int a \<le> x \<Longrightarrow> x \<le> of_int b \<Longrightarrow> a \<le> js_round x \<and> js_round x \<le> b"
  using js_round_mono [of "of_int a" x] js_round_mono [of x "of_int b"] by simp

lemma history_point_nth:
  "i < length history_months \<Longrightarrow>
   generateHistoricalData crop_name p rnd ! i =
     \<lparr>hp_month = history_months ! i,
      hp_price = js_round (p + (rnd (3 * i) - 1/2) * 200 + of_nat i * 50),
      hp_demand = js_round (60 + rnd (3 * i + 1) * 40),
      hp_supply = js_round (70 + rnd (3 * i + 2) * 30)\<rparr>"
  by (simp add: generateHistoricalData_def nth_enumerate_eq)

subsection \<open>Properties of the predictions page\<close>

text \<open>
  C36: the random price history: whatever \<open>Math.random()\<close> returns in
  \<open>[0, 1)\<close>, the chart has the five months in order, the \<open>i\<close>-th price is
  within 100.5 of the current price plus \<open>50 i\<close>, demand lies in
  \<open>[60, 100]\<close> and supply in \<open>[70, 100]\<close>.
\<close>

theorem generateHistoricalData_bounds:
  assumes rnd: "\<And>k. 0 \<le> rnd k \<and> rnd k < 1"
  shows "map hp_month (generateHistoricalData crop_name p rnd) = history_months \<and>
         (\<forall>i < length history_months.
            \<bar>of_int (hp_price (generateHistoricalData crop_name p rnd ! i)) - (p + 50 * of_nat i)\<bar> \<le> 201/2 \<and>
            60 \<le> hp_demand (generateHistoricalData crop_name p rnd ! i) \<and>
            hp_demand (generateHistoricalData crop_name p rnd ! i) \<le> 100 \<and>
            70 \<le> hp_supply (generateHistoricalData crop_name p rnd ! i) \<and>
            hp_supply (generateHistoricalData crop_name p rnd ! i) \<le> 100)"
proof -
  have months: "map hp_month (generateHistoricalData crop_name p rnd) = history_months"
    by (simp add: generateHistoricalData_def history_months_def)
  have point: "\<bar>of_int (hp_price (generateHistoricalData crop_name p rnd ! i)) - (p + 50 * of_nat i)\<bar> \<le> 201/2 \<and>
            60 \<le> hp_demand (generateHistoricalData crop_name p rnd ! i) \<and>
            hp_demand (generateHistoricalData crop_name p rnd ! i) \<le> 100 \<and>
            70 \<le> hp_supply (generateHistoricalData crop_name p rnd ! i) \<and>
            hp_supply (generateHistoricalData crop_name p rnd ! i) \<le> 100"
    if i: "i < length history_months" for i
  proof -
    let ?x = "p + (rnd (3 * i) - 1/2) * 200 + of_nat i * 50"
    have r0: "0 \<le> rnd (3 * i)" "rnd (3 * i) < 1" using rnd by auto
    have err: "\<bar>of_int (js_round ?x) - ?x\<bar> \<le> 1/2" by (rule js_round_error)
    have "\<bar>of_int (js_round ?x) - (p + 50 * of_nat i)\<bar> \<le> 201/2"
      using err r0 unfolding abs_le_iff by (simp add: algebra_simps)
    moreover have "60 \<le> js_round (60 + rnd (3 * i + 1) * 40) \<and> js_round (60 + rnd (3 * i + 1) * 40) \<le> 100"
      using rnd [of "3 * i + 1"] by (intro js_round_between) simp_all
    moreover have "70 \<le> js_round (70 + rnd (3 * i + 2) * 30) \<and> js_round (70 + rnd (3 * i + 2) * 30) \<le> 100"
      using rnd [of "3 * i + 2"] by (intro js_round_between) simp_all
    ultimately show ?thesis using i by (simp add: history_point_nth)
  qed
  from months point show ?thesis by blast
qed

theorem generateHistoricalData_bounds_witness:
  "map hp_price (generateHistoricalData ''Onion'' 2500 (\<lambda>k. 0)) = [2400, 2450, 2500, 2550, 2600] \<and>
   60 \<le> hp_demand (generateHistoricalData ''Onion'' 2500 (\<lambda>k. 0) ! 0)"
  using generateHistoricalData_bounds [of "\<lambda>k. 0" "''Onion''" 2500]
  by (simp add: generateHistoricalData_def history_months_def js_round_def)

text \<open>
  Clicking a card shows that card's prediction: for predictions with
  distinct, non-empty ids, looking up a card's id finds exactly its prediction.
\<close>

theorem selectedPrediction_card:
  assumes "distinct (map cropId preds)" and "p \<in> set preds" and "cropId p \<noteq> ''''"
  shows "selectedPrediction preds (cropId p) = Some p"
  using assms by (simp add: selectedPrediction_def find_distinct_key)

theorem selectedPrediction_card_witness:
  "map (\<lambda>p. selectedPrediction pricePredictions (cropId p)) pricePredictions = map Some pricePredictions"
proof -
  have "distinct (map cropId pricePredictions)" by (simp add: fixture_simps)
  moreover have "\<forall>p\<in>set pricePredictions. cropId p \<noteq> ''''" by (simp add: fixture_simps)
  ultimately show ?thesis using selectedPrediction_card [of pricePredictions] by (simp add: map_idI)
qed

text \<open>
  The card's trend icon (by \<open>changePercentage\<close>) and the detail view's
  sign and colour (by \<open>priceChange\<close>) agree for every prediction whose
  percentage is its change over a positive current price, as the specification
  requires of a computed prediction.
\<close>

theorem card_trend_agrees_with_detail:
  assumes "0 < pp_currentPrice p" and "changePercentage p = priceChange p / pp_currentPrice p * 100"
  shows "(card_trend (changePercentage p) = TrendingUp) = change_positive p"
  using assms by (simp add: card_trend_def change_positive_def zero_less_divide_iff zero_less_mult_iff)

theorem card_trend_agrees_with_detail_witness:
  "card_trend (changePercentage (pricePredictions ! 2)) = TrendingUp \<and> change_positive (pricePredictions ! 2)"
  using card_trend_agrees_with_detail [of "pricePredictions ! 2"]
  by (simp add: fixture_simps card_trend_def change_positive_def)

text \<open>
  On the page's data, Onion alone gets the destructive badge and the
  high-volatility note; Rice, Cotton and Turmeric get the default badge and the
  moderate note; every card shows a rising trend.
\<close>

theorem predictions_fixture_badges:
  "map (\<lambda>p. change_badge (changePercentage p)) pricePredictions = [BDefault, BDefault, BDestructive, BDefault] \<and>
   map (\<lambda>p. volatility (changePercentage p)) pricePredictions =
     [ModerateMovement, ModerateMovement, HighVolatility, ModerateMovement] \<and>
   map (\<lambda>p. card_trend (changePercentage p)) pricePredictions = [TrendingUp, TrendingUp, TrendingUp, TrendingUp]"
  by (simp add: fixture_simps change_badge_def volatility_def card_trend_def)

text \<open>
  C40: a usage row with a positive current month and no fall next month prints
  a non-negative percentage, within 0.05 of the exact increase; the page's four
  rows print 10.1, 11.8, 36.1 and 33.3.
\<close>

theorem usage_increase_bounds:
  assumes "0 < thisMonth u" and "thisMonth u \<le> nextMonth u"
  shows "\<exists>n. usage_increase u = Tenths n \<and> 0 \<le> n \<and>
             \<bar>of_int n / 10 - (nextMonth u - thisMonth u) / thisMonth u * 100\<bar> \<le> 1/20"
proof -
  let ?x = "(nextMonth u - thisMonth u) / thisMonth u * 100"
  have x0: "0 \<le> ?x" using assms by simp
  have u: "usage_increase u = to_fixed1 (JNum ?x)"
    using assms by (simp add: usage_increase_def js_div_def)
  define n where "n = \<lfloor>10 * ?x + 1/2\<rfloor>"
  have t: "to_fixed1 (JNum ?x) = Tenths n" using x0 by (simp add: n_def)
  have "0 \<le> 10 * ?x + 1/2" using x0 by linarith
  then have n0: "0 \<le> n" by (simp add: n_def)
  have "\<bar>tenths_value (Tenths n) - ?x\<bar> \<le> 1/20"
    using to_fixed1_error [of ?x] unfolding t .
  then have err: "\<bar>of_int n / 10 - ?x\<bar> \<le> 1/20" by (simp only: tenths_value_def fixed_text.case)
  from u t have ut: "usage_increase u = Tenths n" by (rule trans)
  show ?thesis
  proof (intro exI [where x = n] conjI)
    show "usage_increase u = Tenths n" by (rule ut)
    show "0 \<le> n" by (rule n0)
    show "\<bar>of_int n / 10 - ?x\<bar> \<le> 1/20" by (rule err)
  qed
qed

theorem usage_increase_bounds_witness:
  "map usage_increase cropUsageData = [Tenths 101, Tenths 118, Tenths 361, Tenths 333]"
proof -
  have "0 < thisMonth (cropUsageData ! 0) \<and> thisMonth (cropUsageData ! 0) \<le> nextMonth (cropUsageData ! 0)"
    by (simp add: cropUsageData_def)
  from usage_increase_bounds [OF conjunct1 [OF this] conjunct2 [OF this]] show ?thesis
    by (simp add: cropUsageData_def usage_increase_def js_div_def)
qed

end
