(* ===== verification/PredictionsPage.thy ===== *)
theory PredictionsPage
  imports Predictions
begin

text \<open>
  The predictions page as a state machine and its rendered output
  (\<open>src/src/pages/Predictions.tsx\<close>, lines 31, 96 to 274): the one hook
  \<open>selectedCrop\<close>, the card click as the only event, one card per prediction
  with its ring, trend icon, badge and figures, and, when the selection
  resolves, the detail view with the market factors, the volatility note and
  the history chart, whose data is drawn afresh by
  \<open>generateHistoricalData\<close> on every render (\<open>rnd\<close> is that render's
  \<open>Math.random()\<close> stream).
\<close>

record predictions_view =
  selectedCrop :: string

definition predictions_init :: predictions_view where
  "predictions_init = \<lparr>selectedCrop = ''''\<rparr>"

datatype predictions_event = ClickCard string

fun predictions_step :: "predictions_view \<Rightarrow> predictions_event \<Rightarrow> predictions_view" where
  "predictions_step v (ClickCard cid) = v\<lparr>selectedCrop := cid\<rparr>"

text \<open>A click is offered on every rendered card, that is, for the crop id of every prediction.\<close>

fun predictions_enabled :: "price_prediction list \<Rightarrow> predictions_view \<Rightarrow> predictions_event \<Rightarrow> bool" where
  "predictions_enabled preds v (ClickCard cid) = (cid \<in> set (map cropId preds))"

inductive predictions_reachable :: "price_prediction list \<Rightarrow> predictions_view \<Rightarrow> bool" for preds where
  init: "predictions_reachable preds predictions_init"
| step: "predictions_reachable preds v \<Longrightarrow> predictions_enabled preds v e \<Longrightarrow>
           predictions_reachable preds (predictions_step v e)"

record prediction_card =
  pc_key :: string
  pc_name :: string
  pc_ring :: bool
  pc_trend :: trend_icon
  pc_badge :: badge_variant
  pc_percentage :: rat
  pc_current :: rat
  pc_predicted :: rat
  pc_confidence :: rat

definition render_prediction_card :: "predictions_view \<Rightarrow> price_prediction \<Rightarrow> prediction_card" where
  "render_prediction_card v p =
     \<lparr>pc_key = cropId p, pc_name = cropName p, pc_ring = (selectedCrop v = cropId p),
      pc_trend = card_trend (changePercentage p), pc_badge = change_badge (changePercentage p),
      pc_percentage = changePercentage p, pc_current = pp_currentPrice p,
      pc_predicted = predictedPrice p, pc_confidence = confidence p\<rparr>"

record prediction_detail =
  pd_name :: string
  pd_current :: rat
  pd_predicted :: rat
  pd_change :: rat
  pd_change_positive :: bool
  pd_demand :: badge_variant
  pd_supply :: badge_variant
  pd_confidence :: rat
  pd_reason :: string
  pd_volatility :: volatility_note
  pd_history :: "history_point list"

definition render_detail :: "(nat \<Rightarrow> rat) \<Rightarrow> price_prediction \<Rightarrow> prediction_detail" where
  "render_detail rnd p =
     \<lparr>pd_name = cropName p, pd_current = pp_currentPrice p, pd_predicted = predictedPrice p,
      pd_change = priceChange p, pd_change_positive = change_positive p,
      pd_demand = demand_badge (demand p), pd_supply = supply_badge (pp_supply p),
      pd_confidence = confidence p, pd_reason = reason p,
      pd_volatility = volatility (changePercentage p),
      pd_history = generateHistoricalData (cropName p) (pp_currentPrice p) rnd\<rparr>"

text \<open>The page: the cards, and the detail view or (\<open>None\<close>) the prompt to click a card.\<close>

definition predictions_render ::
  "price_prediction list \<Rightarrow> (nat \<Rightarrow> rat) \<Rightarrow> predictions_view \<Rightarrow>
     prediction_card list \<times> prediction_detail option" where
  "predictions_render preds rnd v =
     (map (render_prediction_card v) preds,
      map_option (render_detail rnd) (selectedPrediction preds (selectedCrop v)))"

text \<open>
  A row of the crop usage table (lines 289 to 323), keyed by the crop's name;
  the three monthly figures go through the browser's \<open>toLocaleString\<close>,
  the parameter \<open>loc\<close>.
\<close>

record usage_row =
  ur_key :: string
  ur_title :: string
  ur_festival :: string
  ur_badge :: fixed_text
  ur_last :: string
  ur_this :: string
  ur_next :: string
  ur_reason :: string

definition render_usage_row :: "(rat \<Rightarrow> string) \<Rightarrow> crop_usage \<Rightarrow> usage_row" where
  "render_usage_row loc u =
     \<lparr>ur_key = usage_crop u, ur_title = usage_crop u, ur_festival = ''Festival Impact: '' @ festival u,
      ur_badge = usage_increase u, ur_last = loc (lastMonth u) @ '' MT'',
      ur_this = loc (thisMonth u) @ '' MT'', ur_next = loc (nextMonth u) @ '' MT'',
      ur_reason = usage_reason u\<rparr>"

definition usage_table :: "(rat \<Rightarrow> string) \<Rightarrow> usage_row list" where
  "usage_table loc = map (render_usage_row loc) cropUsageData"

subsection \<open>Lemmas\<close>

lemma predictions_reachable_selection:
  "predictions_reachable preds v \<Longrightarrow> selectedCrop v = '''' \<or> selectedCrop v \<in> set (map cropId preds)"
  by (induction rule: predictions_reachable.induct) (auto simp: predictions_init_def elim: predictions_enabled.elims)

lemma ringed_cards:
  "filter pc_ring (map (render_prediction_card v) preds) =
     map (render_prediction_card v) (filter (\<lambda>p. cropId p = selectedCrop v) preds)"
  by (induction preds) (auto simp: render_prediction_card_def)

lemma filter_distinct_key:
  assumes "distinct (map f xs)" and "x \<in> set xs"
  shows "filter (\<lambda>y. f y = f x) xs = [x]"
  using assms
proof (induction xs)
  case Nil
  then show ?case by simp
next
  case (Cons a xs)
  then show ?case by (auto simp: filter_empty_conv image_iff)
qed

text \<open>
  The usage table renders one row per entry of \<open>cropUsageData\<close> with
  distinct React keys, and every badge prints a positive percentage (no entry
  expects a fall).
\<close>

lemma usage_table_rows:
  "distinct (map ur_key (usage_table loc)) \<and> length (usage_table loc) = 4 \<and>
   list_all (\<lambda>r. \<exists>k. ur_badge r = Tenths k \<and> 0 < k) (usage_table loc)"
  by (simp add: usage_table_def render_usage_row_def cropUsageData_def usage_increase_def js_div_def)

subsection \<open>Properties of the page\<close>

text \<open>
  C6: the highlighted card and the detail view agree: with distinct, non-empty
  crop ids, in every view the page can reach, either no card has the ring and
  the prompt is shown, or exactly one card has the ring and the detail view is
  that card's prediction, whose volatility note is the high one exactly when
  the card's badge is destructive.
\<close>

theorem predictions_ring_matches_detail:
  assumes ids: "distinct (map cropId preds)" and ne: "'''' \<notin> set (map cropId preds)"
    and reach: "predictions_reachable preds v"
  shows "(snd (predictions_render preds rnd v) = None \<and>
          filter pc_ring (fst (predictions_render preds rnd v)) = []) \<or>
         (\<exists>p\<in>set preds. snd (predictions_render preds rnd v) = Some (render_detail rnd p) \<and>
            filter pc_ring (fst (predictions_render preds rnd v)) = [render_prediction_card v p] \<and>
            (pc_badge (render_prediction_card v p) = BDestructive \<longleftrightarrow>
             pd_volatility (render_detail rnd p) = HighVolatility))"
proof -
  from reach have "selectedCrop v = '''' \<or> selectedCrop v \<in> set (map cropId preds)"
    by (rule predictions_reachable_selection)
  then show ?thesis
  proof
    assume e: "selectedCrop v = ''''"
    with ne have "filter (\<lambda>p. cropId p = selectedCrop v) preds = []"
      by (force simp: filter_empty_conv)
    with e show ?thesis
      by (simp add: predictions_render_def selectedPrediction_def ringed_cards)
  next
    assume "selectedCrop v \<in> set (map cropId preds)"
    then obtain p where p: "p \<in> set preds" and sel: "selectedCrop v = cropId p" by auto
    from ne p sel have "selectedCrop v \<noteq> ''''" by force
    with ids p sel have "selectedPrediction preds (selectedCrop v) = Some p"
      by (simp add: selectedPrediction_def find_distinct_key)
    moreover from ids p have "filter (\<lambda>q. cropId q = cropId p) preds = [p]"
      by (rule filter_distinct_key)
    ultimately show ?thesis using p sel
      by (auto simp: predictions_render_def ringed_cards render_prediction_card_def render_detail_def
          change_badge_def volatility_def)
  qed
qed


theorem predictions_ring_matches_detail_witness:
  "distinct (map cropId pricePredictions) \<and> '''' \<notin> set (map cropId pricePredictions) \<and>
   predictions_reachable pricePredictions (predictions_step predictions_init (ClickCard ''onion'')) \<and>
   ((snd (predictions_render pricePredictions (\<lambda>_. 0) (predictions_step predictions_init (ClickCard ''onion''))) = None \<and>
     filter pc_ring (fst (predictions_render pricePredictions (\<lambda>_. 0)
       (predictions_step predictions_init (ClickCard ''onion'')))) = []) \<or>
    (\<exists>p\<in>set pricePredictions.
       snd (predictions_render pricePredictions (\<lambda>_. 0) (predictions_step predictions_init (ClickCard ''onion'')))
         = Some (render_detail (\<lambda>_. 0) p) \<and>
       filter pc_ring (fst (predictions_render pricePredictions (\<lambda>_. 0)
         (predictions_step predictions_init (ClickCard ''onion''))))
         = [render_prediction_card (predictions_step predictions_init (ClickCard ''onion'')) p] \<and>
       (pc_badge (render_prediction_card (predictions_step predictions_init (ClickCard ''onion'')) p) = BDestructive \<longleftrightarrow>
        pd_volatility (render_detail (\<lambda>_. 0) p) = HighVolatility)))"
proof -
  have ids: "distinct (map cropId pricePredictions)" by (simp add: fixture_simps)
  have ne: "'''' \<notin> set (map cropId pricePredictions)" by (simp add: fixture_simps)
  have r: "predictions_reachable pricePredictions (predictions_step predictions_init (ClickCard ''onion''))"
    by (rule predictions_reachable.step [OF predictions_reachable.init]) (simp add: fixture_simps)
  show ?thesis
    using predictions_ring_matches_detail [OF ids ne r, of "\<lambda>_. 0"] ids ne r by blast
qed

end
