(* ===== verification/Toast.thy ===== *)
theory Toast
  imports Main
begin

text \<open>
  The notifications every page raises through \<open>useToast()\<close>.  The toaster
  itself is not code of the repository; a call \<open>toast({ title, description,
  variant })\<close> is modelled as a value appended to the page's (or the site's)
  list of toasts, in the order the calls are made.
\<close>

datatype toast_variant = ToastDefault | Destructive

record toast =
  toast_title :: string
  toast_description :: string
  toast_variant :: toast_variant

definition error_toast :: "string \<Rightarrow> toast" where
  "error_toast d = \<lparr>toast_title = ''Error'', toast_description = d, toast_variant = Destructive\<rparr>"

definition success_toast :: "string \<Rightarrow> toast" where
  "success_toast d = \<lparr>toast_title = ''Success'', toast_description = d, toast_variant = ToastDefault\<rparr>"

end
