(* ===== verification/Site.thy ===== *)
theory Site
  imports Toast
begin

text \<open>
  The pages around the data: the header (\<open>src/src/components/layout/Header.tsx\<close>),
  the login page (\<open>src/src/pages/Login.tsx\<close>) and the contact page
  (\<open>src/src/pages/Contact.tsx\<close>), composed over one site state.  The router
  and the toaster are not code of the repository: the location is a string
  that a link or \<open>navigate(path)\<close> sets, a page's \<open>useState\<close> hooks start
  afresh whenever the router mounts it, and the header, part of the layout,
  keeps its state across routes.  \<open>mount\<close> counts the mounts, so that each
  page instance has an identity.  The footer's quick links
  (\<open>components/layout/Footer.tsx\<close>) and the home page's buttons
  (\<open>pages/Home.tsx\<close>) are links too; the rest of those pages is static text.

  Both forms simulate their work with \<open>setTimeout(..., 1000)\<close>.  A scheduled
  callback is a \<open>site_timer\<close> holding what its closure captured: the instance
  that scheduled it and, for the login, the \<open>formData\<close> of the render that
  created \<open>handleSubmit\<close>.  Timers of equal delay fire in the order they were
  set.  A callback that calls \<open>setState\<close> of an instance no longer mounted
  changes nothing; its \<open>toast\<close> and \<open>navigate\<close> calls still take effect.
\<close>

subsection \<open>The header\<close>

datatype lang = EN | TE

record header_ui =
  isMenuOpen :: bool
  language :: lang
  isLoggedIn :: bool

definition header_init :: header_ui where
  "header_init = \<lparr>isMenuOpen = False, language = EN, isLoggedIn = False\<rparr>"

definition navigation :: "(string \<times> string) list" where
  "navigation =
     [(''Home'', ''/''), (''Dashboard'', ''/dashboard''), (''Predictions'', ''/predictions''),
      (''Recommendations'', ''/recommendations''), (''Admin'', ''/admin''), (''About'', ''/about''),
      (''Contact'', ''/contact'')]"

text \<open>The links the header renders: the logo, the navigation, and Login and Sign Up while logged out.\<close>

definition header_links :: "header_ui \<Rightarrow> string list" where
  "header_links h = ''/'' # map snd navigation @ (if isLoggedIn h then [] else [''/login'', ''/signup''])"

subsection \<open>The login page\<close>

record login_form =
  lf_email :: string
  lf_password :: string
  lf_userType :: string

record login_ui =
  showPassword :: bool
  isLoading :: bool
  formData :: login_form

definition login_init :: login_ui where
  "login_init =
     \<lparr>showPassword = False, isLoading = False,
      formData = \<lparr>lf_email = '''', lf_password = '''', lf_userType = ''farmer''\<rparr>\<rparr>"

datatype login_field = LEmail | LPassword | LUserType

text \<open>\<open>handleInputChange(field, value)\<close>: \<open>setFormData(prev => ({ ...prev, [field]: value }))\<close>.\<close>

fun login_input :: "login_field \<Rightarrow> string \<Rightarrow> login_form \<Rightarrow> login_form" where
  "login_input LEmail v f = f\<lparr>lf_email := v\<rparr>"
| "login_input LPassword v f = f\<lparr>lf_password := v\<rparr>"
| "login_input LUserType v f = f\<lparr>lf_userType := v\<rparr>"

definition login_target :: "login_form \<Rightarrow> string" where
  "login_target f = (if lf_userType f = ''admin'' then ''/admin'' else ''/dashboard'')"

definition login_toast :: "login_form \<Rightarrow> toast" where
  "login_toast f =
     \<lparr>toast_title = ''Login Successful!'',
      toast_description = ''Welcome back! Redirecting to '' @
        (if lf_userType f = ''admin'' then ''admin panel'' else ''dashboard'') @ ''...'',
      toast_variant = ToastDefault\<rparr>"

subsection \<open>The contact page\<close>

record contact_form =
  cf_name :: string
  cf_email :: string
  cf_phone :: string
  cf_userType :: string
  cf_subject :: string
  cf_message :: string

record contact_ui =
  isSubmitting :: bool
  c_formData :: contact_form

definition contact_blank :: contact_form where
  "contact_blank =
     \<lparr>cf_name = '''', cf_email = '''', cf_phone = '''', cf_userType = '''', cf_subject = '''',
      cf_message = ''''\<rparr>"

definition contact_init :: contact_ui where
  "contact_init = \<lparr>isSubmitting = False, c_formData = contact_blank\<rparr>"

datatype contact_field = CName | CEmail | CPhone | CUserType | CSubject | CMessage

fun contact_input :: "contact_field \<Rightarrow> string \<Rightarrow> contact_form \<Rightarrow> contact_form" where
  "contact_input CName v f = f\<lparr>cf_name := v\<rparr>"
| "contact_input CEmail v f = f\<lparr>cf_email := v\<rparr>"
| "contact_input CPhone v f = f\<lparr>cf_phone := v\<rparr>"
| "contact_input CUserType v f = f\<lparr>cf_userType := v\<rparr>"
| "contact_input CSubject v f = f\<lparr>cf_subject := v\<rparr>"
| "contact_input CMessage v f = f\<lparr>cf_message := v\<rparr>"

definition contact_toast :: toast where
  "contact_toast =
     \<lparr>toast_title = ''Message Sent Successfully!'',
      toast_description = ''Thank you for contacting us. We'll get back to you within 24 hours.'',
      toast_variant = ToastDefault\<rparr>"

definition contact_user_types :: "string list" where
  "contact_user_types = [''farmer'', ''trader'', ''researcher'', ''government'', ''student'', ''other'']"

subsection \<open>What the two forms render\<close>

text \<open>
  The login card (\<open>Login.tsx\<close> lines 72 to 196): the role buttons'
  variants, the description chosen by the role, the password field's type and
  the toggle's icon, the submit button's label and \<open>disabled\<close>, and the demo
  credentials the page prints.
\<close>

datatype button_variant = VDefault | VOutline

datatype eye_icon = Eye | EyeOff

record login_view =
  farmer_variant :: button_variant
  admin_variant :: button_variant
  login_description :: string
  password_type :: string
  eye :: eye_icon
  submit_label :: string
  submit_disabled :: bool

definition role_variant :: "string \<Rightarrow> login_form \<Rightarrow> button_variant" where
  "role_variant r f = (if lf_userType f = r then VDefault else VOutline)"

definition login_view :: "login_ui \<Rightarrow> login_view" where
  "login_view u =
     \<lparr>farmer_variant = role_variant ''farmer'' (formData u),
      admin_variant = role_variant ''admin'' (formData u),
      login_description =
        (if lf_userType (formData u) = ''admin'' then ''Access the admin panel to manage data and users''
         else ''Access your dashboard and personalized insights''),
      password_type = (if showPassword u then ''text'' else ''password''),
      eye = (if showPassword u then EyeOff else Eye),
      submit_label = (if isLoading u then ''Signing in...'' else ''Sign In''),
      submit_disabled = isLoading u\<rparr>"

definition demo_credentials :: "(string \<times> string \<times> string) list" where
  "demo_credentials = [(''Farmer'', ''farmer@demo.com'', ''demo123''), (''Admin'', ''admin@demo.com'', ''admin123'')]"

text \<open>The contact form's submit button (\<open>Contact.tsx\<close> lines 219 to 228).\<close>

record contact_view =
  send_label :: string
  send_disabled :: bool

definition contact_view :: "contact_ui \<Rightarrow> contact_view" where
  "contact_view u =
     \<lparr>send_label = (if isSubmitting u then ''Sending...'' else ''Send Message''),
      send_disabled = isSubmitting u\<rparr>"

subsection \<open>The site\<close>

datatype site_timer = LoginTimer nat login_form | ContactTimer nat

record site =
  location :: string
  header :: header_ui
  login :: login_ui
  contact :: contact_ui
  mount :: nat
  timers :: "site_timer list"
  site_toasts :: "toast list"

definition site_init :: "string \<Rightarrow> site" where
  "site_init path =
     \<lparr>location = path, header = header_init, login = login_init, contact = contact_init,
      mount = 0, timers = [], site_toasts = []\<rparr>"

text \<open>A route change unmounts the page and mounts the next one with fresh state.\<close>

definition navigate :: "string \<Rightarrow> site \<Rightarrow> site" where
  "navigate path S =
     (if path = location S then S
      else S\<lparr>location := path, mount := Suc (mount S), login := login_init, contact := contact_init\<rparr>)"




text \<open>The login page's own links: forgot password, sign up, back to home.\<close>

definition login_links :: "string list" where
  "login_links = [''/forgot-password'', ''/signup'', ''/'']"

text \<open>The layout's footer links (\<open>Footer.tsx\<close>) and the home page's buttons (\<open>Home.tsx\<close>).\<close>

definition footer_links :: "string list" where
  "footer_links = [''/dashboard'', ''/predictions'', ''/recommendations'', ''/about'']"

definition home_hero_links :: "string list" where
  "home_hero_links = [''/dashboard'', ''/predictions'']"

definition home_about_link :: string where
  "home_about_link = ''/about''"

definition home_cta_links :: "string list" where
  "home_cta_links = [''/signup'', ''/contact'']"

text \<open>\<open>handleSubmit\<close> of the login form: \<open>setIsLoading(true)\<close> and schedule the redirect.\<close>

definition handleLoginSubmit :: "site \<Rightarrow> site" where
  "handleLoginSubmit S =
     S\<lparr>login := (login S)\<lparr>isLoading := True\<rparr>,
       timers := timers S @ [LoginTimer (mount S) (formData (login S))]\<rparr>"

definition handleContactSubmit :: "site \<Rightarrow> site" where
  "handleContactSubmit S =
     S\<lparr>contact := (contact S)\<lparr>isSubmitting := True\<rparr>, timers := timers S @ [ContactTimer (mount S)]\<rparr>"

text \<open>
  The login callback: toast, \<open>navigate\<close> to the captured role's page, then
  \<open>setIsLoading(false)\<close> on the instance that scheduled it, if still mounted.
\<close>

definition login_callback :: "nat \<Rightarrow> login_form \<Rightarrow> site \<Rightarrow> site" where
  "login_callback g f S =
     (let S' = navigate (login_target f) (S\<lparr>site_toasts := site_toasts S @ [login_toast f]\<rparr>)
      in if location S' = ''/login'' \<and> mount S' = g then S'\<lparr>login := (login S')\<lparr>isLoading := False\<rparr>\<rparr> else S')"

text \<open>The contact callback: toast, \<open>setIsSubmitting(false)\<close> and reset the form, on its instance.\<close>

definition contact_callback :: "nat \<Rightarrow> site \<Rightarrow> site" where
  "contact_callback g S =
     (let S' = S\<lparr>site_toasts := site_toasts S @ [contact_toast]\<rparr>
      in if location S' = ''/contact'' \<and> mount S' = g
         then S'\<lparr>contact := \<lparr>isSubmitting = False, c_formData = contact_blank\<rparr>\<rparr> else S')"

fun run_timer :: "site_timer \<Rightarrow> site \<Rightarrow> site" where
  "run_timer (LoginTimer g f) S = login_callback g f S"
| "run_timer (ContactTimer g) S = contact_callback g S"

text \<open>The toast each callback shows, whether or not its page is still mounted.\<close>

fun timer_toast :: "site_timer \<Rightarrow> toast" where
  "timer_toast (LoginTimer g f) = login_toast f"
| "timer_toast (ContactTimer g) = contact_toast"

datatype site_event =
    NavLink string
  | MobileNavLink string
  | ToggleMenu
  | SetLanguage lang
  | Logout
  | LoginInput login_field string
  | TogglePassword
  | SubmitLogin
  | ContactInput contact_field string
  | SubmitContact
  | TimerFires

fun site_step :: "site \<Rightarrow> site_event \<Rightarrow> site" where
  "site_step S (NavLink path) = navigate path S"
| "site_step S (MobileNavLink path) = navigate path (S\<lparr>header := (header S)\<lparr>isMenuOpen := False\<rparr>\<rparr>)"
| "site_step S ToggleMenu = S\<lparr>header := (header S)\<lparr>isMenuOpen := \<not> isMenuOpen (header S)\<rparr>\<rparr>"
| "site_step S (SetLanguage l) = S\<lparr>header := (header S)\<lparr>language := l\<rparr>\<rparr>"
| "site_step S Logout = S\<lparr>header := (header S)\<lparr>isLoggedIn := False\<rparr>\<rparr>"
| "site_step S (LoginInput fld v) =
     S\<lparr>login := (login S)\<lparr>formData := login_input fld v (formData (login S))\<rparr>\<rparr>"
| "site_step S TogglePassword = S\<lparr>login := (login S)\<lparr>showPassword := \<not> showPassword (login S)\<rparr>\<rparr>"
| "site_step S SubmitLogin = handleLoginSubmit S"
| "site_step S (ContactInput fld v) =
     S\<lparr>contact := (contact S)\<lparr>c_formData := contact_input fld v (c_formData (contact S))\<rparr>\<rparr>"
| "site_step S SubmitContact = handleContactSubmit S"
| "site_step S TimerFires =
     (case timers S of [] \<Rightarrow> S | t # ts \<Rightarrow> run_timer t (S\<lparr>timers := ts\<rparr>))"

subsection \<open>The browser's check of an e-mail field\<close>

text \<open>
  Both forms' e-mail inputs have \<open>type="email"\<close> (\<open>Login.tsx\<close> line 112,
  \<open>Contact.tsx\<close> line 154), so the browser refuses to submit a non-empty value
  that is not a valid e-mail address in the sense of the HTML standard: a
  local part of one or more characters of \<open>a-z A-Z 0-9 .!#$%&'*+/=?^_`{|}~-\<close>,
  one \<open>@\<close>, and a domain of one or more labels separated by dots, each of 1
  to 63 letters, digits or hyphens, neither starting nor ending with a hyphen.
  This is the browser's behaviour, not code of the repository; the value
  checked is the field's value as the browser reports it to \<open>onChange\<close>.
\<close>

definition ascii_alnum :: "char \<Rightarrow> bool" where
  "ascii_alnum c =
     (let n = (of_char c :: nat) in (48 \<le> n \<and> n \<le> 57) \<or> (65 \<le> n \<and> n \<le> 90) \<or> (97 \<le> n \<and> n \<le> 122))"

definition email_local_char :: "char \<Rightarrow> bool" where
  "email_local_char c = (ascii_alnum c \<or> c \<in> set ''.!#$%&'*+/=?^_`{|}~-'')"

definition email_label :: "string \<Rightarrow> bool" where
  "email_label l =
     (l \<noteq> [] \<and> length l \<le> 63 \<and> list_all (\<lambda>c. ascii_alnum c \<or> c = CHR ''-'') l \<and>
      hd l \<noteq> CHR ''-'' \<and> last l \<noteq> CHR ''-'')"

fun split_on :: "char \<Rightarrow> string \<Rightarrow> string list" where
  "split_on d [] = [[]]"
| "split_on d (c # cs) =
     (if c = d then [] # split_on d cs
      else (case split_on d cs of w # ws \<Rightarrow> (c # w) # ws | [] \<Rightarrow> [[c]]))"

definition valid_email :: "string \<Rightarrow> bool" where
  "valid_email s =
     (case split_on CHR ''@'' s of
        [lp, dp] \<Rightarrow> lp \<noteq> [] \<and> list_all email_local_char lp \<and> list_all email_label (split_on CHR ''.'' dp)
      | _ \<Rightarrow> False)"

text \<open>
  What the site offers.  The header's links are always there; the mobile ones
  while the menu is open; Logout only in the profile menu of a logged-in user.
  A form is submitted only on its page, with its button enabled, its
  \<open>required\<close> fields non-empty and its e-mail a valid address: the two
  checks the browser makes before it calls \<open>onSubmit\<close>.  The
  role buttons set \<open>'farmer'\<close> or \<open>'admin'\<close>; the contact select offers its six
  values.
\<close>

fun site_enabled :: "site \<Rightarrow> site_event \<Rightarrow> bool" where
  "site_enabled S (NavLink path) =
     (path \<in> set (header_links (header S)) \<or> path \<in> set footer_links \<or>
      (location S = ''/'' \<and> path \<in> set (home_hero_links @ home_about_link # home_cta_links)) \<or>
      (location S = ''/login'' \<and> path \<in> set login_links))"
| "site_enabled S (MobileNavLink path) = (isMenuOpen (header S) \<and> path \<in> set (map snd navigation))"
| "site_enabled S ToggleMenu = True"
| "site_enabled S (SetLanguage l) = True"
| "site_enabled S Logout = isLoggedIn (header S)"
| "site_enabled S (LoginInput fld v) =
     (location S = ''/login'' \<and>
      (case fld of LUserType \<Rightarrow> v \<in> {''farmer'', ''admin''} | _ \<Rightarrow> True))"
| "site_enabled S TogglePassword = (location S = ''/login'')"
| "site_enabled S SubmitLogin =
     (location S = ''/login'' \<and> \<not> isLoading (login S) \<and>
      valid_email (lf_email (formData (login S))) \<and> lf_password (formData (login S)) \<noteq> '''')"
| "site_enabled S (ContactInput fld v) =
     (location S = ''/contact'' \<and>
      (case fld of CUserType \<Rightarrow> v \<in> set contact_user_types | _ \<Rightarrow> True))"
| "site_enabled S SubmitContact =
     (location S = ''/contact'' \<and> \<not> isSubmitting (contact S) \<and>
      cf_name (c_formData (contact S)) \<noteq> '''' \<and> valid_email (cf_email (c_formData (contact S))) \<and>
      cf_subject (c_formData (contact S)) \<noteq> '''' \<and> cf_message (c_formData (contact S)) \<noteq> '''')"
| "site_enabled S TimerFires = (timers S \<noteq> [])"

inductive site_reachable :: "site \<Rightarrow> bool" where
  init: "site_reachable (site_init path)"
| step: "site_reachable S \<Longrightarrow> site_enabled S e \<Longrightarrow> site_reachable (site_step S e)"


fun site_trace_ok :: "site \<Rightarrow> site_event list \<Rightarrow> bool" where
  "site_trace_ok S [] = True"
| "site_trace_ok S (e # es) = (site_enabled S e \<and> site_trace_ok (site_step S e) es)"

fun timer_gen :: "site_timer \<Rightarrow> nat" where
  "timer_gen (LoginTimer g f) = g"
| "timer_gen (ContactTimer g) = g"

fun login_timer_of :: "nat \<Rightarrow> site_timer \<Rightarrow> bool" where
  "login_timer_of g (LoginTimer g' f) = (g' = g)"
| "login_timer_of g (ContactTimer g') = False"

fun contact_timer_of :: "nat \<Rightarrow> site_timer \<Rightarrow> bool" where
  "contact_timer_of g (ContactTimer g') = (g' = g)"
| "contact_timer_of g (LoginTimer g' f) = False"

text \<open>
  The invariant behind the busy flags: every timer belongs to an instance
  mounted so far; a page that is not shown has its initial state; and the
  instance on screen has exactly one pending timer while its flag is set, none
  otherwise.
\<close>

definition site_inv :: "site \<Rightarrow> bool" where
  "site_inv S \<longleftrightarrow>
     list_all (\<lambda>t. timer_gen t \<le> mount S) (timers S) \<and>
     (location S \<noteq> ''/login'' \<longrightarrow> login S = login_init) \<and>
     (location S \<noteq> ''/contact'' \<longrightarrow> contact S = contact_init) \<and>
     length (filter (login_timer_of (mount S)) (timers S)) = (if isLoading (login S) then 1 else 0) \<and>
     length (filter (contact_timer_of (mount S)) (timers S)) = (if isSubmitting (contact S) then 1 else 0)"

text \<open>A user signs in as a farmer and, within the second, follows the header's Contact link.\<close>

definition demo_login_events :: "site_event list" where
  "demo_login_events =
     [LoginInput LEmail ''ravi@farm.in'', LoginInput LPassword ''secret'', SubmitLogin,
      NavLink ''/contact'']"

text \<open>A user sends the contact form and keeps typing in the message box while it is sent.\<close>

definition demo_contact_events :: "site_event list" where
  "demo_contact_events =
     [ContactInput CName ''Ravi'', ContactInput CEmail ''ravi@farm.in'', ContactInput CSubject ''Prices'',
      ContactInput CMessage ''When will cotton prices rise?'', SubmitContact,
      ContactInput CMessage ''Also: onion prices?'']"

subsection \<open>Lemmas\<close>


lemma site_reachable_trace:
  "site_reachable S \<Longrightarrow> site_trace_ok S es \<Longrightarrow> site_reachable (foldl site_step S es)"
  by (induction es arbitrary: S) (auto intro: site_reachable.step)

lemma navigate_mount: "mount S \<le> mount (navigate p S)"
  by (simp add: navigate_def)

lemma filter_gen_absent:
  "list_all (\<lambda>t. timer_gen t \<le> m) ts \<Longrightarrow> filter (login_timer_of (Suc m)) ts = [] \<and>
     filter (contact_timer_of (Suc m)) ts = []"
proof (induction ts)
  case Nil
  then show ?case by simp
next
  case (Cons t ts)
  then show ?case by (cases t) auto
qed

lemma site_inv_init: "site_inv (site_init p)"
  by (simp add: site_inv_def site_init_def login_init_def contact_init_def)

lemma site_inv_navigate: "site_inv S \<Longrightarrow> site_inv (navigate p S)"
  unfolding navigate_def site_inv_def
  by (auto simp: filter_gen_absent login_init_def contact_init_def list_all_iff)

lemma site_inv_toasts [simp]: "site_inv (S\<lparr>site_toasts := x\<rparr>) = site_inv S"
  by (simp add: site_inv_def)

lemma site_inv_header [simp]: "site_inv (S\<lparr>header := h\<rparr>) = site_inv S"
  by (simp add: site_inv_def)

lemma site_inv_drop:
  "site_inv S \<Longrightarrow> timers S = t # ts \<Longrightarrow> timer_gen t \<noteq> mount S \<Longrightarrow> site_inv (S\<lparr>timers := ts\<rparr>)"
  by (cases t) (auto simp: site_inv_def)

lemma site_inv_busy:
  "site_inv S \<Longrightarrow> (isLoading (login S) \<longrightarrow> location S = ''/login'') \<and>
                   (isSubmitting (contact S) \<longrightarrow> location S = ''/contact'')"
  by (auto simp: site_inv_def login_init_def contact_init_def)

lemma login_target_not_login: "login_target f \<noteq> ''/login''"
  by (simp add: login_target_def)

lemma site_inv_login_callback:
  assumes inv: "site_inv S" and tm: "timers S = LoginTimer g f # ts"
  shows "site_inv (login_callback g f (S\<lparr>timers := ts\<rparr>))"
proof (cases "g = mount S")
  case True
  with inv tm have "isLoading (login S)" by (auto simp: site_inv_def split: if_splits)
  with inv have loc: "location S = ''/login''" using site_inv_busy by blast
  from inv tm have gens: "list_all (\<lambda>t. timer_gen t \<le> mount S) ts" by (simp add: site_inv_def)
  from gens have gens': "list_all (\<lambda>t. timer_gen t \<le> Suc (mount S)) ts" by (auto simp: list_all_iff)
  show ?thesis
    using loc gens' login_target_not_login [of f] filter_gen_absent [OF gens]
    by (simp add: login_callback_def navigate_def Let_def site_inv_def login_init_def contact_init_def
                  list_all_iff)
next
  case False
  have inv0: "site_inv (S\<lparr>timers := ts\<rparr>)" using False by (intro site_inv_drop [OF inv tm]) simp
  from inv tm have "g \<le> mount S" by (simp add: site_inv_def)
  with False have lt: "g < mount S" by simp
  let ?S' = "navigate (login_target f) (S\<lparr>timers := ts, site_toasts := site_toasts S @ [login_toast f]\<rparr>)"
  have "site_inv ?S'" using inv0 by (intro site_inv_navigate) simp
  moreover have "mount S \<le> mount ?S'"
    using navigate_mount [of "S\<lparr>timers := ts, site_toasts := site_toasts S @ [login_toast f]\<rparr>"] by simp
  ultimately show ?thesis using lt by (simp add: login_callback_def Let_def)
qed

lemma site_inv_contact_callback:
  assumes inv: "site_inv S" and tm: "timers S = ContactTimer g # ts"
  shows "site_inv (contact_callback g (S\<lparr>timers := ts\<rparr>))"
proof (cases "g = mount S")
  case True
  with inv tm have "isSubmitting (contact S)" by (auto simp: site_inv_def split: if_splits)
  with inv have loc: "location S = ''/contact''" using site_inv_busy by blast
  show ?thesis
    using inv tm loc True by (auto simp: contact_callback_def site_inv_def contact_init_def split: if_splits)
next
  case False
  have "site_inv (S\<lparr>timers := ts\<rparr>)" using False by (intro site_inv_drop [OF inv tm]) simp
  with False show ?thesis by (simp add: contact_callback_def Let_def)
qed

text \<open>
  Every link the site offers leads to a route of the navigation, to the login
  page, or to \<open>/signup\<close> or \<open>/forgot-password\<close>, for which
  \<open>src/pages\<close> has no page.
\<close>

lemma site_link_targets:
  assumes "site_enabled S (NavLink p) \<or> site_enabled S (MobileNavLink p)"
  shows "p \<in> set (map snd navigation) \<or> p \<in> {''/login'', ''/signup'', ''/forgot-password''}"
proof -
  have "set (header_links h) \<subseteq> set (map snd navigation) \<union> {''/login'', ''/signup''}" for h
    by (auto simp: header_links_def navigation_def)
  moreover have "set footer_links \<subseteq> set (map snd navigation)"
    by (simp add: footer_links_def navigation_def)
  moreover have "set (home_hero_links @ home_about_link # home_cta_links) \<subseteq>
                   set (map snd navigation) \<union> {''/signup''}"
    by (simp add: home_hero_links_def home_about_link_def home_cta_links_def navigation_def)
  moreover have "set login_links \<subseteq> set (map snd navigation) \<union> {''/signup'', ''/forgot-password''}"
    by (simp add: login_links_def navigation_def)
  ultimately show ?thesis using assms by auto
qed

lemma site_inv_step: "site_inv S \<Longrightarrow> site_enabled S e \<Longrightarrow> site_inv (site_step S e)"
proof (cases e)
  case (NavLink p)
  moreover assume "site_inv S"
  ultimately show ?thesis by (simp add: site_inv_navigate)
next
  case (MobileNavLink p)
  moreover assume "site_inv S"
  ultimately show ?thesis by (simp add: site_inv_navigate)
next
  case TimerFires
  moreover assume "site_inv S" and "site_enabled S e"
  ultimately show ?thesis
    by (cases "timers S"; cases "hd (timers S)")
       (auto simp: site_inv_login_callback site_inv_contact_callback)
qed (auto simp: site_inv_def handleLoginSubmit_def handleContactSubmit_def)

lemma site_reachable_inv: "site_reachable S \<Longrightarrow> site_inv S"
  by (induction rule: site_reachable.induct) (auto simp: site_inv_init site_inv_step)

lemma filter_login_timer_nonempty:
  "(filter (login_timer_of g) ts \<noteq> []) = (\<exists>f. LoginTimer g f \<in> set ts)"
proof (induction ts)
  case Nil
  then show ?case by simp
next
  case (Cons t ts)
  then show ?case by (cases t) auto
qed

lemma filter_contact_timer_nonempty:
  "(filter (contact_timer_of g) ts \<noteq> []) = (ContactTimer g \<in> set ts)"
proof (induction ts)
  case Nil
  then show ?case by simp
next
  case (Cons t ts)
  then show ?case by (cases t) auto
qed

lemmas valid_email_simps = valid_email_def email_label_def email_local_char_def ascii_alnum_def

lemma valid_email_demo: "valid_email ''ravi@farm.in''"
  by (simp add: valid_email_simps)

lemma demo_login_run:
  "site_trace_ok (site_init ''/login'') demo_login_events \<and>
   foldl site_step (site_init ''/login'') demo_login_events =
     \<lparr>location = ''/contact'', header = header_init, login = login_init, contact = contact_init,
      mount = 1,
      timers = [LoginTimer 0 \<lparr>lf_email = ''ravi@farm.in'', lf_password = ''secret'', lf_userType = ''farmer''\<rparr>],
      site_toasts = []\<rparr>"
  by (simp add: demo_login_events_def site_init_def login_init_def handleLoginSubmit_def navigate_def
                header_links_def navigation_def header_init_def valid_email_demo)

lemma demo_contact_run:
  "site_trace_ok (site_init ''/contact'') demo_contact_events \<and>
   foldl site_step (site_init ''/contact'') demo_contact_events =
     \<lparr>location = ''/contact'', header = header_init, login = login_init,
      contact = \<lparr>isSubmitting = True,
                 c_formData = \<lparr>cf_name = ''Ravi'', cf_email = ''ravi@farm.in'', cf_phone = '''',
                               cf_userType = '''', cf_subject = ''Prices'',
                               cf_message = ''Also: onion prices?''\<rparr>\<rparr>,
      mount = 0, timers = [ContactTimer 0], site_toasts = []\<rparr>"
  by (simp add: demo_contact_events_def site_init_def contact_init_def contact_blank_def
                handleContactSubmit_def contact_user_types_def valid_email_demo)

lemma timers_run_timer [simp]: "timers (run_timer t S) = timers S"
  by (cases t) (simp_all add: login_callback_def contact_callback_def navigate_def Let_def)

lemma toasts_run_timer [simp]: "site_toasts (run_timer t S) = site_toasts S @ [timer_toast t]"
  by (cases t) (simp_all add: login_callback_def contact_callback_def navigate_def Let_def)

lemma drain_timers:
  "timers S = ts \<Longrightarrow>
   site_trace_ok S (replicate (length ts) TimerFires) \<and>
   timers (foldl site_step S (replicate (length ts) TimerFires)) = [] \<and>
   site_toasts (foldl site_step S (replicate (length ts) TimerFires)) = site_toasts S @ map timer_toast ts"
  by (induction ts arbitrary: S) auto

lemma header_run_timer: "header (run_timer t S) = header S"
  by (cases t) (simp_all add: login_callback_def contact_callback_def navigate_def Let_def)

lemma count_flag: "length xs = (if b then 1 else 0) \<Longrightarrow> (xs \<noteq> []) = b"
  by (cases b) auto

subsection \<open>Properties of the site\<close>

text \<open>
  C14: the header never shows a logged-in user: in every run of the site,
  whatever the user does and however the login flow ends, \<open>isLoggedIn\<close>
  stays false and the header keeps offering Login, since no code of the
  repository ever sets it.
\<close>

theorem header_never_logged_in:
  "site_reachable S \<Longrightarrow> \<not> isLoggedIn (header S) \<and> ''/login'' \<in> set (header_links (header S))"
proof (induction rule: site_reachable.induct)
  case (init path)
  then show ?case by (simp add: site_init_def header_init_def header_links_def)
next
  case (step S e)
  then have "\<not> isLoggedIn (header (site_step S e))"
    by (cases e) (auto simp: navigate_def handleLoginSubmit_def handleContactSubmit_def header_run_timer
                   split: list.split)
  then show ?case by (simp add: header_links_def)
qed

theorem header_never_logged_in_witness:
  "\<not> isLoggedIn (header (site_step (foldl site_step (site_init ''/login'') demo_login_events) TimerFires)) \<and>
   location (site_step (foldl site_step (site_init ''/login'') demo_login_events) TimerFires) = ''/dashboard''"
proof -
  let ?S = "foldl site_step (site_init ''/login'') demo_login_events"
  have r: "site_reachable ?S" using demo_login_run by (intro site_reachable_trace site_reachable.init) simp
  have "site_reachable (site_step ?S TimerFires)"
    using r demo_login_run by (intro site_reachable.step) simp_all
  from header_never_logged_in [OF this] show ?thesis
    unfolding demo_login_run [THEN conjunct2]
    by (simp add: login_callback_def navigate_def login_target_def)
qed

text \<open>
  C15: the busy flags of the two forms mean what they show: the login page
  is "Signing in..." exactly while a redirect timer of that page instance is
  pending, the contact page is "Sending..." exactly while its timer is
  pending, and either flag is set only on its own page.
\<close>

theorem site_busy_flags:
  assumes "site_reachable S"
  shows "(isLoading (login S) \<longleftrightarrow> (\<exists>f. LoginTimer (mount S) f \<in> set (timers S))) \<and>
         (isSubmitting (contact S) \<longleftrightarrow> ContactTimer (mount S) \<in> set (timers S)) \<and>
         (isLoading (login S) \<longrightarrow> location S = ''/login'') \<and>
         (isSubmitting (contact S) \<longrightarrow> location S = ''/contact'')"
proof -
  from assms have inv: "site_inv S" by (rule site_reachable_inv)
  have "(filter (login_timer_of (mount S)) (timers S) \<noteq> []) = isLoading (login S)"
    using inv unfolding site_inv_def by (metis count_flag)
  moreover have "(filter (contact_timer_of (mount S)) (timers S) \<noteq> []) = isSubmitting (contact S)"
    using inv unfolding site_inv_def by (metis count_flag)
  ultimately
  show ?thesis
    using inv site_inv_busy filter_login_timer_nonempty filter_contact_timer_nonempty by metis
qed

theorem site_busy_flags_witness:
  "isSubmitting (contact (foldl site_step (site_init ''/contact'') demo_contact_events)) \<and>
   ContactTimer 0 \<in> set (timers (foldl site_step (site_init ''/contact'') demo_contact_events))"
proof -
  let ?S = "foldl site_step (site_init ''/contact'') demo_contact_events"
  have r: "site_reachable ?S" using demo_contact_run by (intro site_reachable_trace site_reachable.init) simp
  from site_busy_flags [OF r] show ?thesis
    unfolding demo_contact_run [THEN conjunct2] by simp
qed

text \<open>
  C26: the simulated login is not cancelled when the page is left: there is a
  run in which the user submits the login form, follows the header's Contact
  link within the second, and is then taken to the dashboard with a "Login
  Successful!" toast.
\<close>

theorem login_redirect_after_leaving:
  "\<exists>S. site_reachable S \<and> location S = ''/contact'' \<and> site_enabled S TimerFires \<and>
       location (site_step S TimerFires) = ''/dashboard'' \<and>
       site_toasts (site_step S TimerFires) = site_toasts S @
         [login_toast \<lparr>lf_email = ''ravi@farm.in'', lf_password = ''secret'', lf_userType = ''farmer''\<rparr>]"
proof -
  let ?S = "foldl site_step (site_init ''/login'') demo_login_events"
  have r: "site_reachable ?S" using demo_login_run by (intro site_reachable_trace site_reachable.init) simp
  have "location ?S = ''/contact'' \<and> site_enabled ?S TimerFires \<and>
       location (site_step ?S TimerFires) = ''/dashboard'' \<and>
       site_toasts (site_step ?S TimerFires) = site_toasts ?S @
         [login_toast \<lparr>lf_email = ''ravi@farm.in'', lf_password = ''secret'', lf_userType = ''farmer''\<rparr>]"
    unfolding demo_login_run [THEN conjunct2]
    by (simp add: login_callback_def navigate_def login_target_def)
  with r show ?thesis by (intro exI [where x = ?S]) simp
qed

text \<open>
  C37: the contact form discards what is typed while it is being sent: there is
  a run in which the user edits the message during the second of the simulated
  submission, and the callback then clears the form and reports the message as
  sent.
\<close>

theorem contact_edit_discarded:
  "\<exists>S. site_reachable S \<and> site_enabled S TimerFires \<and> isSubmitting (contact S) \<and>
       cf_message (c_formData (contact S)) = ''Also: onion prices?'' \<and>
       c_formData (contact (site_step S TimerFires)) = contact_blank \<and>
       site_toasts (site_step S TimerFires) = site_toasts S @ [contact_toast]"
proof -
  let ?S = "foldl site_step (site_init ''/contact'') demo_contact_events"
  have r: "site_reachable ?S" using demo_contact_run by (intro site_reachable_trace site_reachable.init) simp
  have "site_enabled ?S TimerFires \<and> isSubmitting (contact ?S) \<and>
       cf_message (c_formData (contact ?S)) = ''Also: onion prices?'' \<and>
       c_formData (contact (site_step ?S TimerFires)) = contact_blank \<and>
       site_toasts (site_step ?S TimerFires) = site_toasts ?S @ [contact_toast]"
    unfolding demo_contact_run [THEN conjunct2] by (simp add: contact_callback_def)
  with r show ?thesis by (intro exI [where x = ?S]) simp
qed




text \<open>
  C22: every submission is answered and the forms come back: from any state
  of the site, letting the pending timeouts fire, one per scheduled callback,
  is possible, empties the queue, shows each callback's toast in the order
  the forms were submitted (also for pages the user has left), and leaves
  neither form busy.
\<close>

theorem site_submissions_answered:
  assumes reach: "site_reachable S"
  shows "site_trace_ok S (replicate (length (timers S)) TimerFires) \<and>
         timers (foldl site_step S (replicate (length (timers S)) TimerFires)) = [] \<and>
         site_toasts (foldl site_step S (replicate (length (timers S)) TimerFires)) =
           site_toasts S @ map timer_toast (timers S) \<and>
         \<not> isLoading (login (foldl site_step S (replicate (length (timers S)) TimerFires))) \<and>
         \<not> isSubmitting (contact (foldl site_step S (replicate (length (timers S)) TimerFires)))"
proof -
  let ?S' = "foldl site_step S (replicate (length (timers S)) TimerFires)"
  have drain: "site_trace_ok S (replicate (length (timers S)) TimerFires) \<and> timers ?S' = [] \<and>
               site_toasts ?S' = site_toasts S @ map timer_toast (timers S)"
    by (rule drain_timers) (rule refl)
  then have "site_reachable ?S'" using reach by (blast intro: site_reachable_trace)
  then have "site_inv ?S'" by (rule site_reachable_inv)
  with drain have "\<not> isLoading (login ?S') \<and> \<not> isSubmitting (contact ?S')"
    by (simp add: site_inv_def split: if_splits)
  with drain show ?thesis by blast
qed

theorem site_submissions_answered_witness:
  "site_reachable (foldl site_step (site_init ''/login'') demo_login_events) \<and>
   site_toasts (foldl site_step (foldl site_step (site_init ''/login'') demo_login_events) [TimerFires]) =
     [login_toast \<lparr>lf_email = ''ravi@farm.in'', lf_password = ''secret'', lf_userType = ''farmer''\<rparr>]"
proof -
  let ?S = "foldl site_step (site_init ''/login'') demo_login_events"
  have r: "site_reachable ?S" using demo_login_run by (intro site_reachable_trace site_reachable.init) simp
  from site_submissions_answered [OF r] r show ?thesis
    unfolding demo_login_run [THEN conjunct2] by simp
qed

end
