(* ===== verification/GatewayStore.thy ===== *)
theory GatewayStore
  imports Domain "HOL-Library.Option_ord"
begin

text \<open>
  The persisted rows the gateway reads and writes, and the behaviour of the
  hosted Postgres database behind the PostgREST calls the client issues.  The
  row types are the interfaces \<open>DbState\<close>, \<open>DbDistrict\<close>, \<open>DbCrop\<close> and
  \<open>DbPricePrediction\<close> of \<open>src/src/lib/supabase.ts\<close> (lines 9 to 51).  Each
  is split the way the client's insert payload types split it:
  \<open>Omit<DbCrop, 'id' | 'created_at' | 'updated_at'>\<close> is the record
  \<open>crop_payload\<close>, and \<open>db_crop\<close> extends it with the omitted fields, so that
  \<open>crop_payload.truncate\<close> of a row is what was inserted.  Field names carry a
  table prefix (\<open>dbs_\<close>, \<open>dbd_\<close>, \<open>dbc_\<close>, \<open>dbp_\<close>) because the tables
  share column names.  Timestamps are server clock ticks (\<open>nat\<close>); the ISO
  strings of the source order as the ticks do.

  The database itself is not code of the repository: its schema (primary keys,
  foreign keys \<open>districts.state_id\<close> and \<open>crops.district_id\<close>, defaults for
  \<open>id\<close> and the timestamps) is the one section 6 of the specification gives,
  and the semantics of each PostgREST request are the documented ones: an
  insert fails on a duplicate key or a dangling foreign key; \<open>.single()\<close>
  fails unless exactly one row is returned, and the request is then rolled
  back; a filtered delete succeeds whatever it matches; \<open>.order('name')\<close>
  sorts by the column (the byte order of the C collation; rows with equal
  names in table order).  A server-generated id is \<open>gen_uuid\<close> of a counter
  \<open>next_key\<close>; a collision is a key violation like any other.
\<close>

type_synonym timestamp = nat

record state_payload =
  dbs_id :: string
  dbs_name :: string

record db_state = state_payload +
  dbs_created_at :: "timestamp option"
  dbs_updated_at :: "timestamp option"

record district_payload =
  dbd_id :: string
  dbd_name :: string
  dbd_state_id :: string

record db_district = district_payload +
  dbd_created_at :: "timestamp option"
  dbd_updated_at :: "timestamp option"

record crop_payload =
  dbc_name :: string
  dbc_district_id :: string
  dbc_land_used :: rat
  dbc_expected_yield :: rat
  dbc_current_price :: rat
  dbc_season :: string
  dbc_sowing_month :: string
  dbc_harvest_month :: string

record db_crop = crop_payload +
  dbc_id :: string
  dbc_created_at :: "timestamp option"
  dbc_updated_at :: "timestamp option"

record prediction_payload =
  dbp_crop_name :: string
  dbp_current_price :: rat
  dbp_predicted_price :: rat
  dbp_price_change :: rat
  dbp_change_percentage :: rat
  dbp_demand :: level
  dbp_supply :: level
  dbp_reason :: string
  dbp_confidence :: rat

record db_prediction = prediction_payload +
  dbp_id :: string
  dbp_created_at :: "timestamp option"
  dbp_updated_at :: "timestamp option"

text \<open>\<open>Partial<DbCrop>\<close>: every column optional; \<open>None\<close> is a field the object does not have.\<close>

record crop_patch =
  p_id :: "string option"
  p_name :: "string option"
  p_district_id :: "string option"
  p_land_used :: "rat option"
  p_expected_yield :: "rat option"
  p_current_price :: "rat option"
  p_season :: "string option"
  p_sowing_month :: "string option"
  p_harvest_month :: "string option"
  p_created_at :: "timestamp option"
  p_updated_at :: "timestamp option"

text \<open>The four tables, the server clock and the key generator.\<close>

record db_store =
  states_tbl :: "db_state list"
  districts_tbl :: "db_district list"
  crops_tbl :: "db_crop list"
  predictions_tbl :: "db_prediction list"
  server_clock :: timestamp
  next_key :: nat

text \<open>The errors a request can return (the \<open>error\<close> of \<open>{ data, error }\<close>).\<close>

datatype db_error = TransportError | UniqueViolation | ForeignKeyViolation | NotSingleRow

text \<open>
  What happens to one request on the network: it is answered, it never reaches
  the server, or the server commits it and the answer is lost.
\<close>

datatype link = Delivered | Unreachable | ReplyLost

subsection \<open>Server-side primitives\<close>

fun decimal :: "nat \<Rightarrow> string" where
  "decimal n = (if n < 10 then [''0123456789'' ! n] else decimal (n div 10) @ [''0123456789'' ! (n mod 10)])"

definition gen_uuid :: "nat \<Rightarrow> string" where
  "gen_uuid n = ''uuid-'' @ decimal n"

definition pg_request ::
  "link \<Rightarrow> (db_store \<Rightarrow> (db_error + 'a) \<times> db_store) \<Rightarrow> db_store \<Rightarrow> (db_error + 'a) \<times> db_store" where
  "pg_request l f s =
     (case l of
        Delivered \<Rightarrow> f s
      | Unreachable \<Rightarrow> (Inl TransportError, s)
      | ReplyLost \<Rightarrow> (Inl TransportError, snd (f s)))"

definition pg_insert_state :: "state_payload \<Rightarrow> db_store \<Rightarrow> (db_error + db_state) \<times> db_store" where
  "pg_insert_state p s =
     (if dbs_id p \<in> set (map dbs_id (states_tbl s)) then (Inl UniqueViolation, s)
      else let row = state_payload.extend p
                       (db_state.fields (Some (server_clock s)) (Some (server_clock s)))
           in (Inr row, s\<lparr>states_tbl := states_tbl s @ [row]\<rparr>))"

definition pg_insert_district :: "district_payload \<Rightarrow> db_store \<Rightarrow> (db_error + db_district) \<times> db_store" where
  "pg_insert_district p s =
     (if dbd_id p \<in> set (map dbd_id (districts_tbl s)) then (Inl UniqueViolation, s)
      else if dbd_state_id p \<notin> set (map dbs_id (states_tbl s)) then (Inl ForeignKeyViolation, s)
      else let row = district_payload.extend p
                       (db_district.fields (Some (server_clock s)) (Some (server_clock s)))
           in (Inr row, s\<lparr>districts_tbl := districts_tbl s @ [row]\<rparr>))"

definition pg_insert_crop :: "crop_payload \<Rightarrow> db_store \<Rightarrow> (db_error + db_crop) \<times> db_store" where
  "pg_insert_crop p s =
     (let key = gen_uuid (next_key s) in
      if key \<in> set (map dbc_id (crops_tbl s)) then (Inl UniqueViolation, s)
      else if dbc_district_id p \<notin> set (map dbd_id (districts_tbl s)) then (Inl ForeignKeyViolation, s)
      else let row = crop_payload.extend p
                       (db_crop.fields key (Some (server_clock s)) (Some (server_clock s)))
           in (Inr row, s\<lparr>crops_tbl := crops_tbl s @ [row], next_key := Suc (next_key s)\<rparr>))"

definition pg_insert_prediction ::
  "prediction_payload \<Rightarrow> db_store \<Rightarrow> (db_error + db_prediction) \<times> db_store" where
  "pg_insert_prediction p s =
     (let key = gen_uuid (next_key s) in
      if key \<in> set (map dbp_id (predictions_tbl s)) then (Inl UniqueViolation, s)
      else let row = prediction_payload.extend p
                       (db_prediction.fields key (Some (server_clock s)) (Some (server_clock s)))
           in (Inr row, s\<lparr>predictions_tbl := predictions_tbl s @ [row], next_key := Suc (next_key s)\<rparr>))"

definition given_or :: "'a option \<Rightarrow> 'a \<Rightarrow> 'a" where
  "given_or v d = (case v of Some x \<Rightarrow> x | None \<Rightarrow> d)"

text \<open>An \<open>UPDATE ... SET\<close> with the columns the patch object has.\<close>

definition apply_crop_patch :: "crop_patch \<Rightarrow> db_crop \<Rightarrow> db_crop" where
  "apply_crop_patch u r =
     r\<lparr>dbc_name := given_or (p_name u) (dbc_name r),
       dbc_district_id := given_or (p_district_id u) (dbc_district_id r),
       dbc_land_used := given_or (p_land_used u) (dbc_land_used r),
       dbc_expected_yield := given_or (p_expected_yield u) (dbc_expected_yield r),
       dbc_current_price := given_or (p_current_price u) (dbc_current_price r),
       dbc_season := given_or (p_season u) (dbc_season r),
       dbc_sowing_month := given_or (p_sowing_month u) (dbc_sowing_month r),
       dbc_harvest_month := given_or (p_harvest_month u) (dbc_harvest_month r),
       dbc_id := given_or (p_id u) (dbc_id r),
       dbc_created_at := (case p_created_at u of Some t \<Rightarrow> Some t | None \<Rightarrow> dbc_created_at r),
       dbc_updated_at := (case p_updated_at u of Some t \<Rightarrow> Some t | None \<Rightarrow> dbc_updated_at r)\<rparr>"

text \<open>
  \<open>.update(u).eq('id', key).select().single()\<close>: update the rows with that id,
  check the keys, and answer with the single updated row; any other row count
  is an error and the update is rolled back.
\<close>

definition pg_update_crop_single ::
  "string \<Rightarrow> crop_patch \<Rightarrow> db_store \<Rightarrow> (db_error + db_crop) \<times> db_store" where
  "pg_update_crop_single key u s =
     (let tbl = map (\<lambda>r. if dbc_id r = key then apply_crop_patch u r else r) (crops_tbl s);
          hit = map (apply_crop_patch u) (filter (\<lambda>r. dbc_id r = key) (crops_tbl s))
      in if \<not> distinct (map dbc_id tbl) then (Inl UniqueViolation, s)
         else if \<not> list_all (\<lambda>r. dbc_district_id r \<in> set (map dbd_id (districts_tbl s))) hit
           then (Inl ForeignKeyViolation, s)
         else case hit of
                [row] \<Rightarrow> (Inr row, s\<lparr>crops_tbl := tbl\<rparr>)
              | _ \<Rightarrow> (Inl NotSingleRow, s))"

definition pg_delete_crop :: "string \<Rightarrow> db_store \<Rightarrow> (db_error + unit) \<times> db_store" where
  "pg_delete_crop key s = (Inr (), s\<lparr>crops_tbl := filter (\<lambda>r. dbc_id r \<noteq> key) (crops_tbl s)\<rparr>)"

lemma decimal_digit [simp]: "n < 10 \<Longrightarrow> decimal n = [''0123456789'' ! n]"
  by (subst decimal.simps) simp

declare decimal.simps [simp del]

end
