(* ===== verification/Gateway.thy ===== *)
theory Gateway
  imports GatewayStore "HOL-Library.Multiset"
begin

text \<open>
  The client's database functions \<open>dbQueries\<close>.  The admin page
  (\<open>src/src/pages/Admin.tsx\<close>, lines 77 to 167) carries the copy that runs:
  \<open>getStates\<close>, \<open>createState\<close>, \<open>getDistricts\<close>, \<open>createDistrict\<close>,
  \<open>getCrops\<close>, \<open>createCrop\<close>, \<open>updateCrop\<close>, \<open>deleteCrop\<close>;
  \<open>src/src/lib/supabase.ts\<close> repeats them and adds \<open>getPricePredictions\<close>,
  \<open>createPricePrediction\<close> and the nested read \<open>getStatesWithDistricts\<close>
  (lines 148 to 185).  Each function is one request: \<open>pg_request\<close> threads
  the store through it and turns a failed request into \<open>Inl\<close>, which is the
  \<open>throw error\<close> of the source.  \<open>if (stateId)\<close> and \<open>if (districtId)\<close>
  test JavaScript truthiness: an absent or empty id adds no filter.

  \<open>gateway_call\<close> is the interface the admin page and the invariants share: a
  datatype with one constructor per function, and \<open>run_call\<close> runs one.
\<close>

definition getStates :: "link \<Rightarrow> db_store \<Rightarrow> (db_error + db_state list) \<times> db_store" where
  "getStates l s = pg_request l (\<lambda>s. (Inr (sort_key dbs_name (states_tbl s)), s)) s"

definition createState ::
  "link \<Rightarrow> state_payload \<Rightarrow> db_store \<Rightarrow> (db_error + db_state) \<times> db_store" where
  "createState l state s = pg_request l (pg_insert_state state) s"

definition getDistricts ::
  "link \<Rightarrow> string option \<Rightarrow> db_store \<Rightarrow> (db_error + db_district list) \<times> db_store" where
  "getDistricts l stateId s =
     pg_request l (\<lambda>s.
       (Inr (sort_key dbd_name
               (case stateId of
                  Some sid \<Rightarrow> if sid \<noteq> '''' then filter (\<lambda>d. dbd_state_id d = sid) (districts_tbl s)
                              else districts_tbl s
                | None \<Rightarrow> districts_tbl s)), s)) s"

definition createDistrict ::
  "link \<Rightarrow> district_payload \<Rightarrow> db_store \<Rightarrow> (db_error + db_district) \<times> db_store" where
  "createDistrict l district s = pg_request l (pg_insert_district district) s"

definition getCrops ::
  "link \<Rightarrow> string option \<Rightarrow> db_store \<Rightarrow> (db_error + db_crop list) \<times> db_store" where
  "getCrops l districtId s =
     pg_request l (\<lambda>s.
       (Inr (sort_key dbc_name
               (case districtId of
                  Some did \<Rightarrow> if did \<noteq> '''' then filter (\<lambda>c. dbc_district_id c = did) (crops_tbl s)
                              else crops_tbl s
                | None \<Rightarrow> crops_tbl s)), s)) s"

definition createCrop :: "link \<Rightarrow> crop_payload \<Rightarrow> db_store \<Rightarrow> (db_error + db_crop) \<times> db_store" where
  "createCrop l crop s = pg_request l (pg_insert_crop crop) s"

text \<open>\<open>update({ ...updates, updated_at: new Date().toISOString() })\<close>: the client's clock \<open>now\<close> wins over any \<open>updated_at\<close> of \<open>updates\<close>.\<close>

definition updateCrop ::
  "link \<Rightarrow> timestamp \<Rightarrow> string \<Rightarrow> crop_patch \<Rightarrow> db_store \<Rightarrow> (db_error + db_crop) \<times> db_store" where
  "updateCrop l now key updates s =
     pg_request l (pg_update_crop_single key (updates\<lparr>p_updated_at := Some now\<rparr>)) s"

definition deleteCrop :: "link \<Rightarrow> string \<Rightarrow> db_store \<Rightarrow> (db_error + unit) \<times> db_store" where
  "deleteCrop l key s = pg_request l (pg_delete_crop key) s"

definition getPricePredictions :: "link \<Rightarrow> db_store \<Rightarrow> (db_error + db_prediction list) \<times> db_store" where
  "getPricePredictions l s =
     pg_request l (\<lambda>s. (Inr (rev (sort_key dbp_created_at (predictions_tbl s))), s)) s"

definition createPricePrediction ::
  "link \<Rightarrow> prediction_payload \<Rightarrow> db_store \<Rightarrow> (db_error + db_prediction) \<times> db_store" where
  "createPricePrediction l prediction s = pg_request l (pg_insert_prediction prediction) s"

text \<open>The nested rows of \<open>select('*, districts (*, crops (*))')\<close>: each object gains an array field.\<close>

record district_node = db_district +
  node_crops :: "db_crop list"

record state_node = db_state +
  node_districts :: "district_node list"

definition district_node_of :: "db_store \<Rightarrow> db_district \<Rightarrow> district_node" where
  "district_node_of s d =
     db_district.extend d (district_node.fields (filter (\<lambda>c. dbc_district_id c = dbd_id d) (crops_tbl s)))"

definition state_node_of :: "db_store \<Rightarrow> db_state \<Rightarrow> state_node" where
  "state_node_of s st =
     db_state.extend st
       (state_node.fields
          (map (district_node_of s) (filter (\<lambda>d. dbd_state_id d = dbs_id st) (districts_tbl s))))"

definition getStatesWithDistricts :: "link \<Rightarrow> db_store \<Rightarrow> (db_error + state_node list) \<times> db_store" where
  "getStatesWithDistricts l s =
     pg_request l (\<lambda>s. (Inr (map (state_node_of s) (sort_key dbs_name (states_tbl s))), s)) s"

subsection \<open>The calls as one interface\<close>

datatype gateway_call =
    GetStates
  | CreateState state_payload
  | GetDistricts "string option"
  | CreateDistrict district_payload
  | GetCrops "string option"
  | CreateCrop crop_payload
  | UpdateCrop timestamp string crop_patch
  | DeleteCrop string
  | GetPricePredictions
  | CreatePricePrediction prediction_payload
  | GetStatesWithDistricts

datatype gateway_result =
    StateRows "db_state list" | StateRow db_state
  | DistrictRows "db_district list" | DistrictRow db_district
  | CropRows "db_crop list" | CropRow db_crop | Deleted
  | PredictionRows "db_prediction list" | PredictionRow db_prediction
  | StateTree "state_node list"

definition map_reply :: "('a \<Rightarrow> 'b) \<Rightarrow> (db_error + 'a) \<times> db_store \<Rightarrow> (db_error + 'b) \<times> db_store" where
  "map_reply f r = (map_sum id f (fst r), snd r)"

fun run_call :: "link \<Rightarrow> gateway_call \<Rightarrow> db_store \<Rightarrow> (db_error + gateway_result) \<times> db_store" where
  "run_call l GetStates s = map_reply StateRows (getStates l s)"
| "run_call l (CreateState p) s = map_reply StateRow (createState l p s)"
| "run_call l (GetDistricts sid) s = map_reply DistrictRows (getDistricts l sid s)"
| "run_call l (CreateDistrict p) s = map_reply DistrictRow (createDistrict l p s)"
| "run_call l (GetCrops did) s = map_reply CropRows (getCrops l did s)"
| "run_call l (CreateCrop p) s = map_reply CropRow (createCrop l p s)"
| "run_call l (UpdateCrop now key u) s = map_reply CropRow (updateCrop l now key u s)"
| "run_call l (DeleteCrop key) s = map_reply (\<lambda>_. Deleted) (deleteCrop l key s)"
| "run_call l GetPricePredictions s = map_reply PredictionRows (getPricePredictions l s)"
| "run_call l (CreatePricePrediction p) s = map_reply PredictionRow (createPricePrediction l p s)"
| "run_call l GetStatesWithDistricts s = map_reply StateTree (getStatesWithDistricts l s)"

text \<open>The schema's constraints: primary keys unique, foreign keys resolve.\<close>

definition store_wf :: "db_store \<Rightarrow> bool" where
  "store_wf s \<longleftrightarrow>
     distinct (map dbs_id (states_tbl s)) \<and> distinct (map dbd_id (districts_tbl s)) \<and>
     distinct (map dbc_id (crops_tbl s)) \<and> distinct (map dbp_id (predictions_tbl s)) \<and>
     list_all (\<lambda>d. dbd_state_id d \<in> set (map dbs_id (states_tbl s))) (districts_tbl s) \<and>
     list_all (\<lambda>c. dbc_district_id c \<in> set (map dbd_id (districts_tbl s))) (crops_tbl s)"

definition empty_store :: db_store where
  "empty_store = \<lparr>states_tbl = [], districts_tbl = [], crops_tbl = [], predictions_tbl = [],
                  server_clock = 0, next_key = 0\<rparr>"

text \<open>The stores the database can reach: any call over any link, and the clock ticking.\<close>

inductive store_reachable :: "db_store \<Rightarrow> bool" where
  empty: "store_reachable empty_store"
| call: "store_reachable s \<Longrightarrow> store_reachable (snd (run_call l c s))"
| tick: "store_reachable s \<Longrightarrow> store_reachable (s\<lparr>server_clock := Suc (server_clock s)\<rparr>)"

text \<open>A store with one state, one district and one crop, used by the witnesses below.\<close>

abbreviation example_crop :: db_crop where
  "example_crop \<equiv>
     \<lparr>dbc_name = ''Rice'', dbc_district_id = ''hyderabad'', dbc_land_used = 12500,
      dbc_expected_yield = 38750, dbc_current_price = 2100, dbc_season = ''Kharif'',
      dbc_sowing_month = ''June'', dbc_harvest_month = ''October'', dbc_id = ''uuid-0'',
      dbc_created_at = Some 0, dbc_updated_at = Some 0\<rparr>"

abbreviation example_store :: db_store where
  "example_store \<equiv>
     \<lparr>states_tbl = [\<lparr>dbs_id = ''telangana'', dbs_name = ''Telangana'',
                     dbs_created_at = Some 0, dbs_updated_at = Some 0\<rparr>],
      districts_tbl = [\<lparr>dbd_id = ''hyderabad'', dbd_name = ''Hyderabad'', dbd_state_id = ''telangana'',
                        dbd_created_at = Some 0, dbd_updated_at = Some 0\<rparr>],
      crops_tbl = [example_crop], predictions_tbl = [], server_clock = 5, next_key = 1\<rparr>"

abbreviation example_payload :: crop_payload where
  "example_payload \<equiv>
     \<lparr>dbc_name = ''Maize'', dbc_district_id = ''hyderabad'', dbc_land_used = 8200,
      dbc_expected_yield = 32800, dbc_current_price = 1850, dbc_season = ''Kharif'',
      dbc_sowing_month = ''June'', dbc_harvest_month = ''September''\<rparr>"

abbreviation price_patch :: crop_patch where
  "price_patch \<equiv>
     \<lparr>p_id = None, p_name = None, p_district_id = None, p_land_used = None, p_expected_yield = None,
      p_current_price = Some 2300, p_season = None, p_sowing_month = None, p_harvest_month = None,
      p_created_at = None, p_updated_at = Some 1\<rparr>"

subsection \<open>Every call keeps the schema's constraints\<close>

lemmas row_defs = state_payload.defs db_state.defs district_payload.defs db_district.defs
  crop_payload.defs db_crop.defs prediction_payload.defs db_prediction.defs

lemma wf_pg_request:
  "store_wf s \<Longrightarrow> store_wf (snd (f s)) \<Longrightarrow> store_wf (snd (pg_request l f s))"
  by (cases l) (simp_all add: pg_request_def)

lemma wf_insert_state: "store_wf s \<Longrightarrow> store_wf (snd (pg_insert_state p s))"
  by (auto simp: pg_insert_state_def store_wf_def row_defs Let_def list_all_iff)

lemma wf_insert_district: "store_wf s \<Longrightarrow> store_wf (snd (pg_insert_district p s))"
  by (auto simp: pg_insert_district_def store_wf_def row_defs Let_def list_all_iff)

lemma wf_insert_crop: "store_wf s \<Longrightarrow> store_wf (snd (pg_insert_crop p s))"
  by (auto simp: pg_insert_crop_def store_wf_def row_defs Let_def list_all_iff)

lemma wf_insert_prediction: "store_wf s \<Longrightarrow> store_wf (snd (pg_insert_prediction p s))"
  by (auto simp: pg_insert_prediction_def store_wf_def row_defs Let_def list_all_iff)

lemma wf_update_crop: "store_wf s \<Longrightarrow> store_wf (snd (pg_update_crop_single key u s))"
  by (auto simp: pg_update_crop_single_def store_wf_def Let_def list_all_iff
      split: list.splits)

lemma wf_delete_crop: "store_wf s \<Longrightarrow> store_wf (snd (pg_delete_crop key s))"
  by (auto simp: pg_delete_crop_def store_wf_def list_all_iff distinct_map_filter)

lemmas wf_primitives = wf_insert_state wf_insert_district wf_insert_crop wf_insert_prediction
  wf_update_crop wf_delete_crop

lemma wf_run_call: "store_wf s \<Longrightarrow> store_wf (snd (run_call l c s))"
  by (cases c)
    (auto simp: map_reply_def getStates_def createState_def getDistricts_def createDistrict_def
       getCrops_def createCrop_def updateCrop_def deleteCrop_def getPricePredictions_def
       createPricePrediction_def getStatesWithDistricts_def
       intro!: wf_pg_request wf_primitives)

lemma wf_empty_store: "store_wf empty_store"
  by (simp add: store_wf_def empty_store_def)

lemma store_reachable_wf: "store_reachable s \<Longrightarrow> store_wf s"
proof (induction rule: store_reachable.induct)
  case empty
  show ?case by (rule wf_empty_store)
next
  case (call s l c)
  from call.IH show ?case by (rule wf_run_call)
next
  case (tick s)
  then show ?case by (simp add: store_wf_def)
qed

subsection \<open>Lemmas on single calls\<close>

lemma filter_key_absent: "k \<notin> set (map f xs) \<Longrightarrow> filter (\<lambda>y. f y = k) xs = []"
  by (induction xs) auto

lemma filter_key_distinct:
  "distinct (map f xs) \<Longrightarrow> x \<in> set xs \<Longrightarrow> f x = k \<Longrightarrow> filter (\<lambda>y. f y = k) xs = [x]"
proof (induction xs)
  case Nil
  then show ?case by simp
next
  case (Cons a xs)
  from Cons.prems(1) have fa: "f a \<notin> set (map f xs)" and dist: "distinct (map f xs)" by simp_all
  show ?case
  proof (cases "a = x")
    case True
    with fa Cons.prems(3) show ?thesis by (simp add: filter_key_absent)
  next
    case False
    with Cons.prems(2) have x: "x \<in> set xs" by simp
    with fa Cons.prems(3) have "f a \<noteq> k" by (metis imageI set_map)
    with Cons.IH [OF dist x Cons.prems(3)] show ?thesis by simp
  qed
qed

lemma map_if_key_absent: "k \<notin> set (map f xs) \<Longrightarrow> map (\<lambda>y. if f y = k then g y else y) xs = xs"
  by (induction xs) auto

lemma dbc_id_apply_crop_patch: "dbc_id (apply_crop_patch u r) = given_or (p_id u) (dbc_id r)"
  by (simp add: apply_crop_patch_def)

lemma dbc_district_id_apply_crop_patch:
  "dbc_district_id (apply_crop_patch u r) = given_or (p_district_id u) (dbc_district_id r)"
  by (simp add: apply_crop_patch_def)

lemma ids_after_update:
  assumes "p_id u = None \<or> p_id u = Some key"
  shows "map dbc_id (map (\<lambda>x. if dbc_id x = key then apply_crop_patch u x else x) xs) = map dbc_id xs"
  using assms by (induction xs) (auto simp: dbc_id_apply_crop_patch given_or_def)

lemma pg_request_Delivered [simp]: "pg_request Delivered f s = f s"
  by (simp add: pg_request_def)

lemma pg_request_Unreachable [simp]: "pg_request Unreachable f s = (Inl TransportError, s)"
  by (simp add: pg_request_def)

lemma pg_request_ReplyLost [simp]: "pg_request ReplyLost f s = (Inl TransportError, snd (f s))"
  by (simp add: pg_request_def)

text \<open>\<open>.update(u).eq('id', key).single()\<close> on a stored id, with a patch that keeps the key.\<close>

lemma pg_update_crop_single_hit:
  assumes wf: "store_wf s" and row: "r \<in> set (crops_tbl s)" and key: "dbc_id r = key"
    and keep_key: "p_id u = None \<or> p_id u = Some key"
    and fk: "given_or (p_district_id u) (dbc_district_id r) \<in> set (map dbd_id (districts_tbl s))"
  shows "pg_update_crop_single key u s =
           (Inr (apply_crop_patch u r),
            s\<lparr>crops_tbl := map (\<lambda>x. if dbc_id x = key then apply_crop_patch u x else x) (crops_tbl s)\<rparr>)"
proof -
  from wf have dist: "distinct (map dbc_id (crops_tbl s))" by (simp add: store_wf_def)
  from dist row key have hit: "filter (\<lambda>x. dbc_id x = key) (crops_tbl s) = [r]"
    by (rule filter_key_distinct)
  from keep_key have ids: "map dbc_id (map (\<lambda>x. if dbc_id x = key then apply_crop_patch u x else x) (crops_tbl s))
                  = map dbc_id (crops_tbl s)"
    by (rule ids_after_update)
  have d2: "distinct (map dbc_id
      (map (\<lambda>x. if dbc_id x = key then apply_crop_patch u x else x) (crops_tbl s)))"
    unfolding ids by (rule dist)
  from fk have fk2: "dbc_district_id (apply_crop_patch u r) \<in> set (map dbd_id (districts_tbl s))"
    by (simp add: dbc_district_id_apply_crop_patch)
  show ?thesis
    using d2 hit fk2 by (simp add: pg_update_crop_single_def Let_def del: map_map)
qed

subsection \<open>Properties of the gateway\<close>

text \<open>
  C16: \<open>updateCrop\<close> on an existing id, with a patch that keeps the row's key and
  refers to an existing district, answers with the patched row and stores it in
  place of the old one, every other row unchanged; the row's \<open>updated_at\<close> is
  the client's clock whatever \<open>updated_at\<close> the patch carried.
\<close>

theorem updateCrop_existing_row:
  assumes wf: "store_wf s" and row: "r \<in> set (crops_tbl s)" and key: "dbc_id r = key"
    and keep_key: "p_id updates = None \<or> p_id updates = Some key"
    and fk: "given_or (p_district_id updates) (dbc_district_id r) \<in> set (map dbd_id (districts_tbl s))"
  shows "updateCrop Delivered now key updates s =
           (Inr (apply_crop_patch (updates\<lparr>p_updated_at := Some now\<rparr>) r),
            s\<lparr>crops_tbl := map (\<lambda>x. if dbc_id x = key
                                     then apply_crop_patch (updates\<lparr>p_updated_at := Some now\<rparr>) x else x)
                               (crops_tbl s)\<rparr>) \<and>
         dbc_updated_at (apply_crop_patch (updates\<lparr>p_updated_at := Some now\<rparr>) r) = Some now"
proof -
  let ?u = "updates\<lparr>p_updated_at := Some now\<rparr>"
  have "p_id ?u = None \<or> p_id ?u = Some key" and "given_or (p_district_id ?u) (dbc_district_id r) \<in> set (map dbd_id (districts_tbl s))"
    using keep_key fk by simp_all
  from pg_update_crop_single_hit [OF wf row key this] show ?thesis
    by (simp add: updateCrop_def apply_crop_patch_def)
qed

text \<open>
  C17: \<open>updateCrop\<close> on an id no row has is an error, never a silent no-op: the
  answer is the \<open>.single()\<close> failure (the specification's NotFoundError), and
  over any link the store is left as it was.
\<close>

theorem updateCrop_missing_row:
  assumes wf: "store_wf s" and absent: "key \<notin> set (map dbc_id (crops_tbl s))"
  shows "updateCrop Delivered now key updates s = (Inl NotSingleRow, s) \<and>
         snd (updateCrop l now key updates s) = s"
proof -
  let ?u = "updates\<lparr>p_updated_at := Some now\<rparr>"
  from wf have dist: "distinct (map dbc_id (crops_tbl s))" by (simp add: store_wf_def)
  from absent have "filter (\<lambda>x. dbc_id x = key) (crops_tbl s) = []" by (rule filter_key_absent)
  moreover from absent have
    "map (\<lambda>x. if dbc_id x = key then apply_crop_patch ?u x else x) (crops_tbl s) = crops_tbl s"
    by (rule map_if_key_absent)
  ultimately have "pg_update_crop_single key ?u s = (Inl NotSingleRow, s)"
    using dist by (simp add: pg_update_crop_single_def)
  then show ?thesis by (cases l) (simp_all add: updateCrop_def)
qed

text \<open>
  C18: \<open>deleteCrop\<close> removes the rows with the id and succeeds; on an id no row
  has it still succeeds and changes nothing, so a caller cannot tell a missing
  row from a deleted one (the specification expects a NotFoundError).
\<close>

theorem deleteCrop_absent_key_succeeds:
  "deleteCrop Delivered key s = (Inr (), s\<lparr>crops_tbl := filter (\<lambda>r. dbc_id r \<noteq> key) (crops_tbl s)\<rparr>) \<and>
   (key \<notin> set (map dbc_id (crops_tbl s)) \<longrightarrow> deleteCrop Delivered key s = (Inr (), s))"
proof -
  have "key \<notin> set (map dbc_id (crops_tbl s)) \<Longrightarrow> filter (\<lambda>r. dbc_id r \<noteq> key) (crops_tbl s) = crops_tbl s"
    by (induction "crops_tbl s" arbitrary: s) (auto simp: filter_id_conv)
  then show ?thesis by (auto simp: deleteCrop_def pg_delete_crop_def)
qed

theorem updateCrop_existing_row_witness:
  "store_wf example_store \<and>
   fst (updateCrop Delivered 7 ''uuid-0'' price_patch example_store) =
     Inr (example_crop\<lparr>dbc_current_price := 2300, dbc_updated_at := Some 7\<rparr>)"
proof -
  have wf: "store_wf example_store" by (simp add: store_wf_def)
  have "fst (updateCrop Delivered 7 ''uuid-0'' price_patch example_store) =
          Inr (apply_crop_patch (price_patch\<lparr>p_updated_at := Some 7\<rparr>) example_crop)"
    using updateCrop_existing_row [OF wf, of example_crop "''uuid-0''" price_patch 7]
    by (simp add: given_or_def)
  then show ?thesis using wf by (simp add: apply_crop_patch_def given_or_def)
qed

theorem updateCrop_missing_row_witness:
  "store_wf example_store \<and> ''uuid-9'' \<notin> set (map dbc_id (crops_tbl example_store)) \<and>
   updateCrop Delivered 7 ''uuid-9'' price_patch example_store = (Inl NotSingleRow, example_store)"
proof -
  have wf: "store_wf example_store" by (simp add: store_wf_def)
  have absent: "''uuid-9'' \<notin> set (map dbc_id (crops_tbl example_store))" by simp
  show ?thesis using wf absent updateCrop_missing_row [OF wf absent, of 7 price_patch Delivered] by simp
qed

theorem deleteCrop_absent_key_succeeds_witness:
  "''uuid-9'' \<notin> set (map dbc_id (crops_tbl example_store)) \<and>
   deleteCrop Delivered ''uuid-9'' example_store = (Inr (), example_store)"
  using deleteCrop_absent_key_succeeds [of "''uuid-9''" example_store] by simp

subsection \<open>Creating and listing\<close>

lemma getCrops_Delivered:
  "getCrops Delivered (Some did) s =
     (Inr (sort_key dbc_name (if did \<noteq> '''' then filter (\<lambda>c. dbc_district_id c = did) (crops_tbl s)
                              else crops_tbl s)), s)"
  by (simp add: getCrops_def)

lemma insert_crop_success:
  assumes "gen_uuid (next_key s) \<notin> set (map dbc_id (crops_tbl s))"
    and "dbc_district_id crop \<in> set (map dbd_id (districts_tbl s))"
  shows "pg_insert_crop crop s =
           (Inr (crop_payload.extend crop
                   (db_crop.fields (gen_uuid (next_key s)) (Some (server_clock s)) (Some (server_clock s)))),
            s\<lparr>crops_tbl := crops_tbl s @
                 [crop_payload.extend crop
                   (db_crop.fields (gen_uuid (next_key s)) (Some (server_clock s)) (Some (server_clock s)))],
              next_key := Suc (next_key s)\<rparr>)"
  using assms by (simp add: pg_insert_crop_def Let_def)

text \<open>
  C19: \<open>createCrop\<close> of a crop of an existing district succeeds (when the
  server's generated key is new) and answers with a row that carries the
  inserted fields and a server-assigned id no row had before; listing the crops
  of that district afterwards includes the row.
\<close>

theorem createCrop_then_getCrops:
  assumes fresh: "gen_uuid (next_key s) \<notin> set (map dbc_id (crops_tbl s))"
    and fk: "dbc_district_id crop \<in> set (map dbd_id (districts_tbl s))"
  shows "\<exists>row s'. createCrop Delivered crop s = (Inr row, s') \<and>
           crop_payload.truncate row = crop \<and> dbc_id row \<notin> set (map dbc_id (crops_tbl s)) \<and>
           (\<exists>rows. getCrops Delivered (Some (dbc_district_id crop)) s' = (Inr rows, s') \<and> row \<in> set rows)"
proof -
  let ?row = "crop_payload.extend crop
                (db_crop.fields (gen_uuid (next_key s)) (Some (server_clock s)) (Some (server_clock s)))"
  let ?s' = "s\<lparr>crops_tbl := crops_tbl s @ [?row], next_key := Suc (next_key s)\<rparr>"
  have create: "createCrop Delivered crop s = (Inr ?row, ?s')"
    using insert_crop_success [OF fresh fk] by (simp add: createCrop_def)
  have trunc: "crop_payload.truncate ?row = crop"
    by (simp add: row_defs crop_payload.truncate_def)
  have key: "dbc_id ?row \<notin> set (map dbc_id (crops_tbl s))"
    using fresh by (simp add: row_defs)
  have "?row \<in> set (sort_key dbc_name
          (if dbc_district_id crop \<noteq> '''' then filter (\<lambda>c. dbc_district_id c = dbc_district_id crop) (crops_tbl ?s')
           else crops_tbl ?s'))"
    by (simp add: row_defs)
  then have "\<exists>rows. getCrops Delivered (Some (dbc_district_id crop)) ?s' = (Inr rows, ?s') \<and> ?row \<in> set rows"
    by (simp only: getCrops_Delivered) blast
  with create trunc key show ?thesis by blast
qed

theorem createCrop_then_getCrops_witness:
  "gen_uuid (next_key example_store) \<notin> set (map dbc_id (crops_tbl example_store)) \<and>
   dbc_district_id example_payload \<in> set (map dbd_id (districts_tbl example_store)) \<and>
   (\<exists>row s'. createCrop Delivered example_payload example_store = (Inr row, s') \<and>
      (\<exists>rows. getCrops Delivered (Some ''hyderabad'') s' = (Inr rows, s') \<and> row \<in> set rows))"
proof -
  have fresh: "gen_uuid (next_key example_store) \<notin> set (map dbc_id (crops_tbl example_store))"
    by (simp add: gen_uuid_def)
  have fk: "dbc_district_id example_payload \<in> set (map dbd_id (districts_tbl example_store))" by simp
  show ?thesis using fresh fk createCrop_then_getCrops [OF fresh fk] by auto
qed

text \<open>
  \<open>createCrop\<close> of a crop whose district does not exist fails over any
  link and leaves the store unchanged (the foreign key is enforced by the store,
  not by the client).
\<close>

theorem createCrop_dangling_district:
  assumes "dbc_district_id crop \<notin> set (map dbd_id (districts_tbl s))"
  shows "isl (fst (createCrop l crop s)) \<and> snd (createCrop l crop s) = s"
  using assms by (cases l) (simp_all add: createCrop_def pg_insert_crop_def Let_def)

theorem createCrop_dangling_district_witness:
  "''pune'' \<notin> set (map dbd_id (districts_tbl example_store)) \<and>
   createCrop Delivered (example_payload\<lparr>dbc_district_id := ''pune''\<rparr>) example_store
     = (Inl ForeignKeyViolation, example_store)"
proof -
  have "dbc_district_id (example_payload\<lparr>dbc_district_id := ''pune''\<rparr>) \<notin> set (map dbd_id (districts_tbl example_store))"
    by simp
  from createCrop_dangling_district [OF this, of Delivered] show ?thesis
    by (simp add: createCrop_def pg_insert_crop_def Let_def gen_uuid_def)
qed

text \<open>
  A request that never reaches the server is an error and changes nothing;
  a request whose answer is lost is an error although the server committed it,
  so the store is the one the delivered request would have left.
\<close>

theorem run_call_transport_failures:
  "run_call Unreachable c s = (Inl TransportError, s) \<and>
   run_call ReplyLost c s = (Inl TransportError, snd (run_call Delivered c s))"
  by (cases c)
    (simp_all add: map_reply_def getStates_def createState_def getDistricts_def createDistrict_def
       getCrops_def createCrop_def updateCrop_def deleteCrop_def getPricePredictions_def
       createPricePrediction_def getStatesWithDistricts_def)

text \<open>
  Every store the database can reach through the gateway's calls (over any
  links, with the clock ticking) satisfies the schema's constraints, and every
  further call keeps them: keys unique, foreign keys resolved.
\<close>

theorem gateway_schema_invariant:
  assumes "store_reachable s"
  shows "store_wf s \<and> store_wf (snd (run_call l c s))"
proof -
  from assms have wf: "store_wf s" by (rule store_reachable_wf)
  then have "store_wf (snd (run_call l c s))" by (rule wf_run_call)
  with wf show ?thesis by simp
qed

theorem gateway_schema_invariant_witness:
  "store_reachable (snd (run_call Delivered (CreateState \<lparr>dbs_id = ''telangana'', dbs_name = ''Telangana''\<rparr>) empty_store)) \<and>
   store_wf (snd (run_call Delivered (CreateDistrict \<lparr>dbd_id = ''hyderabad'', dbd_name = ''Hyderabad'', dbd_state_id = ''telangana''\<rparr>)
     (snd (run_call Delivered (CreateState \<lparr>dbs_id = ''telangana'', dbs_name = ''Telangana''\<rparr>) empty_store))))"
proof -
  have r: "store_reachable (snd (run_call Delivered (CreateState \<lparr>dbs_id = ''telangana'', dbs_name = ''Telangana''\<rparr>) empty_store))"
    by (rule store_reachable.call [OF store_reachable.empty])
  show ?thesis
    using r gateway_schema_invariant [OF r, of Delivered
      "CreateDistrict \<lparr>dbd_id = ''hyderabad'', dbd_name = ''Hyderabad'', dbd_state_id = ''telangana''\<rparr>"]
    by (simp del: run_call.simps)
qed

subsection \<open>Listing and the nested read\<close>

lemma mset_as_sum_list: "mset xs = sum_list (map (\<lambda>x. {#x#}) xs)"
  by (induction xs) (simp_all add: add.commute)

lemma sum_list_map_perm:
  "mset xs = mset ys \<Longrightarrow> sum_list (map f xs) = (sum_list (map f ys) :: 'b :: comm_monoid_add)"
  by (metis mset_map sum_mset_sum_list)

lemma node_crops_district_node_of [simp]:
  "node_crops (district_node_of s d) = filter (\<lambda>c. dbc_district_id c = dbd_id d) (crops_tbl s)"
  by (simp add: district_node_of_def row_defs district_node.defs)

lemma node_districts_state_node_of [simp]:
  "node_districts (state_node_of s st) =
     map (district_node_of s) (filter (\<lambda>d. dbd_state_id d = dbs_id st) (districts_tbl s))"
  by (simp add: state_node_of_def row_defs state_node.defs)

lemma dbs_name_state_node_of [simp]: "dbs_name (state_node_of s st) = dbs_name st"
  by (simp add: state_node_of_def row_defs state_node.defs)

text \<open>Regrouping rows by a foreign key that resolves to distinct keys loses and duplicates nothing.\<close>

lemma mset_regroup:
  assumes "distinct (map key ps)" and "set (map fk cs) \<subseteq> set (map key ps)"
  shows "sum_list (map (\<lambda>p. mset (filter (\<lambda>c. fk c = key p) cs)) ps) = mset cs"
proof -
  have "sum_list (map (\<lambda>p. mset (filter (\<lambda>c. fk c = key p) cs)) ps) =
          sum_list (map (\<lambda>k. sum_list (map (\<lambda>x. {#x#}) (filter (\<lambda>c. fk c = k) cs))) (map key ps))"
    by (simp add: comp_def mset_as_sum_list [symmetric])
  also have "\<dots> = sum_list (map (\<lambda>x. {#x#}) cs)"
    using assms by (rule sum_list_group_by_keys)
  finally show ?thesis by (simp add: mset_as_sum_list [symmetric])
qed

lemma tree_crops_mset:
  assumes "store_wf s"
  shows "mset (concat (map (\<lambda>st. concat (map node_crops (node_districts st)))
                   (map (state_node_of s) (sort_key dbs_name (states_tbl s))))) = mset (crops_tbl s)"
proof -
  let ?g = "\<lambda>d. mset (filter (\<lambda>c. dbc_district_id c = dbd_id d) (crops_tbl s))"
  let ?G = "\<lambda>st. sum_list (map ?g (filter (\<lambda>d. dbd_state_id d = dbs_id st) (districts_tbl s)))"
  from assms have ds: "distinct (map dbs_id (states_tbl s))" and dd: "distinct (map dbd_id (districts_tbl s))"
    and fks: "set (map dbd_state_id (districts_tbl s)) \<subseteq> set (map dbs_id (states_tbl s))"
    and fkd: "set (map dbc_district_id (crops_tbl s)) \<subseteq> set (map dbd_id (districts_tbl s))"
    by (auto simp: store_wf_def list_all_iff)
  have "mset (concat (map (\<lambda>st. concat (map node_crops (node_districts st)))
                   (map (state_node_of s) (sort_key dbs_name (states_tbl s)))))
        = sum_list (map ?G (sort_key dbs_name (states_tbl s)))"
    by (simp add: mset_concat comp_def)
  also have "\<dots> = sum_list (map ?G (states_tbl s))"
    by (rule sum_list_map_perm) simp
  also have "\<dots> = sum_list (map (\<lambda>k. sum_list (map ?g (filter (\<lambda>d. dbd_state_id d = k) (districts_tbl s))))
                              (map dbs_id (states_tbl s)))"
    by (simp add: comp_def)
  also have "\<dots> = sum_list (map ?g (districts_tbl s))"
    using ds fks by (rule sum_list_group_by_keys)
  also have "\<dots> = mset (crops_tbl s)"
    using dd fkd by (rule mset_regroup)
  finally show ?thesis .
qed

text \<open>
  C23: on a store that satisfies the schema's constraints the nested read
  \<open>getStatesWithDistricts\<close> answers in one request with the states ordered by
  name, and the crops nested under their districts under their states are
  exactly the crops of the table: none lost, none repeated.
\<close>

theorem getStatesWithDistricts_complete:
  assumes "store_wf s"
  shows "\<exists>tree. getStatesWithDistricts Delivered s = (Inr tree, s) \<and> sorted (map dbs_name tree) \<and>
           mset (concat (map (\<lambda>st. concat (map node_crops (node_districts st))) tree)) = mset (crops_tbl s)"
proof -
  have "sorted (map dbs_name (map (state_node_of s) (sort_key dbs_name (states_tbl s))))"
    by (simp add: comp_def)
  with tree_crops_mset [OF assms] show ?thesis
    by (simp add: getStatesWithDistricts_def)
qed

theorem getStatesWithDistricts_complete_witness:
  "store_wf example_store \<and>
   (\<exists>tree. getStatesWithDistricts Delivered example_store = (Inr tree, example_store) \<and>
      mset (concat (map (\<lambda>st. concat (map node_crops (node_districts st))) tree)) = {#example_crop#})"
proof -
  have wf: "store_wf example_store" by (simp add: store_wf_def)
  from getStatesWithDistricts_complete [OF wf] obtain tree where
    t: "getStatesWithDistricts Delivered example_store = (Inr tree, example_store)" and
    m: "mset (concat (map (\<lambda>st. concat (map node_crops (node_districts st))) tree)) =
          mset (crops_tbl example_store)"
    by blast
  have "mset (crops_tbl example_store) = {#example_crop#}" by simp
  with wf t m show ?thesis by auto
qed

text \<open>
  C24: \<open>getCrops\<close> with a district id answers with exactly the crops of that
  district, ordered by name.
\<close>

theorem getCrops_filtered_sorted:
  assumes "did \<noteq> ''''"
  shows "\<exists>rows. getCrops Delivered (Some did) s = (Inr rows, s) \<and> sorted (map dbc_name rows) \<and>
           mset rows = mset (filter (\<lambda>c. dbc_district_id c = did) (crops_tbl s))"
  using assms by (simp add: getCrops_Delivered)

theorem getCrops_filtered_sorted_witness:
  "''hyderabad'' \<noteq> '''' \<and>
   getCrops Delivered (Some ''hyderabad'') example_store = (Inr [example_crop], example_store)"
proof -
  have ne: "''hyderabad'' \<noteq> ''''" by simp
  from getCrops_filtered_sorted [OF ne, of example_store] show ?thesis
    by (simp add: getCrops_Delivered)
qed

text \<open>
  C21: the optional filters of \<open>getDistricts\<close> and \<open>getCrops\<close> test
  JavaScript truthiness (\<open>if (stateId)\<close>, \<open>if (districtId)\<close>): on every
  store and over every link, an empty id lists the districts of every state and
  the crops of every district, exactly as no id does.
\<close>

theorem empty_id_lists_everything:
  "getDistricts l (Some '''') s = getDistricts l None s \<and> getCrops l (Some '''') s = getCrops l None s"
  by (simp add: getDistricts_def getCrops_def)

text \<open>
  C20: \<open>getPricePredictions\<close> (\<open>order('created_at', { ascending: false })\<close>)
  answers, on every store, with every stored prediction exactly once, newest
  first, and changes nothing.
\<close>

theorem getPricePredictions_newest_first:
  "\<exists>rows. getPricePredictions Delivered s = (Inr rows, s) \<and>
     sorted (rev (map dbp_created_at rows)) \<and> mset rows = mset (predictions_tbl s)"
  by (simp add: getPricePredictions_def rev_map [symmetric])

text \<open>
  The gateway stores a prediction whatever its change fields say: a
  prediction from 2500 to 3200 recorded with a change of 0 is accepted, so the
  identity \<open>priceChange = predictedPrice - currentPrice\<close> the specification
  requires of computed predictions is not enforced at this boundary.
\<close>

theorem createPricePrediction_unchecked:
  "\<exists>row s'. createPricePrediction Delivered
      \<lparr>dbp_crop_name = ''Onion'', dbp_current_price = 2500, dbp_predicted_price = 3200,
       dbp_price_change = 0, dbp_change_percentage = 0, dbp_demand = High, dbp_supply = Low,
       dbp_reason = ''festival demand'', dbp_confidence = 92\<rparr> empty_store = (Inr row, s') \<and>
     dbp_price_change row \<noteq> dbp_predicted_price row - dbp_current_price row"
  by (simp add: createPricePrediction_def pg_insert_prediction_def empty_store_def Let_def row_defs)

end
