(* ===== verification/Admin.thy ===== *)
theory Admin
  imports Gateway Toast
begin

text \<open>
  The admin page (\<open>src/src/pages/Admin.tsx\<close>, lines 168 to 828) as a state
  machine over the gateway.  Its \<open>useState\<close> hooks are the record
  \<open>admin_ui\<close>; a toast is appended to \<open>toasts\<close>.  Every handler runs to its
  first \<open>await\<close>: the request reaches the database at once (\<open>issue\<close> runs
  the gateway call on the store), and what the handler does when the reply
  comes is a continuation \<open>admin_cont\<close> queued with the reply in \<open>pending\<close>.
  The environment delivers any pending reply at any time (\<open>Reply i\<close>), so
  replies arrive in any order, as the specification's concurrency section
  allows.  A continuation carries the \<open>selectedDistrict\<close> its handler closed
  over, which is the value of the render that created the handler.  The
  \<open>useEffect\<close> hooks on \<open>selectedState\<close> and \<open>selectedDistrict\<close> run after
  the select handlers, and only when the value changed.  Other clients of the
  database change the store between any two steps.
\<close>

record admin_ui =
  a_crops :: "db_crop list"
  a_states :: "db_state list"
  a_districts :: "db_district list"
  a_selectedState :: string
  a_selectedDistrict :: string
  isAddCropOpen :: bool
  isEditCropOpen :: bool
  editingCrop :: "db_crop option"
  a_loading :: bool
  newCrop :: crop_payload
  toasts :: "toast list"

text \<open>What an awaiting handler still has to do when its reply arrives.\<close>

datatype admin_cont =
    KLoadData | KLoadDistricts | KLoadCrops
  | KAddCrop string | KEditCrop string | KDeleteCrop string

record admin_sys =
  ui :: admin_ui
  store :: db_store
  pending :: "(admin_cont \<times> (db_error + gateway_result)) list"

definition blank_crop :: crop_payload where
  "blank_crop =
     \<lparr>dbc_name = '''', dbc_district_id = '''', dbc_land_used = 0, dbc_expected_yield = 0,
      dbc_current_price = 0, dbc_season = '''', dbc_sowing_month = '''', dbc_harvest_month = ''''\<rparr>"

definition admin_init :: "db_store \<Rightarrow> admin_sys" where
  "admin_init s =
     \<lparr>ui = \<lparr>a_crops = [], a_states = [], a_districts = [], a_selectedState = '''',
            a_selectedDistrict = '''', isAddCropOpen = False, isEditCropOpen = False,
            editingCrop = None, a_loading = True, newCrop = blank_crop, toasts = []\<rparr>,
      store = s, pending = []\<rparr>"

definition add_toast :: "toast \<Rightarrow> admin_ui \<Rightarrow> admin_ui" where
  "add_toast t u = u\<lparr>toasts := toasts u @ [t]\<rparr>"

text \<open>Send one request and queue its reply for the continuation.\<close>

definition issue :: "link \<Rightarrow> gateway_call \<Rightarrow> admin_cont \<Rightarrow> admin_sys \<Rightarrow> admin_sys" where
  "issue l c k S =
     (case run_call l c (store S) of (r, s') \<Rightarrow> S\<lparr>store := s', pending := pending S @ [(k, r)]\<rparr>)"

definition loadData :: "link \<Rightarrow> admin_sys \<Rightarrow> admin_sys" where
  "loadData l S = issue l GetStates KLoadData (S\<lparr>ui := (ui S)\<lparr>a_loading := True\<rparr>\<rparr>)"

definition loadDistricts :: "link \<Rightarrow> string \<Rightarrow> admin_sys \<Rightarrow> admin_sys" where
  "loadDistricts l stateId S = issue l (GetDistricts (Some stateId)) KLoadDistricts S"

definition loadCrops :: "link \<Rightarrow> string \<Rightarrow> admin_sys \<Rightarrow> admin_sys" where
  "loadCrops l districtId S = issue l (GetCrops (Some districtId)) KLoadCrops S"

text \<open>The error message each handler's \<open>catch\<close> shows.\<close>

fun failure_text :: "admin_cont \<Rightarrow> string" where
  "failure_text KLoadData = ''Failed to load data from database''"
| "failure_text KLoadDistricts = ''Failed to load districts''"
| "failure_text KLoadCrops = ''Failed to load crops''"
| "failure_text (KAddCrop d) = ''Failed to add crop''"
| "failure_text (KEditCrop d) = ''Failed to update crop''"
| "failure_text (KDeleteCrop d) = ''Failed to delete crop''"

text \<open>
  The code after each \<open>await\<close>.  A reply of another shape than the call's
  cannot arrive (\<open>run_call\<close> answers \<open>GetStates\<close> with \<open>StateRows\<close> and so
  on); the model sends it to the \<open>catch\<close> branch.
\<close>

fun resume :: "link \<Rightarrow> admin_cont \<Rightarrow> db_error + gateway_result \<Rightarrow> admin_sys \<Rightarrow> admin_sys" where
  "resume l KLoadData r S =
     S\<lparr>ui := (case r of Inr (StateRows xs) \<Rightarrow> (ui S)\<lparr>a_states := xs\<rparr>
                      | _ \<Rightarrow> add_toast (error_toast (failure_text KLoadData)) (ui S))\<lparr>a_loading := False\<rparr>\<rparr>"
| "resume l KLoadDistricts r S =
     S\<lparr>ui := (case r of Inr (DistrictRows xs) \<Rightarrow> (ui S)\<lparr>a_districts := xs\<rparr>
                      | _ \<Rightarrow> add_toast (error_toast (failure_text KLoadDistricts)) (ui S))\<rparr>"
| "resume l KLoadCrops r S =
     S\<lparr>ui := (case r of Inr (CropRows xs) \<Rightarrow> (ui S)\<lparr>a_crops := xs\<rparr>
                      | _ \<Rightarrow> add_toast (error_toast (failure_text KLoadCrops)) (ui S))\<rparr>"
| "resume l (KAddCrop d) r S =
     (case r of
        Inr _ \<Rightarrow> loadCrops l d
                   (S\<lparr>ui := (add_toast (success_toast ''Crop added successfully'') (ui S))
                           \<lparr>isAddCropOpen := False, newCrop := blank_crop\<rparr>\<rparr>)
      | Inl _ \<Rightarrow> S\<lparr>ui := add_toast (error_toast (failure_text (KAddCrop d))) (ui S)\<rparr>)"
| "resume l (KEditCrop d) r S =
     (case r of
        Inr _ \<Rightarrow> (let S' = S\<lparr>ui := (add_toast (success_toast ''Crop updated successfully'') (ui S))
                                   \<lparr>isEditCropOpen := False, editingCrop := None\<rparr>\<rparr>
                  in if d \<noteq> '''' then loadCrops l d S' else S')
      | Inl _ \<Rightarrow> S\<lparr>ui := add_toast (error_toast (failure_text (KEditCrop d))) (ui S)\<rparr>)"
| "resume l (KDeleteCrop d) r S =
     (case r of
        Inr _ \<Rightarrow> (let S' = S\<lparr>ui := add_toast (success_toast ''Crop deleted successfully'') (ui S)\<rparr>
                  in if d \<noteq> '''' then loadCrops l d S' else S')
      | Inl _ \<Rightarrow> S\<lparr>ui := add_toast (error_toast (failure_text (KDeleteCrop d))) (ui S)\<rparr>)"

text \<open>
  One keystroke or pick in a form field: \<open>setNewCrop({...newCrop, f: v})\<close>
  and \<open>setEditingCrop({...editingCrop, f: v})\<close>.  A number field holds
  \<open>parseFloat(e.target.value) || 0\<close>: the argument is what \<open>parseFloat\<close>
  returned, \<open>None\<close> for \<open>NaN\<close>, and \<open>|| 0\<close> turns that into 0.
\<close>

datatype crop_edit =
    EditName string | EditLandUsed "rat option" | EditExpectedYield "rat option"
  | EditCurrentPrice "rat option" | EditSeason string | EditSowingMonth string
  | EditHarvestMonth string

definition number_input :: "rat option \<Rightarrow> rat" where
  "number_input v = given_or v 0"

fun apply_crop_edit :: "crop_edit \<Rightarrow> 'a crop_payload_scheme \<Rightarrow> 'a crop_payload_scheme" where
  "apply_crop_edit (EditName v) c = c\<lparr>dbc_name := v\<rparr>"
| "apply_crop_edit (EditLandUsed v) c = c\<lparr>dbc_land_used := number_input v\<rparr>"
| "apply_crop_edit (EditExpectedYield v) c = c\<lparr>dbc_expected_yield := number_input v\<rparr>"
| "apply_crop_edit (EditCurrentPrice v) c = c\<lparr>dbc_current_price := number_input v\<rparr>"
| "apply_crop_edit (EditSeason v) c = c\<lparr>dbc_season := v\<rparr>"
| "apply_crop_edit (EditSowingMonth v) c = c\<lparr>dbc_sowing_month := v\<rparr>"
| "apply_crop_edit (EditHarvestMonth v) c = c\<lparr>dbc_harvest_month := v\<rparr>"

text \<open>
  \<open>updateCrop(editingCrop.id, editingCrop)\<close> passes the whole row as the
  \<open>Partial<DbCrop>\<close>: every column is present, the timestamps as read.
\<close>

definition patch_of_row :: "db_crop \<Rightarrow> crop_patch" where
  "patch_of_row c =
     \<lparr>p_id = Some (dbc_id c), p_name = Some (dbc_name c), p_district_id = Some (dbc_district_id c),
      p_land_used = Some (dbc_land_used c), p_expected_yield = Some (dbc_expected_yield c),
      p_current_price = Some (dbc_current_price c), p_season = Some (dbc_season c),
      p_sowing_month = Some (dbc_sowing_month c), p_harvest_month = Some (dbc_harvest_month c),
      p_created_at = dbc_created_at c, p_updated_at = dbc_updated_at c\<rparr>"

definition handleAddCrop :: "link \<Rightarrow> admin_sys \<Rightarrow> admin_sys" where
  "handleAddCrop l S =
     (let d = a_selectedDistrict (ui S) in
      if d = '''' then S\<lparr>ui := add_toast (error_toast ''Please select a district first'') (ui S)\<rparr>
      else issue l (CreateCrop ((newCrop (ui S))\<lparr>dbc_district_id := d\<rparr>)) (KAddCrop d) S)"

definition handleEditCrop :: "timestamp \<Rightarrow> link \<Rightarrow> admin_sys \<Rightarrow> admin_sys" where
  "handleEditCrop now l S =
     (case editingCrop (ui S) of
        None \<Rightarrow> S
      | Some c \<Rightarrow> issue l (UpdateCrop now (dbc_id c) (patch_of_row c)) (KEditCrop (a_selectedDistrict (ui S))) S)"

definition handleDeleteCrop :: "link \<Rightarrow> string \<Rightarrow> admin_sys \<Rightarrow> admin_sys" where
  "handleDeleteCrop l crop_key S = issue l (DeleteCrop crop_key) (KDeleteCrop (a_selectedDistrict (ui S))) S"

text \<open>The reply at position \<open>i\<close> of the queue arrives and its handler resumes.\<close>

definition deliver :: "link \<Rightarrow> nat \<Rightarrow> admin_sys \<Rightarrow> admin_sys" where
  "deliver l i S =
     (if i < length (pending S)
      then case pending S ! i of
             (k, r) \<Rightarrow> resume l k r (S\<lparr>pending := take i (pending S) @ drop (Suc i) (pending S)\<rparr>)
      else S)"

datatype admin_event =
    ChooseState string link
  | ChooseDistrict string link
  | SetAddCropOpen bool
  | EditNewCrop crop_edit
  | SaveNewCrop link
  | OpenEditCrop db_crop
  | SetEditCropOpen bool
  | EditEditingCrop crop_edit
  | SaveEditedCrop timestamp link
  | DeleteCropClicked string link
  | Reply nat link

text \<open>
  The select handlers with the effects they trigger: the state select sets the
  state, clears the district and the crops, and the effect on
  \<open>[selectedState]\<close> loads the districts when the state changed to a non-empty
  id; the district select sets the district and the effect on
  \<open>[selectedDistrict]\<close> loads its crops on the same condition.
\<close>

fun admin_step :: "admin_sys \<Rightarrow> admin_event \<Rightarrow> admin_sys" where
  "admin_step S (ChooseState value l) =
     (let S' = S\<lparr>ui := (ui S)\<lparr>a_selectedState := value, a_selectedDistrict := '''', a_crops := []\<rparr>\<rparr>
      in if value \<noteq> a_selectedState (ui S) \<and> value \<noteq> '''' then loadDistricts l value S' else S')"
| "admin_step S (ChooseDistrict value l) =
     (let S' = S\<lparr>ui := (ui S)\<lparr>a_selectedDistrict := value\<rparr>\<rparr>
      in if value \<noteq> a_selectedDistrict (ui S) \<and> value \<noteq> '''' then loadCrops l value S' else S')"
| "admin_step S (SetAddCropOpen b) = S\<lparr>ui := (ui S)\<lparr>isAddCropOpen := b\<rparr>\<rparr>"
| "admin_step S (EditNewCrop e) = S\<lparr>ui := (ui S)\<lparr>newCrop := apply_crop_edit e (newCrop (ui S))\<rparr>\<rparr>"
| "admin_step S (SaveNewCrop l) = handleAddCrop l S"
| "admin_step S (OpenEditCrop c) = S\<lparr>ui := (ui S)\<lparr>editingCrop := Some c, isEditCropOpen := True\<rparr>\<rparr>"
| "admin_step S (SetEditCropOpen b) = S\<lparr>ui := (ui S)\<lparr>isEditCropOpen := b\<rparr>\<rparr>"
| "admin_step S (EditEditingCrop e) =
     S\<lparr>ui := (ui S)\<lparr>editingCrop := map_option (apply_crop_edit e) (editingCrop (ui S))\<rparr>\<rparr>"
| "admin_step S (SaveEditedCrop now l) = handleEditCrop now l S"
| "admin_step S (DeleteCropClicked crop_key l) = handleDeleteCrop l crop_key S"
| "admin_step S (Reply i l) = deliver l i S"

text \<open>
  What the rendered page offers.  While \<open>loading\<close> only the spinner is shown.
  The state select lists \<open>states\<close>; the district select lists
  \<open>districts\<close> and is disabled without a state; the crops section, with the
  add dialog and the table's edit and delete buttons, is shown only while a
  district is selected; the edit dialog has no trigger of its own, so
  \<open>onOpenChange\<close> can only close it.
\<close>

fun admin_enabled :: "admin_sys \<Rightarrow> admin_event \<Rightarrow> bool" where
  "admin_enabled S (ChooseState v l) =
     (\<not> a_loading (ui S) \<and> v \<in> set (map dbs_id (a_states (ui S))))"
| "admin_enabled S (ChooseDistrict v l) =
     (\<not> a_loading (ui S) \<and> a_selectedState (ui S) \<noteq> '''' \<and> v \<in> set (map dbd_id (a_districts (ui S))))"
| "admin_enabled S (SetAddCropOpen b) = (\<not> a_loading (ui S) \<and> a_selectedDistrict (ui S) \<noteq> '''')"
| "admin_enabled S (EditNewCrop e) =
     (\<not> a_loading (ui S) \<and> a_selectedDistrict (ui S) \<noteq> '''' \<and> isAddCropOpen (ui S))"
| "admin_enabled S (SaveNewCrop l) =
     (\<not> a_loading (ui S) \<and> a_selectedDistrict (ui S) \<noteq> '''' \<and> isAddCropOpen (ui S))"
| "admin_enabled S (OpenEditCrop c) =
     (\<not> a_loading (ui S) \<and> a_selectedDistrict (ui S) \<noteq> '''' \<and> c \<in> set (a_crops (ui S)))"
| "admin_enabled S (SetEditCropOpen b) = (\<not> a_loading (ui S) \<and> isEditCropOpen (ui S) \<and> \<not> b)"
| "admin_enabled S (EditEditingCrop e) =
     (\<not> a_loading (ui S) \<and> isEditCropOpen (ui S) \<and> editingCrop (ui S) \<noteq> None)"
| "admin_enabled S (SaveEditedCrop now l) = (\<not> a_loading (ui S) \<and> isEditCropOpen (ui S))"
| "admin_enabled S (DeleteCropClicked crop_key l) =
     (\<not> a_loading (ui S) \<and> a_selectedDistrict (ui S) \<noteq> '''' \<and> crop_key \<in> set (map dbc_id (a_crops (ui S))))"
| "admin_enabled S (Reply i l) = (i < length (pending S))"

text \<open>
  The runs of the page: it mounts on a store the database can reach and
  \<open>loadData\<close> runs; then the user acts, replies arrive, and other clients
  change the store.
\<close>

inductive admin_reachable :: "admin_sys \<Rightarrow> bool" where
  mount: "store_reachable s \<Longrightarrow> admin_reachable (loadData l (admin_init s))"
| step: "admin_reachable S \<Longrightarrow> admin_enabled S e \<Longrightarrow> admin_reachable (admin_step S e)"
| other_client: "admin_reachable S \<Longrightarrow> admin_reachable (S\<lparr>store := snd (run_call l c (store S))\<rparr>)"
| tick: "admin_reachable S \<Longrightarrow>
           admin_reachable (S\<lparr>store := (store S)\<lparr>server_clock := Suc (server_clock (store S))\<rparr>\<rparr>)"

text \<open>The average price card (lines 425 to 429).\<close>

definition avgPrice :: "db_crop list \<Rightarrow> int" where
  "avgPrice cs =
     (if 0 < length cs then js_round (foldl (\<lambda>s c. s + dbc_current_price c) 0 cs / of_nat (length cs))
      else 0)"

definition one_district :: "db_crop list \<Rightarrow> bool" where
  "one_district cs \<longleftrightarrow> (\<forall>x\<in>set cs. \<forall>y\<in>set cs. dbc_district_id x = dbc_district_id y)"

fun cont_ok :: "admin_cont \<Rightarrow> bool" where
  "cont_ok (KAddCrop d) = (d \<noteq> '''')"
| "cont_ok k = True"

definition crops_reply_ok :: "db_error + gateway_result \<Rightarrow> bool" where
  "crops_reply_ok r = (case r of Inr (CropRows xs) \<Rightarrow> one_district xs | _ \<Rightarrow> True)"

definition admin_inv :: "admin_sys \<Rightarrow> bool" where
  "admin_inv S \<longleftrightarrow>
     length (filter (\<lambda>p. fst p = KLoadData) (pending S)) = (if a_loading (ui S) then 1 else 0) \<and>
     one_district (a_crops (ui S)) \<and>
     list_all (\<lambda>(k, r). cont_ok k \<and> (k = KLoadCrops \<longrightarrow> crops_reply_ok r)) (pending S)"

fun admin_trace_ok :: "admin_sys \<Rightarrow> admin_event list \<Rightarrow> bool" where
  "admin_trace_ok S [] = True"
| "admin_trace_ok S (e # es) = (admin_enabled S e \<and> admin_trace_ok (admin_step S e) es)"

definition run_calls :: "gateway_call list \<Rightarrow> db_store \<Rightarrow> db_store" where
  "run_calls cs s = foldl (\<lambda>s c. snd (run_call Delivered c s)) s cs"

definition demo_store :: db_store where
  "demo_store = run_calls
     [CreateState \<lparr>dbs_id = ''ap'', dbs_name = ''Andhra Pradesh''\<rparr>,
      CreateState \<lparr>dbs_id = ''tg'', dbs_name = ''Telangana''\<rparr>,
      CreateDistrict \<lparr>dbd_id = ''guntur'', dbd_name = ''Guntur'', dbd_state_id = ''ap''\<rparr>,
      CreateDistrict \<lparr>dbd_id = ''hyderabad'', dbd_name = ''Hyderabad'', dbd_state_id = ''tg''\<rparr>,
      CreateCrop \<lparr>dbc_name = ''Cotton'', dbc_district_id = ''guntur'', dbc_land_used = 15600,
                  dbc_expected_yield = 7800, dbc_current_price = 5800, dbc_season = ''Kharif'',
                  dbc_sowing_month = ''June'', dbc_harvest_month = ''December''\<rparr>,
      CreateCrop \<lparr>dbc_name = ''Rice'', dbc_district_id = ''hyderabad'', dbc_land_used = 12500,
                  dbc_expected_yield = 38750, dbc_current_price = 2100, dbc_season = ''Kharif'',
                  dbc_sowing_month = ''June'', dbc_harvest_month = ''October''\<rparr>]
     empty_store"

definition demo_mounted :: admin_sys where
  "demo_mounted = loadData Delivered (admin_init demo_store)"

text \<open>Telangana chosen and its districts shown.\<close>

definition demo_tg_events :: "admin_event list" where
  "demo_tg_events = [Reply 0 Delivered, ChooseState ''tg'' Delivered, Reply 0 Delivered]"

text \<open>Then a district of Telangana, then Andhra Pradesh and its district: the crop replies cross.\<close>

definition demo_stale_events :: "admin_event list" where
  "demo_stale_events =
     [ChooseDistrict ''hyderabad'' Delivered, ChooseState ''ap'' Delivered, Reply 1 Delivered,
      ChooseDistrict ''guntur'' Delivered, Reply 1 Delivered, Reply 0 Delivered]"

text \<open>Andhra Pradesh chosen while Telangana's district list is still shown, and a district picked from it.\<close>

definition demo_mismatch_events :: "admin_event list" where
  "demo_mismatch_events = [ChooseState ''ap'' Delivered, ChooseDistrict ''hyderabad'' Delivered]"

definition demo_stale :: admin_sys where
  "demo_stale = foldl admin_step (foldl admin_step demo_mounted demo_tg_events) demo_stale_events"

definition demo_mismatch :: admin_sys where
  "demo_mismatch = foldl admin_step (foldl admin_step demo_mounted demo_tg_events) demo_mismatch_events"

text \<open>An admin view over the gateway's example store: Hyderabad selected, both dialogs open.\<close>

definition example_admin :: admin_sys where
  "example_admin =
     \<lparr>ui = \<lparr>a_crops = [example_crop], a_states = states_tbl example_store,
            a_districts = districts_tbl example_store, a_selectedState = ''telangana'',
            a_selectedDistrict = ''hyderabad'', isAddCropOpen = True, isEditCropOpen = True,
            editingCrop = Some (example_crop\<lparr>dbc_current_price := 2300\<rparr>), a_loading = False,
            newCrop = example_payload, toasts = []\<rparr>,
      store = example_store, pending = []\<rparr>"

subsection \<open>Lemmas\<close>

lemma ui_issue [simp]: "ui (issue l c k S) = ui S"
  and store_issue [simp]: "store (issue l c k S) = snd (run_call l c (store S))"
  and pending_issue [simp]: "pending (issue l c k S) = pending S @ [(k, fst (run_call l c (store S)))]"
  by (simp_all add: issue_def split: prod.split)

lemmas admin_loads = loadData_def loadDistricts_def loadCrops_def

lemma store_resume:
  "store (resume l k r S) = store S \<or> (\<exists>l' c. store (resume l k r S) = snd (run_call l' c (store S)))"
  by (cases k) (auto simp: admin_loads Let_def simp del: run_call.simps split: sum.split gateway_result.split)

lemma store_admin_step:
  "store (admin_step S e) = store S \<or> (\<exists>l c. store (admin_step S e) = snd (run_call l c (store S)))"
proof (cases e)
  case (Reply i l)
  then show ?thesis
    using store_resume [of l _ _ "S\<lparr>pending := take i (pending S) @ drop (Suc i) (pending S)\<rparr>"]
    by (auto simp: deliver_def simp del: run_call.simps split: prod.split)
qed (auto simp: admin_loads handleAddCrop_def handleEditCrop_def handleDeleteCrop_def Let_def
          simp del: run_call.simps split: option.split)

lemma admin_reachable_store: "admin_reachable S \<Longrightarrow> store_reachable (store S)"
proof (induction rule: admin_reachable.induct)
  case (mount s l)
  then show ?case by (simp add: loadData_def admin_init_def store_reachable.call del: run_call.simps)
next
  case (step S e)
  then show ?case using store_admin_step [of S e] by (auto intro: store_reachable.call)
qed (auto intro: store_reachable.call store_reachable.tick)


lemma filter_remove_nth:
  "i < length xs \<Longrightarrow>
   length (filter P (take i xs @ drop (Suc i) xs)) + (if P (xs ! i) then 1 else 0) = length (filter P xs)"
proof -
  assume i: "i < length xs"
  have "xs = take i xs @ xs ! i # drop (Suc i) xs" using i by (simp add: id_take_nth_drop)
  then have "length (filter P xs) = length (filter P (take i xs @ xs ! i # drop (Suc i) xs))" by simp
  then show ?thesis by simp
qed

lemma set_remove_nth: "set (take i xs @ drop (Suc i) xs) \<subseteq> set xs"
  by (metis Un_subset_iff set_append set_drop_subset set_take_subset)

lemma crops_reply_getCrops:
  "d \<noteq> '''' \<Longrightarrow> crops_reply_ok (fst (run_call l (GetCrops (Some d)) s))"
  by (cases l) (auto simp: crops_reply_ok_def one_district_def getCrops_def map_reply_def pg_request_def)

lemma one_district_Nil [simp]: "one_district []"
  by (simp add: one_district_def)

lemma loading_resume [simp]: "a_loading (ui (resume l k r S)) = (k \<noteq> KLoadData \<and> a_loading (ui S))"
  by (cases k) (auto simp: admin_loads add_toast_def Let_def split: sum.split gateway_result.split)

lemma pending_resume:
  "cont_ok k \<Longrightarrow>
   pending (resume l k r S) = pending S \<or>
   (\<exists>d. d \<noteq> '''' \<and> pending (resume l k r S) = pending S @ [(KLoadCrops, fst (run_call l (GetCrops (Some d)) (store S)))])"
  by (cases k) (auto simp: admin_loads Let_def simp del: run_call.simps split: sum.split gateway_result.split)

lemma crops_resume:
  "one_district (a_crops (ui S)) \<Longrightarrow> (k = KLoadCrops \<longrightarrow> crops_reply_ok r) \<Longrightarrow>
   one_district (a_crops (ui (resume l k r S)))"
  by (cases k) (auto simp: admin_loads Let_def add_toast_def crops_reply_ok_def
                   simp del: run_call.simps split: sum.split gateway_result.split)


lemma admin_inv_deliver:
  assumes inv: "admin_inv S"
  shows "admin_inv (deliver l i S)"
proof (cases "i < length (pending S)")
  case True
  obtain k r where ki: "pending S ! i = (k, r)" by fastforce
  let ?rest = "take i (pending S) @ drop (Suc i) (pending S)"
  let ?S = "S\<lparr>pending := ?rest\<rparr>"
  have mem: "(k, r) \<in> set (pending S)" using True ki by (metis nth_mem)
  with inv have ok: "cont_ok k" and crops_ok: "k = KLoadCrops \<longrightarrow> crops_reply_ok r"
    by (auto simp: admin_inv_def list_all_iff)
  have count: "length (filter (\<lambda>p. fst p = KLoadData) ?rest) + (if k = KLoadData then 1 else 0)
               = (if a_loading (ui S) then 1 else 0)"
    using filter_remove_nth [OF True, of "\<lambda>p. fst p = KLoadData"] ki inv by (simp add: admin_inv_def)
  have rest_ok: "list_all (\<lambda>(k, r). cont_ok k \<and> (k = KLoadCrops \<longrightarrow> crops_reply_ok r)) ?rest"
    using inv set_remove_nth [of i "pending S"] by (auto simp: admin_inv_def list_all_iff)
  have crops: "one_district (a_crops (ui (resume l k r ?S)))"
    using inv crops_ok by (intro crops_resume) (simp_all add: admin_inv_def)
  from pending_resume [OF ok, of l r ?S] show ?thesis
  proof
    assume "pending (resume l k r ?S) = pending ?S"
    with True ki count rest_ok crops show ?thesis
      by (auto simp: deliver_def admin_inv_def split: if_splits)
  next
    assume "\<exists>d. d \<noteq> '''' \<and> pending (resume l k r ?S) =
              pending ?S @ [(KLoadCrops, fst (run_call l (GetCrops (Some d)) (store ?S)))]"
    then obtain d where d: "d \<noteq> ''''" and p: "pending (resume l k r ?S) =
              pending ?S @ [(KLoadCrops, fst (run_call l (GetCrops (Some d)) (store ?S)))]" by blast
    from d have "crops_reply_ok (fst (run_call l (GetCrops (Some d)) (store ?S)))"
      by (rule crops_reply_getCrops)
    with True ki count rest_ok crops p show ?thesis
      by (auto simp: deliver_def admin_inv_def simp del: run_call.simps split: if_splits)
  qed
next
  case False
  with inv show ?thesis by (simp add: deliver_def)
qed

lemma admin_inv_step: "admin_inv S \<Longrightarrow> admin_inv (admin_step S e)"
proof (cases e)
  case (ChooseDistrict v l)
  moreover assume "admin_inv S"
  ultimately show ?thesis using crops_reply_getCrops [of v l]
    by (auto simp: admin_inv_def loadCrops_def Let_def simp del: run_call.simps)
next
  case (Reply i l)
  moreover assume "admin_inv S"
  ultimately show ?thesis by (simp add: admin_inv_deliver)
qed (auto simp: admin_inv_def admin_loads handleAddCrop_def handleEditCrop_def handleDeleteCrop_def
                Let_def add_toast_def simp del: run_call.simps split: option.split)

lemma admin_reachable_inv: "admin_reachable S \<Longrightarrow> admin_inv S"
proof (induction rule: admin_reachable.induct)
  case (mount s l)
  then show ?case by (simp add: admin_inv_def loadData_def admin_init_def del: run_call.simps)
next
  case (step S e)
  then show ?case by (simp add: admin_inv_step)
qed (simp_all add: admin_inv_def)

lemma admin_reachable_trace:
  "admin_reachable S \<Longrightarrow> admin_trace_ok S es \<Longrightarrow> admin_reachable (foldl admin_step S es)"
  by (induction es arbitrary: S) (auto intro: admin_reachable.step)

lemma store_reachable_run_calls: "store_reachable s \<Longrightarrow> store_reachable (run_calls cs s)"
  unfolding run_calls_def by (induction cs arbitrary: s) (auto intro: store_reachable.call)

lemma demo_mounted_reachable: "admin_reachable demo_mounted"
  unfolding demo_mounted_def demo_store_def
  by (intro admin_reachable.mount store_reachable_run_calls store_reachable.empty)

lemma demo_store_eval:
  "demo_store =
     \<lparr>states_tbl = [\<lparr>dbs_id = ''ap'', dbs_name = ''Andhra Pradesh'', dbs_created_at = Some 0, dbs_updated_at = Some 0\<rparr>,
                    \<lparr>dbs_id = ''tg'', dbs_name = ''Telangana'', dbs_created_at = Some 0, dbs_updated_at = Some 0\<rparr>],
      districts_tbl = [\<lparr>dbd_id = ''guntur'', dbd_name = ''Guntur'', dbd_state_id = ''ap'',
                        dbd_created_at = Some 0, dbd_updated_at = Some 0\<rparr>,
                       \<lparr>dbd_id = ''hyderabad'', dbd_name = ''Hyderabad'', dbd_state_id = ''tg'',
                        dbd_created_at = Some 0, dbd_updated_at = Some 0\<rparr>],
      crops_tbl = [\<lparr>dbc_name = ''Cotton'', dbc_district_id = ''guntur'', dbc_land_used = 15600,
                  dbc_expected_yield = 7800, dbc_current_price = 5800, dbc_season = ''Kharif'',
                  dbc_sowing_month = ''June'', dbc_harvest_month = ''December'', dbc_id = ''uuid-0'',
                  dbc_created_at = Some 0, dbc_updated_at = Some 0\<rparr>,
                   \<lparr>dbc_name = ''Rice'', dbc_district_id = ''hyderabad'', dbc_land_used = 12500,
                  dbc_expected_yield = 38750, dbc_current_price = 2100, dbc_season = ''Kharif'',
                  dbc_sowing_month = ''June'', dbc_harvest_month = ''October'', dbc_id = ''uuid-1'',
                  dbc_created_at = Some 0, dbc_updated_at = Some 0\<rparr>],
      predictions_tbl = [], server_clock = 0, next_key = 2\<rparr>"
  by (simp add: demo_store_def run_calls_def empty_store_def map_reply_def createState_def createDistrict_def
                createCrop_def pg_insert_state_def pg_insert_district_def pg_insert_crop_def gen_uuid_def
                row_defs Let_def)

lemma demo_tg_ok: "admin_trace_ok demo_mounted demo_tg_events"
  by (simp add: demo_mounted_def demo_store_eval demo_tg_events_def admin_init_def admin_loads
                deliver_def map_reply_def getStates_def getDistricts_def)

lemma admin_trace_ok_append:
  "admin_trace_ok S (xs @ ys) = (admin_trace_ok S xs \<and> admin_trace_ok (foldl admin_step S xs) ys)"
  by (induction xs arbitrary: S) auto

lemmas demo_eval = demo_store_eval admin_init_def admin_loads deliver_def map_reply_def
  getStates_def getDistricts_def getCrops_def add_toast_def

lemma demo_tg_state:
  "foldl admin_step demo_mounted demo_tg_events =
     \<lparr>ui = \<lparr>a_crops = [], a_states = states_tbl demo_store, a_districts = [districts_tbl demo_store ! 1],
            a_selectedState = ''tg'', a_selectedDistrict = '''', isAddCropOpen = False,
            isEditCropOpen = False, editingCrop = None, a_loading = False, newCrop = blank_crop,
            toasts = []\<rparr>,
      store = demo_store, pending = []\<rparr>"
  by (simp add: demo_mounted_def demo_tg_events_def demo_eval)


lemma demo_stale_reachable: "admin_reachable demo_stale"
proof -
  have "admin_trace_ok (foldl admin_step demo_mounted demo_tg_events) demo_stale_events"
    unfolding demo_tg_state by (simp add: demo_stale_events_def demo_eval)
  then have "admin_trace_ok demo_mounted (demo_tg_events @ demo_stale_events)"
    using demo_tg_ok by (simp add: admin_trace_ok_append)
  from admin_reachable_trace [OF demo_mounted_reachable this] show ?thesis
    by (simp add: demo_stale_def)
qed

lemma demo_stale_view:
  "a_selectedState (ui demo_stale) = ''ap'' \<and> a_selectedDistrict (ui demo_stale) = ''guntur'' \<and>
   map dbc_district_id (a_crops (ui demo_stale)) = [''hyderabad'']"
  unfolding demo_stale_def demo_tg_state by (simp add: demo_stale_events_def demo_eval)

lemma demo_mismatch_reachable: "admin_reachable demo_mismatch"
proof -
  have "admin_trace_ok (foldl admin_step demo_mounted demo_tg_events) demo_mismatch_events"
    unfolding demo_tg_state by (simp add: demo_mismatch_events_def demo_eval)
  then have "admin_trace_ok demo_mounted (demo_tg_events @ demo_mismatch_events)"
    using demo_tg_ok by (simp add: admin_trace_ok_append)
  from admin_reachable_trace [OF demo_mounted_reachable this] show ?thesis
    by (simp add: demo_mismatch_def)
qed

lemma demo_mismatch_view:
  "a_selectedState (ui demo_mismatch) = ''ap'' \<and> a_selectedDistrict (ui demo_mismatch) = ''hyderabad'' \<and>
   ''hyderabad'' \<in> set (map dbd_id (districts_tbl (store demo_mismatch))) \<and>
   ''hyderabad'' \<notin> set (map dbd_id (filter (\<lambda>d. dbd_state_id d = ''ap'') (districts_tbl (store demo_mismatch))))"
  unfolding demo_mismatch_def demo_tg_state by (simp add: demo_mismatch_events_def demo_eval)

subsection \<open>Properties of the admin page\<close>

text \<open>
  C28: in every run of the admin page, whatever order the replies arrive in and
  whatever other clients do, the crops table never mixes rows of two districts:
  every list it shows is the answer to one \<open>getCrops(districtId)\<close> with a
  non-empty id.
\<close>

theorem admin_table_one_district:
  "admin_reachable S \<Longrightarrow> one_district (a_crops (ui S))"
proof -
  assume "admin_reachable S"
  then have "admin_inv S" by (rule admin_reachable_inv)
  then show ?thesis by (simp add: admin_inv_def)
qed

theorem admin_table_one_district_witness:
  "one_district (a_crops (ui demo_stale)) \<and> a_crops (ui demo_stale) \<noteq> []"
  using admin_table_one_district [OF demo_stale_reachable] demo_stale_view by auto

text \<open>
  C29: the loading screen ends: while the page shows it, the reply of the
  mount's \<open>getStates\<close> is pending, and its arrival, success or failure (the
  \<open>finally\<close> block), clears \<open>loading\<close>.
\<close>

theorem admin_loading_ends:
  assumes reach: "admin_reachable S" and loading: "a_loading (ui S)"
  shows "\<exists>i. admin_enabled S (Reply i l) \<and> \<not> a_loading (ui (admin_step S (Reply i l)))"
proof -
  from reach have "admin_inv S" by (rule admin_reachable_inv)
  with loading have "length (filter (\<lambda>p. fst p = KLoadData) (pending S)) = 1"
    by (simp add: admin_inv_def)
  then have "filter (\<lambda>p. fst p = KLoadData) (pending S) \<noteq> []" by auto
  then obtain p where "p \<in> set (pending S)" and "fst p = KLoadData"
    by (auto simp: filter_empty_conv)
  then obtain i r where i: "i < length (pending S)" and pi: "pending S ! i = (KLoadData, r)"
    by (metis in_set_conv_nth prod.collapse)
  then show ?thesis by (intro exI [where x = i]) (simp add: deliver_def)
qed

theorem admin_loading_ends_witness:
  "a_loading (ui demo_mounted) \<and>
   (\<exists>i. admin_enabled demo_mounted (Reply i Unreachable) \<and>
        \<not> a_loading (ui (admin_step demo_mounted (Reply i Unreachable))))"
proof -
  have loading: "a_loading (ui demo_mounted)"
    by (simp add: demo_mounted_def loadData_def admin_init_def del: run_call.simps)
  show ?thesis using admin_loading_ends [OF demo_mounted_reachable loading, of Unreachable] loading by blast
qed

text \<open>
  C30: a failed request changes nothing but the toasts: every \<open>catch\<close> of the
  page appends its error toast and leaves the lists, the selection, the dialogs
  and the form as they were (the load of the states also ends the loading
  screen, in its \<open>finally\<close>), and it issues no request.
\<close>

theorem admin_failure_only_toasts:
  "resume l k (Inl e) S =
     S\<lparr>ui := (add_toast (error_toast (failure_text k)) (ui S))\<lparr>a_loading := (k \<noteq> KLoadData \<and> a_loading (ui S))\<rparr>\<rparr>"
  by (cases k) (simp_all add: add_toast_def)

text \<open>
  C31: adding a crop: when the dialog is saved with a district selected, the
  store accepts the insert, and the two replies arrive in order, the table
  shows a row carrying the form's fields with the selected district, the
  dialog is closed and the form is reset.
\<close>

theorem admin_add_crop_shown:
  assumes enabled: "admin_enabled S (SaveNewCrop Delivered)"
    and fresh: "gen_uuid (next_key (store S)) \<notin> set (map dbc_id (crops_tbl (store S)))"
    and fk: "a_selectedDistrict (ui S) \<in> set (map dbd_id (districts_tbl (store S)))"
  shows "admin_trace_ok S [SaveNewCrop Delivered, Reply (length (pending S)) Delivered,
                           Reply (length (pending S)) Delivered] \<and>
         (let S' = foldl admin_step S [SaveNewCrop Delivered, Reply (length (pending S)) Delivered,
                                      Reply (length (pending S)) Delivered]
          in (\<exists>row. row \<in> set (a_crops (ui S')) \<and>
                     crop_payload.truncate row = (newCrop (ui S))\<lparr>dbc_district_id := a_selectedDistrict (ui S)\<rparr>) \<and>
             \<not> isAddCropOpen (ui S') \<and> newCrop (ui S') = blank_crop \<and> pending S' = pending S)"
proof -
  let ?d = "a_selectedDistrict (ui S)" and ?p = "(newCrop (ui S))\<lparr>dbc_district_id := a_selectedDistrict (ui S)\<rparr>"
  let ?row = "crop_payload.extend ?p (db_crop.fields (gen_uuid (next_key (store S)))
                 (Some (server_clock (store S))) (Some (server_clock (store S))))"
  from enabled have d: "?d \<noteq> ''''" by simp
  from fk have fk': "dbc_district_id ?p \<in> set (map dbd_id (districts_tbl (store S)))" by simp
  define s1 where "s1 = (store S)\<lparr>crops_tbl := crops_tbl (store S) @ [?row], next_key := Suc (next_key (store S))\<rparr>"
  define L where "L = sort_key dbc_name (filter (\<lambda>c. dbc_district_id c = ?d) (crops_tbl s1))"
  define u2 where "u2 = (add_toast (success_toast ''Crop added successfully'') (ui S))
                           \<lparr>isAddCropOpen := False, newCrop := blank_crop\<rparr>"
  let ?n = "length (pending S)"
  have ins: "pg_insert_crop ?p (store S) = (Inr ?row, s1)"
    unfolding s1_def by (rule insert_crop_success [OF fresh fk'])
  have S1: "admin_step S (SaveNewCrop Delivered) =
              S\<lparr>store := s1, pending := pending S @ [(KAddCrop ?d, Inr (CropRow ?row))]\<rparr>"
    using d ins by (simp add: handleAddCrop_def issue_def createCrop_def map_reply_def Let_def)
  have S2: "admin_step (S\<lparr>store := s1, pending := pending S @ [(KAddCrop ?d, Inr (CropRow ?row))]\<rparr>)
                       (Reply ?n Delivered) =
              S\<lparr>ui := u2, store := s1, pending := pending S @ [(KLoadCrops, Inr (CropRows L))]\<rparr>"
    using d by (simp add: deliver_def nth_append loadCrops_def issue_def getCrops_def map_reply_def
                         L_def u2_def)
  have S3: "admin_step (S\<lparr>ui := u2, store := s1, pending := pending S @ [(KLoadCrops, Inr (CropRows L))]\<rparr>)
                       (Reply ?n Delivered) =
              S\<lparr>ui := u2\<lparr>a_crops := L\<rparr>, store := s1, pending := pending S\<rparr>"
    by (simp add: deliver_def nth_append)
  have row_mem: "?row \<in> set L" by (simp add: L_def s1_def row_defs)
  have trunc: "crop_payload.truncate ?row = ?p" by (simp add: row_defs)
  show ?thesis
    unfolding admin_trace_ok.simps foldl_Cons foldl_Nil S1 S2 S3 Let_def
    using enabled row_mem trunc by (simp add: u2_def add_toast_def) blast
qed

theorem admin_add_crop_shown_witness:
  "admin_trace_ok example_admin [SaveNewCrop Delivered, Reply 0 Delivered, Reply 0 Delivered] \<and>
   \<not> isAddCropOpen (ui (foldl admin_step example_admin
                        [SaveNewCrop Delivered, Reply 0 Delivered, Reply 0 Delivered]))"
  using admin_add_crop_shown [of example_admin] by (simp add: example_admin_def gen_uuid_def Let_def)

text \<open>
  C13: deleting a crop: when a row's delete button is clicked and the delete
  and the reload that follows it are answered, the table shows the selected
  district's crops without that row, all its other crops still there in
  order of name, with the success toast and nothing left pending.
\<close>

theorem admin_delete_crop_gone:
  assumes enabled: "admin_enabled S (DeleteCropClicked k Delivered)"
  shows "admin_trace_ok S [DeleteCropClicked k Delivered, Reply (length (pending S)) Delivered,
                           Reply (length (pending S)) Delivered] \<and>
         (let S' = foldl admin_step S [DeleteCropClicked k Delivered, Reply (length (pending S)) Delivered,
                                      Reply (length (pending S)) Delivered]
          in a_crops (ui S') =
               sort_key dbc_name (filter (\<lambda>c. dbc_district_id c = a_selectedDistrict (ui S) \<and> dbc_id c \<noteq> k)
                                   (crops_tbl (store S))) \<and>
             k \<notin> set (map dbc_id (a_crops (ui S'))) \<and>
             toasts (ui S') = toasts (ui S) @ [success_toast ''Crop deleted successfully''] \<and>
             pending S' = pending S)"
proof -
  let ?d = "a_selectedDistrict (ui S)" and ?n = "length (pending S)"
  define s1 where "s1 = (store S)\<lparr>crops_tbl := filter (\<lambda>r. dbc_id r \<noteq> k) (crops_tbl (store S))\<rparr>"
  define L where "L = sort_key dbc_name (filter (\<lambda>c. dbc_district_id c = ?d) (crops_tbl s1))"
  define u2 where "u2 = add_toast (success_toast ''Crop deleted successfully'') (ui S)"
  from enabled have d: "?d \<noteq> ''''" by simp
  have S1: "admin_step S (DeleteCropClicked k Delivered) =
              S\<lparr>store := s1, pending := pending S @ [(KDeleteCrop ?d, Inr Deleted)]\<rparr>"
    by (simp add: handleDeleteCrop_def issue_def deleteCrop_def pg_delete_crop_def map_reply_def s1_def)
  have S2: "admin_step (S\<lparr>store := s1, pending := pending S @ [(KDeleteCrop ?d, Inr Deleted)]\<rparr>)
                       (Reply ?n Delivered) =
              S\<lparr>ui := u2, store := s1, pending := pending S @ [(KLoadCrops, Inr (CropRows L))]\<rparr>"
    using d by (simp add: deliver_def nth_append loadCrops_def issue_def getCrops_def map_reply_def
                         L_def u2_def)
  have S3: "admin_step (S\<lparr>ui := u2, store := s1, pending := pending S @ [(KLoadCrops, Inr (CropRows L))]\<rparr>)
                       (Reply ?n Delivered) =
              S\<lparr>ui := u2\<lparr>a_crops := L\<rparr>, store := s1, pending := pending S\<rparr>"
    by (simp add: deliver_def nth_append)
  have L: "L = sort_key dbc_name (filter (\<lambda>c. dbc_district_id c = ?d \<and> dbc_id c \<noteq> k) (crops_tbl (store S)))"
    by (simp add: L_def s1_def conj_commute)
  show ?thesis
    unfolding admin_trace_ok.simps foldl_Cons foldl_Nil S1 S2 S3 Let_def
    using enabled L by (auto simp: u2_def add_toast_def)
qed

theorem admin_delete_crop_gone_witness:
  "admin_enabled example_admin (DeleteCropClicked (dbc_id example_crop) Delivered) \<and>
   a_crops (ui (foldl admin_step example_admin
     [DeleteCropClicked (dbc_id example_crop) Delivered, Reply 0 Delivered, Reply 0 Delivered])) = []"
  using admin_delete_crop_gone [of example_admin "dbc_id example_crop"]
  by (simp add: example_admin_def Let_def)

text \<open>
  C32: saving the edit dialog writes back every column of the dialog's copy of
  the row, not only the fields the user changed: whatever the stored row holds
  (a price another client set since the table was loaded, say), the row the
  update answers with has the copy's fields and the client's clock as
  \<open>updated_at\<close>.
\<close>

theorem admin_edit_writes_whole_row:
  assumes wf: "store_wf (store S)" and editing: "editingCrop (ui S) = Some c"
    and row: "r \<in> set (crops_tbl (store S))" and key: "dbc_id r = dbc_id c"
    and fk: "dbc_district_id c \<in> set (map dbd_id (districts_tbl (store S)))"
  shows "\<exists>r'. pending (admin_step S (SaveEditedCrop now Delivered)) =
               pending S @ [(KEditCrop (a_selectedDistrict (ui S)), Inr (CropRow r'))] \<and>
             r' \<in> set (crops_tbl (store (admin_step S (SaveEditedCrop now Delivered)))) \<and>
             crop_payload.truncate r' = crop_payload.truncate c \<and> dbc_id r' = dbc_id c \<and>
             dbc_updated_at r' = Some now"
proof -
  let ?u = "(patch_of_row c)\<lparr>p_updated_at := Some now\<rparr>"
  have "p_id ?u = None \<or> p_id ?u = Some (dbc_id c)"
    and "given_or (p_district_id ?u) (dbc_district_id r) \<in> set (map dbd_id (districts_tbl (store S)))"
    using fk by (simp_all add: patch_of_row_def given_or_def)
  note upd = pg_update_crop_single_hit [OF wf row key this]
  let ?r' = "apply_crop_patch ?u r"
  have mem: "?r' \<in> set (map (\<lambda>x. if dbc_id x = dbc_id c then apply_crop_patch ?u x else x) (crops_tbl (store S)))"
    using row key by force
  have fields: "crop_payload.truncate ?r' = crop_payload.truncate c \<and> dbc_id ?r' = dbc_id c \<and>
                dbc_updated_at ?r' = Some now"
    by (simp add: apply_crop_patch_def patch_of_row_def given_or_def crop_payload.defs)
  show ?thesis
    using upd mem fields editing
    by (intro exI [where x = ?r']) (simp add: handleEditCrop_def updateCrop_def map_reply_def del: map_map)
qed

theorem admin_edit_writes_whole_row_witness:
  "\<exists>r'. pending (admin_step example_admin (SaveEditedCrop 7 Delivered)) =
         [(KEditCrop ''hyderabad'', Inr (CropRow r'))] \<and>
       dbc_current_price r' = 2300 \<and> dbc_updated_at r' = Some 7"
proof -
  have "store_wf (store example_admin)" by (simp add: example_admin_def store_wf_def)
  from admin_edit_writes_whole_row [OF this, of "example_crop\<lparr>dbc_current_price := 2300\<rparr>" example_crop 7]
  obtain r' where "pending (admin_step example_admin (SaveEditedCrop 7 Delivered)) =
         [(KEditCrop ''hyderabad'', Inr (CropRow r'))]"
    and "crop_payload.truncate r' = crop_payload.truncate (example_crop\<lparr>dbc_current_price := 2300\<rparr>)"
    and "dbc_updated_at r' = Some 7"
    by (auto simp: example_admin_def)
  moreover from arg_cong [where f = dbc_current_price, OF this(2)] have "dbc_current_price r' = 2300"
    by (simp add: crop_payload.truncate_def)
  ultimately show ?thesis by blast
qed

text \<open>
  C33: replies are not matched against the current selection: there is a run in
  which Andhra Pradesh's Guntur is selected while the table shows the crops of
  Telangana's Hyderabad, because the reply of an earlier \<open>getCrops\<close> arrived
  after the one for the current district.
\<close>

theorem admin_stale_crops_reply:
  "\<exists>S. admin_reachable S \<and> a_selectedState (ui S) = ''ap'' \<and> a_selectedDistrict (ui S) = ''guntur'' \<and>
       map dbc_district_id (a_crops (ui S)) = [''hyderabad'']"
  by (rule exI [where x = demo_stale]) (simp only: demo_stale_reachable demo_stale_view simp_thms)

text \<open>
  The district select lists the districts of the previous state until the
  new list arrives, so there is a run in which the selected district is not a
  district of the selected state (what the page then shows is in
  \<open>AdminView\<close>).
\<close>

theorem admin_district_of_other_state:
  "\<exists>S. admin_reachable S \<and> a_selectedState (ui S) = ''ap'' \<and> a_selectedDistrict (ui S) = ''hyderabad'' \<and>
       ''hyderabad'' \<in> set (map dbd_id (districts_tbl (store S))) \<and>
       ''hyderabad'' \<notin> set (map dbd_id (filter (\<lambda>d. dbd_state_id d = ''ap'') (districts_tbl (store S))))"
  by (rule exI [where x = demo_mismatch]) (simp only: demo_mismatch_reachable demo_mismatch_view simp_thms)

text \<open>
  C35: the average price card: for a non-empty table whose prices lie between
  two whole numbers, \<open>Math.round\<close> of the mean lies between them too, and is
  within one half of the mean.
\<close>

theorem avgPrice_within_range:
  assumes ne: "cs \<noteq> []"
    and range: "\<forall>c\<in>set cs. of_int lo \<le> dbc_current_price c \<and> dbc_current_price c \<le> of_int hi"
  shows "lo \<le> avgPrice cs \<and> avgPrice cs \<le> hi \<and>
         \<bar>of_int (avgPrice cs) - sum_list (map dbc_current_price cs) / of_nat (length cs)\<bar> \<le> 1/2"
proof -
  let ?n = "of_nat (length cs) :: rat" and ?m = "sum_list (map dbc_current_price cs) / of_nat (length cs)"
  from ne have n: "0 < ?n" by simp
  have avg: "avgPrice cs = js_round ?m"
    using ne by (simp add: avgPrice_def foldl_add_sum_list)
  from sum_list_bounds [OF range] have lo: "?n * of_int lo \<le> sum_list (map dbc_current_price cs)"
    and hi: "sum_list (map dbc_current_price cs) \<le> ?n * of_int hi" by simp_all
  from lo n have "of_int lo \<le> ?m" by (simp add: pos_le_divide_eq mult.commute)
  moreover from hi n have "?m \<le> of_int hi" by (simp add: pos_divide_le_eq mult.commute)
  ultimately have "js_round (of_int lo) \<le> js_round ?m" and "js_round ?m \<le> js_round (of_int hi)"
    by (simp_all only: js_round_mono)
  then show ?thesis using js_round_error [of ?m] by (simp add: avg)
qed

theorem avgPrice_within_range_witness:
  "2100 \<le> avgPrice [example_crop, example_crop\<lparr>dbc_current_price := 2300\<rparr>] \<and>
   avgPrice [example_crop, example_crop\<lparr>dbc_current_price := 2300\<rparr>] \<le> 2300"
  using avgPrice_within_range [of "[example_crop, example_crop\<lparr>dbc_current_price := 2300\<rparr>]" 2100 2300]
  by simp

end
