(* ===== verification/AdminSettle.thy ===== *)
theory AdminSettle
  imports Admin
begin

text \<open>
  The admin page once the user stops acting: the event loop delivers the
  pending replies in the order they were queued (spec section 5: every call
  resumes its handler exactly once).  Delivering a reply can queue one more
  request, the reload that the add, edit and delete handlers start after
  their success, so the queue does not simply shrink.  \<open>drain_replies\<close>
  delivers until nothing is pending; it is a \<open>function\<close> whose termination is
  proved with the weight of the queue, 2 for a handler that may reload and 1
  for a load.
\<close>

fun cont_weight :: "admin_cont \<Rightarrow> nat" where
  "cont_weight (KAddCrop d) = 2"
| "cont_weight (KEditCrop d) = 2"
| "cont_weight (KDeleteCrop d) = 2"
| "cont_weight KLoadData = 1"
| "cont_weight KLoadDistricts = 1"
| "cont_weight KLoadCrops = 1"

definition pending_weight :: "admin_sys \<Rightarrow> nat" where
  "pending_weight S = sum_list (map (cont_weight \<circ> fst) (pending S))"

lemma pending_resume_weight:
  "pending (resume l k r S) = pending S \<or>
   (\<exists>x. pending (resume l k r S) = pending S @ [(KLoadCrops, x)] \<and> cont_weight k = 2)"
  by (cases k) (auto simp: loadCrops_def Let_def issue_def split: sum.split gateway_result.split prod.split)

lemma pending_weight_deliver:
  assumes "pending S \<noteq> []"
  shows "pending_weight (deliver l 0 S) < pending_weight S"
proof -
  obtain k r ps where ps: "pending S = (k, r) # ps" using assms by (cases "pending S") auto
  have pos: "0 < cont_weight k" by (cases k) simp_all
  let ?S = "S\<lparr>pending := ps\<rparr>"
  have "deliver l 0 S = resume l k r ?S" by (simp add: deliver_def ps)
  moreover from pending_resume_weight [of l k r ?S] pos
  have "pending_weight (resume l k r ?S) < cont_weight k + sum_list (map (cont_weight \<circ> fst) ps)"
    by (auto simp: pending_weight_def)
  ultimately show ?thesis by (simp add: pending_weight_def ps)
qed

function drain_replies :: "link \<Rightarrow> admin_sys \<Rightarrow> admin_sys" where
  "drain_replies l S = (if pending S = [] then S else drain_replies l (deliver l 0 S))"
  by pat_completeness auto
termination
  by (relation "measure (\<lambda>(l, S). pending_weight S)") (auto intro: pending_weight_deliver)

declare drain_replies.simps [simp del]

lemma weight_list_bound: "sum_list (map (cont_weight \<circ> fst) ps) \<le> 2 * length ps"
proof (induction ps)
  case Nil
  then show ?case by simp
next
  case (Cons p ps)
  have "cont_weight (fst p) \<le> 2" by (cases "fst p") simp_all
  with Cons show ?case by simp
qed

lemma pending_weight_bound: "pending_weight S \<le> 2 * length (pending S)"
  by (simp add: pending_weight_def weight_list_bound)

lemma drain_replies_steps:
  "pending (drain_replies l S) = [] \<and>
   (\<exists>n. n \<le> pending_weight S \<and> drain_replies l S = (deliver l 0 ^^ n) S)"
proof (induction l S rule: drain_replies.induct)
  case (1 l S)
  show ?case
  proof (cases "pending S = []")
    case True
    then show ?thesis by (auto simp: drain_replies.simps [of l S] intro!: exI [where x = 0])
  next
    case False
    with "1.IH" obtain n where fin: "pending (drain_replies l (deliver l 0 S)) = []"
      and n: "n \<le> pending_weight (deliver l 0 S)"
      and eq: "drain_replies l (deliver l 0 S) = (deliver l 0 ^^ n) (deliver l 0 S)" by blast
    from False have "pending_weight (deliver l 0 S) < pending_weight S" by (rule pending_weight_deliver)
    with n have "Suc n \<le> pending_weight S" by simp
    moreover have "drain_replies l S = (deliver l 0 ^^ Suc n) S"
      using False eq by (simp add: drain_replies.simps [of l S] funpow_Suc_right del: funpow.simps)
    ultimately show ?thesis using False fin by (auto simp: drain_replies.simps [of l S])
  qed
qed

text \<open>
  C39: the page settles: whatever the state, delivering the pending replies in
  order ends with no request pending, after at most twice as many deliveries
  as there were pending requests, even though each add, edit or delete reply
  starts a reload.
\<close>

theorem drain_replies_settles:
  "pending (drain_replies l S) = [] \<and>
   (\<exists>n. n \<le> 2 * length (pending S) \<and> drain_replies l S = (deliver l 0 ^^ n) S)"
  using drain_replies_steps [of l S] pending_weight_bound [of S] by (meson le_trans)

end
