(* ===== verification/App.thy ===== *)
theory App
  imports Site AdminSettle
begin

text \<open>
  The site and the admin page together.  The router mounts the admin page
  (\<open>src/src/pages/Admin.tsx\<close>) when the location becomes \<open>/admin\<close>, by a
  header link or by the login page's redirect (\<open>pages/Login.tsx\<close> line 47),
  and unmounts it when the location changes again.  Mounting runs the page's
  \<open>useEffect\<close> on mount: fresh hooks and \<open>loadData\<close>.  The database is
  shared by all instances of the page.  An instance that is unmounted while
  it awaits a reply is not cancelled: when the reply comes its handler
  resumes, its \<open>setState\<close> calls do nothing, but its \<open>toast\<close> calls reach
  the global toaster and its follow-up requests (\<open>loadCrops\<close> after a
  mutation) still reach the database.  Such replies are the \<open>orphans\<close>; the
  toasts they raise are \<open>stray_toasts\<close>.
\<close>

record app =
  app_site :: site
  adm :: admin_sys
  orphans :: "(admin_cont \<times> (db_error + gateway_result)) list"
  stray_toasts :: "toast list"

text \<open>The admin page's mount effect: fresh hooks over the shared store, then \<open>loadData\<close>.\<close>

definition mount_admin :: "link \<Rightarrow> admin_sys \<Rightarrow> admin_sys" where
  "mount_admin l S = loadData l (admin_init (store S))"

text \<open>Unmounting leaves the awaiting handlers running as orphans.\<close>

definition unmount_admin :: "app \<Rightarrow> app" where
  "unmount_admin A = A\<lparr>orphans := orphans A @ pending (adm A), adm := (adm A)\<lparr>pending := []\<rparr>\<rparr>"

text \<open>
  The site moved to \<open>S'\<close>.  A route change (the site's mount counter moved)
  unmounts the admin page if it was shown and mounts it if it is shown now.
\<close>

definition app_route :: "link \<Rightarrow> site \<Rightarrow> app \<Rightarrow> app" where
  "app_route l S' A =
     (if mount S' = mount (app_site A) then A\<lparr>app_site := S'\<rparr>
      else let A1 = (if location (app_site A) = ''/admin'' then unmount_admin A else A)
           in A1\<lparr>app_site := S',
                 adm := (if location S' = ''/admin'' then mount_admin l (adm A1) else adm A1)\<rparr>)"

text \<open>
  The reply at position \<open>i\<close> of the orphans arrives: the handler's code after
  its \<open>await\<close> runs on the shared store; of its effects on the page only the
  toasts survive, and a request it sends becomes an orphan in turn.
\<close>

definition orphan_deliver :: "link \<Rightarrow> nat \<Rightarrow> app \<Rightarrow> app" where
  "orphan_deliver l i A =
     (if i < length (orphans A)
      then case orphans A ! i of
             (k, r) \<Rightarrow>
               (let T = resume l k r ((adm A)\<lparr>pending := []\<rparr>)
                in A\<lparr>adm := (adm A)\<lparr>store := store T\<rparr>,
                     orphans := take i (orphans A) @ drop (Suc i) (orphans A) @ pending T,
                     stray_toasts := stray_toasts A @ drop (length (toasts (ui (adm A)))) (toasts (ui T))\<rparr>)
      else A)"

datatype app_event =
    SiteEvent site_event link
  | AdminEvent admin_event
  | OrphanReply nat link

fun app_step :: "app \<Rightarrow> app_event \<Rightarrow> app" where
  "app_step A (SiteEvent e l) = app_route l (site_step (app_site A) e) A"
| "app_step A (AdminEvent e) = A\<lparr>adm := admin_step (adm A) e\<rparr>"
| "app_step A (OrphanReply i l) = orphan_deliver l i A"

text \<open>The admin page's controls and replies exist only while it is shown; orphans arrive at any time.\<close>

fun app_enabled :: "app \<Rightarrow> app_event \<Rightarrow> bool" where
  "app_enabled A (SiteEvent e l) = site_enabled (app_site A) e"
| "app_enabled A (AdminEvent e) = (location (app_site A) = ''/admin'' \<and> admin_enabled (adm A) e)"
| "app_enabled A (OrphanReply i l) = (i < length (orphans A))"

definition app_init :: "string \<Rightarrow> link \<Rightarrow> db_store \<Rightarrow> app" where
  "app_init path l s =
     \<lparr>app_site = site_init path,
      adm = (if path = ''/admin'' then loadData l (admin_init s) else admin_init s),
      orphans = [], stray_toasts = []\<rparr>"

text \<open>
  The runs: the site is opened at some path over a store the database can
  reach; then the user acts, replies arrive, other clients write and the
  server clock advances.
\<close>

inductive app_reachable :: "app \<Rightarrow> bool" where
  init: "store_reachable s \<Longrightarrow> app_reachable (app_init path l s)"
| step: "app_reachable A \<Longrightarrow> app_enabled A e \<Longrightarrow> app_reachable (app_step A e)"
| other_client: "app_reachable A \<Longrightarrow>
    app_reachable (A\<lparr>adm := (adm A)\<lparr>store := snd (run_call l c (store (adm A)))\<rparr>\<rparr>)"
| tick: "app_reachable A \<Longrightarrow>
    app_reachable (A\<lparr>adm := (adm A)\<lparr>store := (store (adm A))\<lparr>server_clock := Suc (server_clock (store (adm A)))\<rparr>\<rparr>\<rparr>)"

fun app_trace_ok :: "app \<Rightarrow> app_event list \<Rightarrow> bool" where
  "app_trace_ok A [] = True"
| "app_trace_ok A (e # es) = (app_enabled A e \<and> app_trace_ok (app_step A e) es)"

text \<open>
  A run across pages: on the admin page the user selects Telangana and
  Hyderabad and deletes its crop, then follows the header's Dashboard link
  before the delete's reply arrives; the reply arrives afterwards.
\<close>

definition demo_orphan_events :: "app_event list" where
  "demo_orphan_events =
     [AdminEvent (Reply 0 Delivered), AdminEvent (ChooseState ''tg'' Delivered),
      AdminEvent (Reply 0 Delivered), AdminEvent (ChooseDistrict ''hyderabad'' Delivered),
      AdminEvent (Reply 0 Delivered), AdminEvent (DeleteCropClicked ''uuid-1'' Delivered),
      SiteEvent (NavLink ''/dashboard'') Delivered, OrphanReply 0 Delivered]"

text \<open>
  Signing in as an administrator with an e-mail \<open>e\<close> and a password
  \<open>p\<close>: type both, pick the Admin role, submit, and let the timer fire.
\<close>

definition admin_login_events :: "string \<Rightarrow> string \<Rightarrow> link \<Rightarrow> app_event list" where
  "admin_login_events e p l =
     [SiteEvent (LoginInput LEmail e) l, SiteEvent (LoginInput LPassword p) l,
      SiteEvent (LoginInput LUserType ''admin'') l, SiteEvent SubmitLogin l, SiteEvent TimerFires l]"

subsection \<open>Lemmas\<close>

lemma run_timer_same_mount:
  "mount (run_timer t (S\<lparr>timers := ts\<rparr>)) = mount S \<Longrightarrow> location (run_timer t (S\<lparr>timers := ts\<rparr>)) = location S"
  by (cases t) (auto simp: login_callback_def contact_callback_def navigate_def Let_def split: if_splits)

lemma site_step_same_mount:
  "mount (site_step S e) = mount S \<Longrightarrow> location (site_step S e) = location S"
proof (cases e)
  case TimerFires
  then show "mount (site_step S e) = mount S \<Longrightarrow> ?thesis"
    by (cases "timers S") (auto dest: run_timer_same_mount)
qed (auto simp: navigate_def handleLoginSubmit_def handleContactSubmit_def split: if_splits)

text \<open>What every run keeps: the site is a run of the site, the shown admin page a run of the page.\<close>

definition app_inv :: "app \<Rightarrow> bool" where
  "app_inv A \<longleftrightarrow>
     site_reachable (app_site A) \<and> store_reachable (store (adm A)) \<and>
     (if location (app_site A) = ''/admin'' then admin_reachable (adm A) else pending (adm A) = [])"

lemma store_loadData [simp]: "store (loadData l S) = snd (run_call l GetStates (store S))"
  by (simp add: loadData_def del: run_call.simps)

lemma store_admin_init [simp]: "store (admin_init s) = s"
  and pending_admin_init [simp]: "pending (admin_init s) = []"
  by (simp_all add: admin_init_def)

lemma location_site_init [simp]: "location (site_init path) = path"
  by (simp add: site_init_def)

lemma app_inv_init: "store_reachable s \<Longrightarrow> app_inv (app_init path l s)"
  using site_reachable.init [of path]
  by (auto simp: app_inv_def app_init_def
      intro: admin_reachable.mount store_reachable.call simp del: run_call.simps)

lemma store_unmount [simp]: "store (adm (unmount_admin A)) = store (adm A)"
  and site_unmount [simp]: "app_site (unmount_admin A) = app_site A"
  by (simp_all add: unmount_admin_def)

lemma app_inv_route:
  assumes inv: "app_inv A" and site: "site_reachable S'"
    and same: "mount S' = mount (app_site A) \<Longrightarrow> location S' = location (app_site A)"
  shows "app_inv (app_route l S' A)"
proof (cases "mount S' = mount (app_site A)")
  case True
  with inv site same show ?thesis by (simp add: app_inv_def app_route_def)
next
  case False
  define A1 where "A1 = (if location (app_site A) = ''/admin'' then unmount_admin A else A)"
  have st: "store_reachable (store (adm A1))" and pe: "location S' \<noteq> ''/admin'' \<Longrightarrow> pending (adm A1) = []"
    using inv by (auto simp: A1_def app_inv_def unmount_admin_def)
  have "app_route l S' A =
          A1\<lparr>app_site := S', adm := (if location S' = ''/admin'' then mount_admin l (adm A1) else adm A1)\<rparr>"
    using False by (simp add: app_route_def A1_def Let_def)
  moreover have "store_reachable (store (mount_admin l (adm A1)))"
    using st by (simp add: mount_admin_def loadData_def admin_init_def store_reachable.call del: run_call.simps)
  ultimately show ?thesis
    using site st pe by (auto simp: app_inv_def mount_admin_def intro: admin_reachable.mount)
qed

lemma admin_reachable_store_change:
  assumes "admin_reachable S"
    and "s' = store S \<or> (\<exists>l c. s' = snd (run_call l c (store S)))"
  shows "admin_reachable (S\<lparr>store := s'\<rparr>)"
  using assms by (auto intro: admin_reachable.other_client)

lemma app_inv_orphan: "app_inv A \<Longrightarrow> app_inv (orphan_deliver l i A)"
proof -
  assume inv: "app_inv A"
  show ?thesis
  proof (cases "i < length (orphans A)")
    case False
    with inv show ?thesis by (simp add: orphan_deliver_def)
  next
    case True
    obtain k r where kr: "orphans A ! i = (k, r)" by fastforce
    define T where "T = resume l k r ((adm A)\<lparr>pending := []\<rparr>)"
    have ch: "store T = store (adm A) \<or> (\<exists>l' c. store T = snd (run_call l' c (store (adm A))))"
      using store_resume [of l k r "(adm A)\<lparr>pending := []\<rparr>"] by (simp add: T_def)
    then have "store_reachable (store T)"
      using inv by (auto simp: app_inv_def intro: store_reachable.call)
    moreover have "location (app_site A) = ''/admin'' \<Longrightarrow> admin_reachable ((adm A)\<lparr>store := store T\<rparr>)"
      using inv ch by (intro admin_reachable_store_change) (auto simp: app_inv_def)
    ultimately show ?thesis
      using inv True kr by (auto simp: orphan_deliver_def T_def Let_def app_inv_def)
  qed
qed

lemma app_inv_step:
  assumes inv: "app_inv A" and en: "app_enabled A e"
  shows "app_inv (app_step A e)"
proof (cases e)
  case (SiteEvent se l)
  with inv en have "site_reachable (site_step (app_site A) se)"
    by (auto simp: app_inv_def intro: site_reachable.step)
  with inv SiteEvent show ?thesis
    by (auto intro: app_inv_route site_step_same_mount)
next
  case (AdminEvent ae)
  with inv en have "admin_reachable (admin_step (adm A) ae)"
    by (auto simp: app_inv_def intro: admin_reachable.step)
  with inv en AdminEvent show ?thesis
    by (auto simp: app_inv_def dest: admin_reachable_store)
next
  case (OrphanReply i l)
  with inv show ?thesis by (simp add: app_inv_orphan)
qed

lemma app_reachable_inv: "app_reachable A \<Longrightarrow> app_inv A"
proof (induction rule: app_reachable.induct)
  case (init s path l)
  then show ?case by (rule app_inv_init)
next
  case (step A e)
  then show ?case by (blast intro: app_inv_step)
next
  case (other_client A l c)
  then show ?case
    by (auto simp: app_inv_def intro: store_reachable.call admin_reachable.other_client)
next
  case (tick A)
  then show ?case
    by (auto simp: app_inv_def intro: store_reachable.tick admin_reachable.tick)
qed

lemma app_reachable_trace:
  "app_reachable A \<Longrightarrow> app_trace_ok A es \<Longrightarrow> app_reachable (foldl app_step A es)"
  by (induction es arbitrary: A) (auto intro: app_reachable.step)

lemma demo_orphan_run:
  "app_trace_ok (app_init ''/admin'' Delivered demo_store) demo_orphan_events \<and>
   location (app_site (foldl app_step (app_init ''/admin'' Delivered demo_store) demo_orphan_events)) = ''/dashboard'' \<and>
   stray_toasts (foldl app_step (app_init ''/admin'' Delivered demo_store) demo_orphan_events) =
     [success_toast ''Crop deleted successfully''] \<and>
   map fst (orphans (foldl app_step (app_init ''/admin'' Delivered demo_store) demo_orphan_events)) = [KLoadCrops]"
  by (simp add: demo_orphan_events_def app_init_def demo_eval app_route_def unmount_admin_def mount_admin_def
      orphan_deliver_def handleDeleteCrop_def deleteCrop_def pg_delete_crop_def Let_def navigate_def
      header_links_def navigation_def site_init_def)


lemma demo_store_reachable: "store_reachable demo_store"
  unfolding demo_store_def by (intro store_reachable_run_calls store_reachable.empty)

lemma site_reachable_not_loading:
  "site_reachable S \<Longrightarrow> timers S = [] \<Longrightarrow> \<not> isLoading (login S)"
  using site_reachable_inv [of S] by (auto simp: site_inv_def split: if_splits)

subsection \<open>Properties of the composed site\<close>

text \<open>
  The composition refines its components: in every run of the site with
  the admin page mounted and unmounted by the router, the site is a run of the
  site model, the database a reachable store, and the admin page, while it is
  shown, a run of the admin page's own model, so every property proved of
  \<open>admin_reachable\<close> holds of the page inside the site.
\<close>

theorem app_refines_components:
  assumes "app_reachable A"
  shows "site_reachable (app_site A) \<and> store_reachable (store (adm A)) \<and>
         (location (app_site A) = ''/admin'' \<longrightarrow> admin_reachable (adm A))"
  using app_reachable_inv [OF assms] by (simp add: app_inv_def)

theorem app_refines_components_witness:
  "app_reachable (app_init ''/admin'' Delivered demo_store) \<and>
   location (app_site (app_init ''/admin'' Delivered demo_store)) = ''/admin'' \<and>
   admin_reachable (adm (app_init ''/admin'' Delivered demo_store))"
proof -
  have r: "app_reachable (app_init ''/admin'' Delivered demo_store)"
    by (rule app_reachable.init [OF demo_store_reachable])
  have "location (app_site (app_init ''/admin'' Delivered demo_store)) = ''/admin''"
    by (simp add: app_init_def)
  with app_refines_components [OF r] r show ?thesis by simp
qed

text \<open>
  C38: leaving the admin page does not cancel its requests: there is a run in
  which the user deletes a crop, leaves for the dashboard before the reply,
  and then the dashboard shows the admin page's "Crop deleted successfully"
  toast while the unmounted page's follow-up \<open>getCrops\<close> request is
  already under way.
\<close>

theorem app_orphan_toast_after_leaving:
  "\<exists>A. app_reachable A \<and> location (app_site A) = ''/dashboard'' \<and>
       success_toast ''Crop deleted successfully'' \<in> set (stray_toasts A) \<and>
       KLoadCrops \<in> fst ` set (orphans A)"
proof (intro exI [where x = "foldl app_step (app_init ''/admin'' Delivered demo_store) demo_orphan_events"])
  have "app_reachable (foldl app_step (app_init ''/admin'' Delivered demo_store) demo_orphan_events)"
    using app_reachable_trace [OF app_reachable.init [OF demo_store_reachable]] demo_orphan_run by blast
  moreover have "KLoadCrops \<in> fst ` set (orphans (foldl app_step (app_init ''/admin'' Delivered demo_store) demo_orphan_events))"
    using demo_orphan_run by (metis list.set_intros(1) list.set_map)
  ultimately show "app_reachable (foldl app_step (app_init ''/admin'' Delivered demo_store) demo_orphan_events) \<and>
       location (app_site (foldl app_step (app_init ''/admin'' Delivered demo_store) demo_orphan_events)) = ''/dashboard'' \<and>
       success_toast ''Crop deleted successfully'' \<in> set (stray_toasts (foldl app_step (app_init ''/admin'' Delivered demo_store) demo_orphan_events)) \<and>
       KLoadCrops \<in> fst ` set (orphans (foldl app_step (app_init ''/admin'' Delivered demo_store) demo_orphan_events))"
    using demo_orphan_run by simp
qed

text \<open>
  C12: the login page checks no credentials: from any state of the site on
  the login page with no timer pending, every e-mail the browser accepts as a
  valid address and every non-empty password, with the Admin role picked,
  lead to the admin page, which is mounted and loading the database's states.
\<close>

theorem login_any_credentials_admin:
  assumes reach: "app_reachable A" and loc: "location (app_site A) = ''/login''"
    and idle: "timers (app_site A) = []" and em: "valid_email e" and pw: "p \<noteq> ''''"
  shows "app_trace_ok A (admin_login_events e p l) \<and>
         location (app_site (foldl app_step A (admin_login_events e p l))) = ''/admin'' \<and>
         a_loading (ui (adm (foldl app_step A (admin_login_events e p l)))) \<and>
         map fst (pending (adm (foldl app_step A (admin_login_events e p l)))) = [KLoadData]"
proof -
  have "site_reachable (app_site A)"
    using app_reachable_inv [OF reach] by (simp add: app_inv_def)
  from this idle have nl: "\<not> isLoading (login (app_site A))" by (rule site_reachable_not_loading)
  show ?thesis
    using loc idle em pw nl
    by (simp add: admin_login_events_def app_route_def mount_admin_def handleLoginSubmit_def
        login_callback_def login_target_def navigate_def admin_init_def loadData_def Let_def
        del: run_call.simps)
qed

theorem login_any_credentials_admin_witness:
  "app_reachable (app_init ''/login'' Delivered demo_store) \<and>
   location (app_site (app_init ''/login'' Delivered demo_store)) = ''/login'' \<and>
   timers (app_site (app_init ''/login'' Delivered demo_store)) = [] \<and>
   valid_email ''guest@example.com'' \<and> ''not-a-password'' \<noteq> '''' \<and>
   (''guest@example.com'', ''not-a-password'') \<notin> set (map snd demo_credentials) \<and>
   location (app_site (foldl app_step (app_init ''/login'' Delivered demo_store)
     (admin_login_events ''guest@example.com'' ''not-a-password'' Delivered))) = ''/admin''"
proof -
  have r: "app_reachable (app_init ''/login'' Delivered demo_store)"
    by (rule app_reachable.init [OF demo_store_reachable])
  have loc: "location (app_site (app_init ''/login'' Delivered demo_store)) = ''/login''"
    by (simp add: app_init_def)
  have idle: "timers (app_site (app_init ''/login'' Delivered demo_store)) = []"
    by (simp add: app_init_def site_init_def)
  have em: "valid_email ''guest@example.com''" by (simp add: valid_email_simps)
  show ?thesis
    using r loc idle em
      login_any_credentials_admin [OF r loc idle em, of "''not-a-password''" Delivered]
    by (simp add: demo_credentials_def)
qed

end
