(* ===== verification/Recommendations.thy ===== *)
theory Recommendations
  imports Main
begin

text \<open>
  The recommendations page (\<open>src/src/pages/Recommendations.tsx\<close>): its two
  arrays, \<open>recommendations\<close> (lines 17 to 102) and \<open>quickTips\<close> (lines 104 to
  125), transcribed field for field, and what the page renders from them
  (lines 168 to 244): one tip per quick tip keyed by its index, and one card
  per recommendation keyed by its \<open>id\<close>, whose implementation steps are
  numbered \<open>index + 1\<close>.  A lucide icon element is its component's name and
  its class string.  The page has no state and no handler; the text around
  the lists is static.
\<close>

record icon_el =
  icon_name :: string
  icon_class :: string

record recommendation =
  rec_id :: string
  rec_icon :: icon_el
  rec_title :: string
  rec_category :: string
  rec_description :: string
  rec_details :: "string list"
  rec_benefits :: "string list"

record quick_tip =
  tip_title :: string
  tip_text :: string
  tip_icon :: icon_el

definition recommendations :: "recommendation list" where
  "recommendations = [
     \<lparr>rec_id = ''soil-fertility'', rec_icon = \<lparr>icon_name = ''FlaskConical'', icon_class = ''h-6 w-6 text-earth''\<rparr>,
      rec_title = ''Soil Fertility Testing'', rec_category = ''Soil Health'',
      rec_description = ''Test your soil before planting to determine nutrient levels and pH balance'',
      rec_details = [''Conduct soil testing every 2-3 years or before major crop changes'',
        ''Test for pH levels (ideal range: 6.0-7.0 for most crops)'',
        ''Check nitrogen, phosphorus, and potassium levels'',
        ''Test for organic matter content and micronutrients'',
        ''Use government soil testing labs for affordable testing'',
        ''Adjust fertilizer application based on test results''],
      rec_benefits = [''Optimize fertilizer usage and reduce costs'',
        ''Improve crop yield and quality'',
        ''Prevent soil degradation'',
        ''Ensure sustainable farming practices'']\<rparr>,
     \<lparr>rec_id = ''crop-rotation'', rec_icon = \<lparr>icon_name = ''Recycle'', icon_class = ''h-6 w-6 text-success''\<rparr>,
      rec_title = ''Crop Rotation Practices'', rec_category = ''Sustainable Farming'',
      rec_description = ''Implement crop rotation to maintain soil health and prevent pest buildup'',
      rec_details = [''Rotate crops every season to different fields'',
        ''Follow legumes with cereals to utilize nitrogen fixation'',
        ''Include deep-rooted crops to improve soil structure'',
        ''Avoid planting same crop family consecutively'',
        ''Plan 3-4 year rotation cycles for best results'',
        ''Include cover crops during fallow periods''],
      rec_benefits = [''Reduce pest and disease pressure'',
        ''Improve soil fertility naturally'',
        ''Break weed cycles'',
        ''Increase biodiversity on farm'']\<rparr>,
     \<lparr>rec_id = ''water-conservation'', rec_icon = \<lparr>icon_name = ''Droplets'', icon_class = ''h-6 w-6 text-primary''\<rparr>,
      rec_title = ''Water Conservation & Rainwater Harvesting'', rec_category = ''Water Management'',
      rec_description = ''Reduce dependence on groundwater through efficient water management'',
      rec_details = [''Install rainwater harvesting systems on rooftops and fields'',
        ''Use drip irrigation for efficient water usage'',
        ''Create farm ponds to store rainwater'',
        ''Implement mulching to reduce evaporation'',
        ''Schedule irrigation based on crop water requirements'',
        ''Avoid over-irrigation that leads to waterlogging''],
      rec_benefits = [''Reduce water bills and dependency'',
        ''Recharge groundwater levels'',
        ''Ensure water availability during dry spells'',
        ''Improve crop water use efficiency'']\<rparr>,
     \<lparr>rec_id = ''contour-farming'', rec_icon = \<lparr>icon_name = ''Mountain'', icon_class = ''h-6 w-6 text-warning''\<rparr>,
      rec_title = ''Contour Farming Techniques'', rec_category = ''Soil Conservation'',
      rec_description = ''Prevent soil erosion and water runoff on sloped lands'',
      rec_details = [''Plow and plant along the contour lines of slopes'',
        ''Create terraces on steep slopes to reduce erosion'',
        ''Plant cover crops on contour strips'',
        ''Install check dams in water channels'',
        ''Use grass strips between crop rows'',
        ''Maintain proper spacing between contour lines''],
      rec_benefits = [''Prevent soil erosion and nutrient loss'',
        ''Improve water infiltration'',
        ''Reduce surface runoff'',
        ''Maintain slope stability'']\<rparr>]"

definition quickTips :: "quick_tip list" where
  "quickTips = [
     \<lparr>tip_title = ''Best Time for Planting'',
      tip_text = ''Plant crops according to local weather patterns and monsoon predictions'', tip_icon = \<lparr>icon_name = ''Sprout'', icon_class = ''h-4 w-4 text-success''\<rparr>\<rparr>,
     \<lparr>tip_title = ''Integrated Pest Management'',
      tip_text = ''Use biological pest control methods alongside targeted chemical treatments'', tip_icon = \<lparr>icon_name = ''CheckCircle'', icon_class = ''h-4 w-4 text-primary''\<rparr>\<rparr>,
     \<lparr>tip_title = ''Market Research'',
      tip_text = ''Study market prices and demand before selecting crops for the season'', tip_icon = \<lparr>icon_name = ''BookOpen'', icon_class = ''h-4 w-4 text-earth''\<rparr>\<rparr>,
     \<lparr>tip_title = ''Farmer Groups'',
      tip_text = ''Join local farmer groups for knowledge sharing and better input prices'', tip_icon = \<lparr>icon_name = ''Heart'', icon_class = ''h-4 w-4 text-destructive''\<rparr>\<rparr>]"

record tip_item =
  ti_key :: nat
  ti_icon :: icon_el
  ti_title :: string
  ti_text :: string

definition render_tips :: "quick_tip list \<Rightarrow> tip_item list" where
  "render_tips ts =
     map (\<lambda>(index, t). \<lparr>ti_key = index, ti_icon = tip_icon t, ti_title = tip_title t, ti_text = tip_text t\<rparr>)
       (enumerate 0 ts)"

record rec_card =
  rc_key :: string
  rc_icon :: icon_el
  rc_title :: string
  rc_badge :: string
  rc_description :: string
  rc_steps :: "(nat \<times> string) list"
  rc_benefits :: "string list"

definition render_recommendation :: "recommendation \<Rightarrow> rec_card" where
  "render_recommendation r =
     \<lparr>rc_key = rec_id r, rc_icon = rec_icon r, rc_title = rec_title r, rc_badge = rec_category r,
      rc_description = rec_description r,
      rc_steps = map (\<lambda>(index, detail). (index + 1, detail)) (enumerate 0 (rec_details r)),
      rc_benefits = rec_benefits r\<rparr>"

definition recommendations_page :: "tip_item list \<times> rec_card list" where
  "recommendations_page = (render_tips quickTips, map render_recommendation recommendations)"

subsection \<open>Lemmas\<close>

lemma map_Suc_fst_zip: "map (\<lambda>(i, d). (i + 1, d)) (zip xs ys) = zip (map Suc xs) ys"
  by (induction xs arbitrary: ys) (auto simp: zip_Cons1 split: list.split)

text \<open>Every card numbers its implementation steps 1, 2, ... in the order of \<open>details\<close>.\<close>

lemma render_recommendation_steps:
  "rc_steps (render_recommendation r) = zip [1..<Suc (length (rec_details r))] (rec_details r)"
  unfolding render_recommendation_def enumerate_eq_zip map_Suc_fst_zip map_Suc_upt by simp

text \<open>The lists of the static pages are rendered by \<open>xs.map((x, index) => ...)\<close> with \<open>key={index}\<close>: the keys are the indices.\<close>

lemma enumerate_keys:
  assumes "\<And>p. key (f p) = fst p"
  shows "map key (map f (enumerate 0 xs)) = [0..<length xs]"
proof -
  have "key \<circ> f = fst"
    using assms by (simp add: fun_eq_iff)
  then show ?thesis by (simp add: map_fst_enumerate)
qed

lemma map_snd_enumerate_comp: "map (\<lambda>p. g (snd p)) (enumerate n xs) = map g xs"
  by (induction xs arbitrary: n) simp_all

lemma render_tips_keys: "map ti_key (render_tips ts) = [0..<length ts]"
  unfolding render_tips_def by (rule enumerate_keys) (simp split: prod.split)

text \<open>
  On the page's data: four tips and four cards, the cards' React keys
  distinct, and six steps and four benefits on each card.
\<close>

lemma recommendations_page_shape:
  "map ti_key (fst recommendations_page) = [0, 1, 2, 3] \<and>
   distinct (map rc_key (snd recommendations_page)) \<and>
   list_all (\<lambda>c. length (rc_steps c) = 6 \<and> length (rc_benefits c) = 4) (snd recommendations_page)"
  by (simp add: recommendations_page_def render_tips_keys render_recommendation_def recommendations_def
      quickTips_def upt_rec)

end
