(* ===== verification/StaticPages.thy ===== *)
theory StaticPages
  imports Recommendations
begin

text \<open>
  The other static pages: the constant arrays of the home page
  (\<open>src/src/pages/Home.tsx\<close>: \<open>features\<close>, \<open>benefits\<close>, the quick stats),
  of the about page (\<open>src/src/pages/About.tsx\<close>: \<open>features\<close>,
  \<open>benefits\<close> with their points, \<open>team\<close>, the inline lists of data sources
  and methods) of the contact page (\<open>src/src/pages/Contact.tsx\<close>:
  \<open>contactInfo\<close>, \<open>faqItems\<close>, the help buttons) and of the footer
  (its contact lines and social icons), transcribed field for
  field, and the \<open>map\<close> calls that render them, each element keyed by its
  index.  None of these pages reads or writes state here; the contact form is
  in \<open>Site\<close>.
\<close>

subsection \<open>Home page\<close>

record feature =
  ft_icon :: icon_el
  ft_title :: string
  ft_description :: string

definition home_features :: "feature list" where
  "home_features = [
     \<lparr>ft_icon = \<lparr>icon_name = ''BarChart3'', icon_class = ''h-8 w-8 text-primary''\<rparr>,
      ft_title = ''Real-time Crop Data'',
      ft_description = ''Access live cultivation data across all states and districts in India''\<rparr>,
     \<lparr>ft_icon = \<lparr>icon_name = ''TrendingUp'', icon_class = ''h-8 w-8 text-primary''\<rparr>,
      ft_title = ''Price Predictions'',
      ft_description = ''AI-powered predictions for crop prices in the next month''\<rparr>,
     \<lparr>ft_icon = \<lparr>icon_name = ''Users'', icon_class = ''h-8 w-8 text-primary''\<rparr>,
      ft_title = ''For Farmers & Traders'',
      ft_description = ''Designed specifically for agricultural stakeholders''\<rparr>,
     \<lparr>ft_icon = \<lparr>icon_name = ''MapPin'', icon_class = ''h-8 w-8 text-primary''\<rparr>,
      ft_title = ''District-wise Analysis'',
      ft_description = ''Detailed crop data for every district in your state''\<rparr>]"

definition home_benefits :: "string list" where
  "home_benefits = [
     ''Make informed decisions about crop selection'',
     ''Predict market prices and avoid losses'',
     ''Plan ahead to prevent crop shortages'',
     ''Access region-specific agricultural data'',
     ''Get farming recommendations and best practices'']"

text \<open>The quick stats card (lines 162 to 177): each row's label and the figure it prints.\<close>

definition home_quick_stats :: "(string \<times> string) list" where
  "home_quick_stats = [(''States Covered'', ''15+''), (''Districts'', ''200+''),
     (''Crops Tracked'', ''50+''), (''Prediction Accuracy'', ''85%+'')]"

record feature_card =
  fc_key :: nat
  fc_icon :: icon_el
  fc_title :: string
  fc_description :: string

definition render_feature_cards :: "feature list \<Rightarrow> feature_card list" where
  "render_feature_cards fs =
     map (\<lambda>(index, f). \<lparr>fc_key = index, fc_icon = ft_icon f, fc_title = ft_title f,
                         fc_description = ft_description f\<rparr>) (enumerate 0 fs)"

definition home_feature_cards :: "feature_card list" where
  "home_feature_cards = render_feature_cards home_features"

definition home_benefit_items :: "(nat \<times> string) list" where
  "home_benefit_items = map (\<lambda>(index, benefit). (index, benefit)) (enumerate 0 home_benefits)"

subsection \<open>About page\<close>

definition about_features :: "feature list" where
  "about_features = [
     \<lparr>ft_icon = \<lparr>icon_name = ''BarChart3'', icon_class = ''h-6 w-6 text-primary''\<rparr>,
      ft_title = ''Real-time Data Analytics'',
      ft_description = ''Live crop cultivation data across all major agricultural states and districts''\<rparr>,
     \<lparr>ft_icon = \<lparr>icon_name = ''TrendingUp'', icon_class = ''h-6 w-6 text-success''\<rparr>,
      ft_title = ''AI-Powered Predictions'',
      ft_description = ''Machine learning algorithms predict price movements and market trends''\<rparr>,
     \<lparr>ft_icon = \<lparr>icon_name = ''Shield'', icon_class = ''h-6 w-6 text-earth''\<rparr>,
      ft_title = ''Reliable Information'',
      ft_description = ''Verified data from government sources and agricultural departments''\<rparr>,
     \<lparr>ft_icon = \<lparr>icon_name = ''Globe'', icon_class = ''h-6 w-6 text-warning''\<rparr>,
      ft_title = ''Pan-India Coverage'',
      ft_description = ''Comprehensive coverage of crops across all Indian states and regions''\<rparr>]"

record benefit_group =
  bg_title :: string
  bg_description :: string
  bg_points :: "string list"

definition about_benefits :: "benefit_group list" where
  "about_benefits = [
     \<lparr>bg_title = ''For Farmers'',
      bg_description = ''Make informed decisions about crop selection and timing'',
      bg_points = [''Choose the right crops based on market demand'',
        ''Optimize planting and harvesting schedules'',
        ''Access government scheme information'',
        ''Get personalized farming recommendations'']\<rparr>,
     \<lparr>bg_title = ''For Traders & Buyers'',
      bg_description = ''Plan procurement and avoid supply shortages'',
      bg_points = [''Predict crop availability in advance'',
        ''Plan inventory and storage needs'',
        ''Identify potential price fluctuations'',
        ''Connect with farming communities'']\<rparr>,
     \<lparr>bg_title = ''For Citizens'',
      bg_description = ''Stay informed about food security and pricing'',
      bg_points = [''Understand seasonal price variations'',
        ''Track food production trends'',
        ''Support local farming initiatives'',
        ''Make informed purchasing decisions'']\<rparr>]"

record team_member =
  tm_role :: string
  tm_description :: string

definition about_team :: "team_member list" where
  "about_team = [
     \<lparr>tm_role = ''Agricultural Data Scientists'',
      tm_description = ''Experts in crop analysis and agricultural economics''\<rparr>,
     \<lparr>tm_role = ''Software Engineers'',
      tm_description = ''Building scalable and user-friendly platforms''\<rparr>,
     \<lparr>tm_role = ''Field Researchers'',
      tm_description = ''Collecting ground-truth data from farming communities''\<rparr>,
     \<lparr>tm_role = ''Policy Advisors'',
      tm_description = ''Ensuring alignment with government agricultural policies''\<rparr>]"

text \<open>The two inline lists of the data sources card (lines 189 to 247).\<close>

definition about_data_sources :: "string list" where
  "about_data_sources = [''Ministry of Agriculture & Farmers Welfare'', ''State Agriculture Departments'',
     ''Agricultural Market Committees (APMCs)'', ''Field surveys and farmer inputs'']"

definition about_methodology :: "string list" where
  "about_methodology = [''Machine learning models trained on historical data'',
     ''Weather pattern analysis and seasonal factors'', ''Market demand and supply chain analysis'',
     ''Festival and seasonal consumption patterns'']"

record benefit_card =
  bc_key :: nat
  bc_title :: string
  bc_description :: string
  bc_points :: "(nat \<times> string) list"

definition render_benefit_cards :: "benefit_group list \<Rightarrow> benefit_card list" where
  "render_benefit_cards bs =
     map (\<lambda>(index, b). \<lparr>bc_key = index, bc_title = bg_title b, bc_description = bg_description b,
                         bc_points = map (\<lambda>(pointIndex, point). (pointIndex, point)) (enumerate 0 (bg_points b))\<rparr>)
       (enumerate 0 bs)"

record team_card =
  tc_key :: nat
  tc_role :: string
  tc_description :: string

definition render_team :: "team_member list \<Rightarrow> team_card list" where
  "render_team ms =
     map (\<lambda>(index, m). \<lparr>tc_key = index, tc_role = tm_role m, tc_description = tm_description m\<rparr>)
       (enumerate 0 ms)"

text \<open>The page's lists in the order it renders them (lines 122 to 273).\<close>

definition about_page ::
  "benefit_card list \<times> feature_card list \<times> (string list \<times> string list) \<times> team_card list" where
  "about_page = (render_benefit_cards about_benefits, render_feature_cards about_features,
                 (about_data_sources, about_methodology), render_team about_team)"

subsection \<open>Contact page\<close>

record contact_item =
  ci_icon :: icon_el
  ci_title :: string
  ci_details :: "string list"
  ci_description :: string

definition contactInfo :: "contact_item list" where
  "contactInfo = [
     \<lparr>ci_icon = \<lparr>icon_name = ''Mail'', icon_class = ''h-5 w-5 text-primary''\<rparr>, ci_title = ''Email Us'',
      ci_details = [''support@cropwatch.in'', ''info@cropwatch.in''],
      ci_description = ''Get detailed responses to your queries''\<rparr>,
     \<lparr>ci_icon = \<lparr>icon_name = ''Phone'', icon_class = ''h-5 w-5 text-success''\<rparr>, ci_title = ''Call Us'',
      ci_details = [''+91 98765 43210'', ''+91 98765 43211''],
      ci_description = ''Speak directly with our support team''\<rparr>,
     \<lparr>ci_icon = \<lparr>icon_name = ''MapPin'', icon_class = ''h-5 w-5 text-earth''\<rparr>, ci_title = ''Visit Our Office'',
      ci_details = [''CropWatch Technologies'', ''Hyderabad, Telangana 500032''],
      ci_description = ''Schedule an appointment for in-person meetings''\<rparr>,
     \<lparr>ci_icon = \<lparr>icon_name = ''Clock'', icon_class = ''h-5 w-5 text-warning''\<rparr>, ci_title = ''Support Hours'',
      ci_details = [''Monday - Friday: 9:00 AM - 6:00 PM'', ''Saturday: 10:00 AM - 4:00 PM''],
      ci_description = ''We're here to help during business hours''\<rparr>]"

record faq_item =
  faq_question :: string
  faq_answer :: string

definition faqItems :: "faq_item list" where
  "faqItems = [
     \<lparr>faq_question = ''How accurate are the price predictions?'',
      faq_answer = ''Our AI models achieve 85%+ accuracy based on historical data and current market trends.''\<rparr>,
     \<lparr>faq_question = ''Can I access data for my specific district?'',
      faq_answer = ''Yes! We cover 200+ districts across 15+ states with detailed crop information.''\<rparr>,
     \<lparr>faq_question = ''Is there a mobile app available?'',
      faq_answer = ''We're currently developing a mobile app. For now, our website is fully mobile-responsive.''\<rparr>,
     \<lparr>faq_question = ''How often is the data updated?'',
      faq_answer = ''Crop data is updated weekly, while price predictions are refreshed daily.''\<rparr>]"

record contact_card =
  cc_key :: nat
  cc_icon :: icon_el
  cc_title :: string
  cc_details :: "(nat \<times> string) list"
  cc_description :: string

definition render_contact_info :: "contact_item list \<Rightarrow> contact_card list" where
  "render_contact_info cs =
     map (\<lambda>(index, info). \<lparr>cc_key = index, cc_icon = ci_icon info, cc_title = ci_title info,
                            cc_details = map (\<lambda>(detailIndex, detail). (detailIndex, detail)) (enumerate 0 (ci_details info)),
                            cc_description = ci_description info\<rparr>)
       (enumerate 0 cs)"

definition render_faq :: "faq_item list \<Rightarrow> (nat \<times> faq_item) list" where
  "render_faq fs = map (\<lambda>(index, faq). (index, faq)) (enumerate 0 fs)"

text \<open>
  The buttons of the card Need Immediate Help? (lines 272 to 283): a label and
  an icon each, and no \<open>onClick\<close>; a click on them does nothing, which is
  why the site model has no event for them.
\<close>

definition contact_help_buttons :: "(string \<times> icon_el) list" where
  "contact_help_buttons = [
     (''Create Account'', \<lparr>icon_name = ''User'', icon_class = ''h-4 w-4 mr-2''\<rparr>),
     (''Admin Panel'', \<lparr>icon_name = ''Building'', icon_class = ''h-4 w-4 mr-2''\<rparr>),
     (''User Guide'', \<lparr>icon_name = ''MessageSquare'', icon_class = ''h-4 w-4 mr-2''\<rparr>)]"

definition contact_static :: "contact_card list \<times> (string \<times> icon_el) list \<times> (nat \<times> faq_item) list" where
  "contact_static = (render_contact_info contactInfo, contact_help_buttons, render_faq faqItems)"

subsection \<open>Footer\<close>

text \<open>
  The footer's contact column (\<open>src/src/components/layout/Footer.tsx\<close>, lines
  50 to 67): an icon and a line of text each.  Its three social icons (lines 24
  to 28) are styled \<open>cursor-pointer\<close> but have no link and no \<open>onClick\<close>.
\<close>

definition footer_contact :: "(icon_el \<times> string) list" where
  "footer_contact = [
     (\<lparr>icon_name = ''Mail'', icon_class = ''h-4 w-4''\<rparr>, ''support@cropwatch.in''),
     (\<lparr>icon_name = ''Phone'', icon_class = ''h-4 w-4''\<rparr>, ''+91 98765 43210''),
     (\<lparr>icon_name = ''MapPin'', icon_class = ''h-4 w-4''\<rparr>, ''Hyderabad, Telangana'')]"

definition footer_social_icons :: "icon_el list" where
  "footer_social_icons = [
     \<lparr>icon_name = ''Facebook'', icon_class = ''h-5 w-5 text-muted-foreground hover:text-primary cursor-pointer transition-colors''\<rparr>,
     \<lparr>icon_name = ''Twitter'', icon_class = ''h-5 w-5 text-muted-foreground hover:text-primary cursor-pointer transition-colors''\<rparr>,
     \<lparr>icon_name = ''Instagram'', icon_class = ''h-5 w-5 text-muted-foreground hover:text-primary cursor-pointer transition-colors''\<rparr>]"

subsection \<open>Lemmas\<close>

lemma render_feature_cards_keys: "map fc_key (render_feature_cards fs) = [0..<length fs]"
  unfolding render_feature_cards_def by (rule enumerate_keys) (simp split: prod.split)

lemma render_benefit_cards_keys: "map bc_key (render_benefit_cards bs) = [0..<length bs]"
  unfolding render_benefit_cards_def by (rule enumerate_keys) (simp split: prod.split)

lemma render_team_keys: "map tc_key (render_team ms) = [0..<length ms]"
  unfolding render_team_def by (rule enumerate_keys) (simp split: prod.split)

lemma render_contact_info_keys: "map cc_key (render_contact_info cs) = [0..<length cs]"
  unfolding render_contact_info_def by (rule enumerate_keys) (simp split: prod.split)

lemma render_faq_keys: "map fst (render_faq fs) = [0..<length fs]"
  unfolding render_faq_def by (rule enumerate_keys) (simp split: prod.split)

text \<open>A benefit card lists its group's points in order, keyed by their indices; likewise a contact card its details.\<close>

lemma render_benefit_points:
  "map bc_points (render_benefit_cards bs) = map (\<lambda>b. enumerate 0 (bg_points b)) bs"
  by (simp add: render_benefit_cards_def comp_def split_def
      map_snd_enumerate_comp [where g = "\<lambda>b. enumerate 0 (bg_points b)"])

lemma render_contact_details:
  "map cc_details (render_contact_info cs) = map (\<lambda>c. enumerate 0 (ci_details c)) cs"
  by (simp add: render_contact_info_def comp_def split_def
      map_snd_enumerate_comp [where g = "\<lambda>c. enumerate 0 (ci_details c)"])

text \<open>
  On the pages' data: the about page renders three benefit cards of four
  points each, four feature cards and four team cards; the contact page four
  contact cards of two details each, three help buttons and four questions.
\<close>

lemma about_page_shape:
  "map bc_key (fst about_page) = [0, 1, 2] \<and>
   list_all (\<lambda>c. map fst (bc_points c) = [0, 1, 2, 3]) (fst about_page) \<and>
   map fc_key (fst (snd about_page)) = [0, 1, 2, 3] \<and> map tc_key (snd (snd (snd about_page))) = [0, 1, 2, 3]"
  by (simp add: about_page_def render_benefit_cards_keys render_feature_cards_keys render_team_keys
      render_benefit_cards_def about_benefits_def about_features_def about_team_def upt_rec)

lemma contact_static_shape:
  "map cc_key (fst contact_static) = [0, 1, 2, 3] \<and>
   list_all (\<lambda>c. map fst (cc_details c) = [0, 1]) (fst contact_static) \<and>
   length (fst (snd contact_static)) = 3 \<and> map fst (snd (snd contact_static)) = [0, 1, 2, 3]"
  by (simp add: contact_static_def render_contact_info_keys render_faq_keys render_contact_info_def
      contactInfo_def contact_help_buttons_def faqItems_def upt_rec)

lemma home_lists_shape:
  "map fc_key home_feature_cards = [0, 1, 2, 3] \<and> map fst home_benefit_items = [0, 1, 2, 3, 4]"
  by (simp add: home_feature_cards_def render_feature_cards_keys home_benefit_items_def home_features_def
      home_benefits_def upt_rec)

text \<open>
  The footer and the contact page agree: the footer's e-mail address and
  phone number are among the contact page's details, and its address is the
  start of the office address there; each footer line has the icon of the
  contact card it comes from.
\<close>

lemma footer_contact_consistent:
  "list_all (\<lambda>(i, t). \<exists>c\<in>set contactInfo. icon_name (ci_icon c) = icon_name i \<and>
                         (\<exists>d\<in>set (ci_details c). take (length t) d = t)) footer_contact"
  by (simp add: footer_contact_def contactInfo_def)

end
