(* ===== verification/Aggregation.thy ===== *)
theory Aggregation
  imports Domain
begin

text \<open>
  The chart data the dashboard derives from the crops on display
  (\<open>src/src/pages/Dashboard.tsx\<close>, lines 46 to 72 and 200): the group-by-name
  reduction \<open>cropLandData\<close>, the totals \<open>totalLand\<close> and \<open>totalYield\<close>, the
  variety count \<open>new Set(names).size\<close> and the pie slices \<open>pieData\<close> with their
  percentage text.  The reduction mutates the accumulator's objects in place;
  they are fresh objects the reduction itself pushed, so no crop is changed and
  the model can return the updated accumulator as a value.

  \<open>group_by_name\<close> is the reference the specification describes (one entry per
  distinct name in order of first occurrence, with summed land and yield), and
  the refinement lemma proves the reduction computes exactly it.  Its price is
  that of the first crop of the name: the specification's "last seen wins" is
  not what the code does.
\<close>

text \<open>The objects the reduction pushes: \<open>{name, landUsed, expectedYield, currentPrice}\<close>.\<close>

record crop_land_item =
  item_name :: string
  item_landUsed :: rat
  item_expectedYield :: rat
  item_currentPrice :: rat

text \<open>
  The reduction's callback: \<open>acc.find(item => item.name === crop.name)\<close>; if
  found, add the crop's land and yield to that (first) item, else push a new
  item at the end.
\<close>

fun cropLandData_step :: "crop_land_item list \<Rightarrow> crop_data \<Rightarrow> crop_land_item list" where
  "cropLandData_step [] crop =
     [\<lparr>item_name = name crop, item_landUsed = landUsed crop,
       item_expectedYield = expectedYield crop, item_currentPrice = currentPrice crop\<rparr>]"
| "cropLandData_step (item # acc) crop =
     (if item_name item = name crop
      then item\<lparr>item_landUsed := item_landUsed item + landUsed crop,
                item_expectedYield := item_expectedYield item + expectedYield crop\<rparr> # acc
      else item # cropLandData_step acc crop)"

definition cropLandData :: "crop_data list \<Rightarrow> crop_land_item list" where
  "cropLandData displayCrops = foldl cropLandData_step [] displayCrops"

definition totalLand :: "crop_data list \<Rightarrow> rat" where
  "totalLand displayCrops = foldl (\<lambda>sum crop. sum + landUsed crop) 0 displayCrops"

definition totalYield :: "crop_data list \<Rightarrow> rat" where
  "totalYield displayCrops = foldl (\<lambda>sum crop. sum + expectedYield crop) 0 displayCrops"

text \<open>\<open>new Set(displayCrops.map(c => c.name)).size\<close>.\<close>

definition varietyCount :: "crop_data list \<Rightarrow> nat" where
  "varietyCount displayCrops = length (first_occurrences (map name displayCrops))"

record pie_slice =
  slice_name :: string
  slice_value :: rat
  slice_percentage :: fixed_text

text \<open>\<open>pieData\<close>: \<open>((crop.landUsed / totalLand) * 100).toFixed(1)\<close> per item.\<close>

definition pieData :: "crop_data list \<Rightarrow> pie_slice list" where
  "pieData displayCrops =
     map (\<lambda>crop. \<lparr>slice_name = item_name crop, slice_value = item_landUsed crop,
                  slice_percentage =
                    to_fixed1 (js_scale (js_div (item_landUsed crop) (totalLand displayCrops)) 100)\<rparr>)
       (cropLandData displayCrops)"

subsection \<open>The reference: grouping by name\<close>

definition group_entry :: "crop_data list \<Rightarrow> string \<Rightarrow> crop_land_item" where
  "group_entry cs n =
     \<lparr>item_name = n,
      item_landUsed = sum_list (map landUsed (filter (\<lambda>c. name c = n) cs)),
      item_expectedYield = sum_list (map expectedYield (filter (\<lambda>c. name c = n) cs)),
      item_currentPrice = (case find (\<lambda>c. name c = n) cs of Some c \<Rightarrow> currentPrice c | None \<Rightarrow> 0)\<rparr>"

definition group_by_name :: "crop_data list \<Rightarrow> crop_land_item list" where
  "group_by_name cs = map (group_entry cs) (first_occurrences (map name cs))"

text \<open>The crops of the specification's worked example (section 8).\<close>

abbreviation spec_example_crops :: "crop_data list" where
  "spec_example_crops \<equiv>
     [\<lparr>crop_id = ''rice-hyd'', name = ''Rice'', landUsed = 12500, expectedYield = 38750,
       currentPrice = 2100, season = ''Kharif'', sowingMonth = ''June'', harvestMonth = ''October''\<rparr>,
      \<lparr>crop_id = ''rice-war'', name = ''Rice'', landUsed = 28500, expectedYield = 88350,
       currentPrice = 2100, season = ''Kharif'', sowingMonth = ''June'', harvestMonth = ''October''\<rparr>,
      \<lparr>crop_id = ''cotton-hyd'', name = ''Cotton'', landUsed = 15600, expectedYield = 9360,
       currentPrice = 5800, season = ''Kharif'', sowingMonth = ''May'', harvestMonth = ''December''\<rparr>]"

subsection \<open>Lemmas\<close>

lemma find_append_found:
  "x \<in> set xs \<Longrightarrow> P x \<Longrightarrow> find P (xs @ ys) = find P xs"
  by (induction xs) auto

lemma find_append_eq:
  "find P (xs @ ys) = (case find P xs of None \<Rightarrow> find P ys | Some x \<Rightarrow> Some x)"
  by (induction xs) auto

lemma group_entry_snoc_other:
  "k \<noteq> name x \<Longrightarrow> group_entry (xs @ [x]) k = group_entry xs k"
  by (simp add: group_entry_def find_append_eq split: option.split)

lemma group_entry_snoc_old:
  assumes "name x \<in> set (map name xs)"
  shows "group_entry (xs @ [x]) (name x) =
           (group_entry xs (name x))\<lparr>item_landUsed := item_landUsed (group_entry xs (name x)) + landUsed x,
              item_expectedYield := item_expectedYield (group_entry xs (name x)) + expectedYield x\<rparr>"
proof -
  from assms obtain y where "y \<in> set xs" and "name y = name x" by auto
  then have "find (\<lambda>c. name c = name x) (xs @ [x]) = find (\<lambda>c. name c = name x) xs"
    by (rule find_append_found)
  then show ?thesis by (simp add: group_entry_def)
qed

lemma group_entry_snoc_new:
  assumes "name x \<notin> set (map name xs)"
  shows "group_entry (xs @ [x]) (name x) =
           \<lparr>item_name = name x, item_landUsed = landUsed x,
            item_expectedYield = expectedYield x, item_currentPrice = currentPrice x\<rparr>"
proof -
  from assms have none: "\<forall>c \<in> set xs. name c \<noteq> name x" by (metis imageI set_map)
  then have "filter (\<lambda>c. name c = name x) xs = []"
    by (simp add: filter_empty_conv)
  moreover from none have "find (\<lambda>c. name c = name x) xs = None"
    by (simp add: find_None_iff)
  ultimately show ?thesis by (simp add: group_entry_def find_append_eq)
qed

lemma item_name_group_entry [simp]: "item_name (group_entry cs n) = n"
  by (simp add: group_entry_def)

text \<open>One step of the reduction on a grouped accumulator is the grouping of one more crop.\<close>

lemma cropLandData_step_group:
  assumes "distinct ks" and "set ks \<subseteq> set (map name xs)"
  shows "cropLandData_step (map (group_entry xs) ks) x =
           (if name x \<in> set ks then map (group_entry (xs @ [x])) ks
            else map (group_entry (xs @ [x])) ks @
                   [\<lparr>item_name = name x, item_landUsed = landUsed x,
                     item_expectedYield = expectedYield x, item_currentPrice = currentPrice x\<rparr>])"
  using assms
proof (induction ks)
  case Nil
  then show ?case by simp
next
  case (Cons k ks)
  show ?case
  proof (cases "k = name x")
    case True
    with Cons.prems have "name x \<notin> set ks" and "name x \<in> set (map name xs)" by auto
    then have "map (group_entry (xs @ [x])) ks = map (group_entry xs) ks"
      by (metis (mono_tags, lifting) group_entry_snoc_other map_eq_conv)
    with True \<open>name x \<in> set (map name xs)\<close> show ?thesis
      by (simp add: group_entry_snoc_old)
  next
    case False
    with Cons show ?thesis by (simp add: group_entry_snoc_other)
  qed
qed

text \<open>The reduction computes the reference grouping: induction over the crops from the right.\<close>

lemma cropLandData_group: "cropLandData cs = group_by_name cs"
proof (induction cs rule: rev_induct)
  case Nil
  show ?case by (simp add: cropLandData_def group_by_name_def)
next
  case (snoc x xs)
  have "cropLandData (xs @ [x]) = cropLandData_step (group_by_name xs) x"
    using snoc.IH by (simp add: cropLandData_def)
  also have "\<dots> = group_by_name (xs @ [x])"
  proof (cases "name x \<in> set (map name xs)")
    case True
    then show ?thesis by (simp add: group_by_name_def cropLandData_step_group)
  next
    case False
    then show ?thesis
      by (simp add: group_by_name_def cropLandData_step_group group_entry_snoc_new)
  qed
  finally show ?case .
qed

lemma totalLand_sum_list: "totalLand cs = sum_list (map landUsed cs)"
  by (simp add: totalLand_def foldl_add_sum_list)

lemma totalYield_sum_list: "totalYield cs = sum_list (map expectedYield cs)"
  by (simp add: totalYield_def foldl_add_sum_list)

lemma cropLandData_land_sum: "sum_list (map item_landUsed (cropLandData cs)) = totalLand cs"
proof -
  have "sum_list (map item_landUsed (cropLandData cs)) =
          sum_list (map (\<lambda>k. sum_list (map landUsed (filter (\<lambda>c. name c = k) cs)))
                      (first_occurrences (map name cs)))"
    by (simp add: cropLandData_group group_by_name_def group_entry_def comp_def)
  then show ?thesis by (simp add: sum_list_group_by totalLand_sum_list)
qed

lemma cropLandData_yield_sum: "sum_list (map item_expectedYield (cropLandData cs)) = totalYield cs"
proof -
  have "sum_list (map item_expectedYield (cropLandData cs)) =
          sum_list (map (\<lambda>k. sum_list (map expectedYield (filter (\<lambda>c. name c = k) cs)))
                      (first_occurrences (map name cs)))"
    by (simp add: cropLandData_group group_by_name_def group_entry_def comp_def)
  then show ?thesis by (simp add: sum_list_group_by totalYield_sum_list)
qed

lemma cropLandData_item_names: "map item_name (cropLandData cs) = first_occurrences (map name cs)"
  by (simp add: cropLandData_group group_by_name_def comp_def)

text \<open>With a non-zero total every share is a finite quotient.\<close>

lemma pieData_nonzero:
  assumes "totalLand cs \<noteq> 0"
  shows "pieData cs =
           map (\<lambda>i. \<lparr>slice_name = item_name i, slice_value = item_landUsed i,
                      slice_percentage = to_fixed1 (JNum (item_landUsed i / totalLand cs * 100))\<rparr>)
             (cropLandData cs)"
  using assms by (simp add: pieData_def js_div_def)

lemma exact_shares_sum:
  assumes "totalLand cs \<noteq> 0"
  shows "sum_list (map (\<lambda>i. item_landUsed i / totalLand cs * 100) (cropLandData cs)) = 100"
proof -
  have eq: "map (\<lambda>i. item_landUsed i / totalLand cs * 100) (cropLandData cs) =
          map (\<lambda>i. item_landUsed i * (100 / totalLand cs)) (cropLandData cs)"
    by simp
  show ?thesis
    unfolding eq sum_list_mult_const cropLandData_land_sum using assms by simp
qed

subsection \<open>Properties of the dashboard aggregation\<close>

text \<open>
  C1: the group-by-name reduction of the dashboard computes the reference
  grouping: one item per distinct crop name, in order of first occurrence, with
  the land and yield of all crops of that name summed and the price of the
  first crop of that name.
\<close>

theorem cropLandData_refinement: "cropLandData cs = group_by_name cs"
  by (rule cropLandData_group)

text \<open>
  C2: grouping conserves land and yield: the items' land adds up to
  \<open>totalLand\<close> and their yield to \<open>totalYield\<close>, for every list of crops.
\<close>

theorem cropLandData_conserves_totals:
  "sum_list (map item_landUsed (cropLandData cs)) = totalLand cs \<and>
   sum_list (map item_expectedYield (cropLandData cs)) = totalYield cs"
  by (simp add: cropLandData_land_sum cropLandData_yield_sum)

text \<open>
  The chart has one bar per distinct crop name, in order of first
  occurrence, so it has exactly as many bars as the "Crop Varieties" card
  counts.
\<close>

theorem cropLandData_one_item_per_variety:
  "map item_name (cropLandData cs) = first_occurrences (map name cs) \<and>
   length (cropLandData cs) = varietyCount cs"
proof -
  have names: "map item_name (cropLandData cs) = first_occurrences (map name cs)"
    by (rule cropLandData_item_names)
  then have "length (cropLandData cs) = length (first_occurrences (map name cs))"
    by (metis length_map)
  with names show ?thesis by (simp add: varietyCount_def)
qed

text \<open>
  C3: when the crops on display have a non-zero total land, every pie slice
  prints a finite percentage, and the printed percentages (each rounded to one
  decimal) add up to 100 within 0.05 per slice.
\<close>

theorem pieData_shares_sum_to_100:
  assumes nz: "totalLand cs \<noteq> 0"
  shows "list_all (\<lambda>s. \<exists>k. slice_percentage s = Tenths k) (pieData cs) \<and>
         \<bar>sum_list (map (\<lambda>s. tenths_value (slice_percentage s)) (pieData cs)) - 100\<bar>
           \<le> of_nat (length (pieData cs)) / 20"
proof
  show "list_all (\<lambda>s. \<exists>k. slice_percentage s = Tenths k) (pieData cs)"
    using nz by (simp add: pieData_nonzero list_all_iff)
next
  let ?exact = "\<lambda>i. item_landUsed i / totalLand cs * 100"
  let ?shown = "\<lambda>i. tenths_value (to_fixed1 (JNum (?exact i)))"
  have shown: "sum_list (map (\<lambda>s. tenths_value (slice_percentage s)) (pieData cs)) =
                 sum_list (map ?shown (cropLandData cs))"
    using nz by (simp add: pieData_nonzero comp_def)
  have "\<bar>sum_list (map ?shown (cropLandData cs)) - sum_list (map ?exact (cropLandData cs))\<bar>
          \<le> of_nat (length (cropLandData cs)) * (1/20)"
    by (rule sum_list_error_bound) (rule to_fixed1_error)
  with shown exact_shares_sum [OF nz] show
    "\<bar>sum_list (map (\<lambda>s. tenths_value (slice_percentage s)) (pieData cs)) - 100\<bar>
       \<le> of_nat (length (pieData cs)) / 20"
    by (simp add: pieData_def)
qed

theorem pieData_shares_sum_to_100_witness:
  "totalLand spec_example_crops \<noteq> 0 \<and>
   list_all (\<lambda>s. \<exists>k. slice_percentage s = Tenths k) (pieData spec_example_crops) \<and>
   \<bar>sum_list (map (\<lambda>s. tenths_value (slice_percentage s)) (pieData spec_example_crops)) - 100\<bar>
     \<le> of_nat (length (pieData spec_example_crops)) / 20"
proof -
  have nz: "totalLand spec_example_crops \<noteq> 0" by (simp add: totalLand_def)
  show ?thesis using nz pieData_shares_sum_to_100 [OF nz] by simp
qed

text \<open>
  The specification's worked example: two Rice crops of 12500 and 28500
  hectares and one Cotton crop of 15600 give the items Rice with 41000 and
  Cotton with 15600 hectares, a total of 56600, two varieties, and the pie
  labels 72.4 and 27.6.
\<close>

theorem dashboard_spec_example:
  "map (\<lambda>i. (item_name i, item_landUsed i)) (cropLandData spec_example_crops)
     = [(''Rice'', 41000), (''Cotton'', 15600)] \<and>
   totalLand spec_example_crops = 56600 \<and>
   varietyCount spec_example_crops = 2 \<and>
   map slice_percentage (pieData spec_example_crops) = [Tenths 724, Tenths 276]"
  by (simp add: cropLandData_def totalLand_def varietyCount_def pieData_def js_div_def
      first_occurrences_def)

text \<open>
  On an empty list of crops every aggregate is degenerate and defined:
  no items, zero totals, no varieties, no pie slices.
\<close>

theorem aggregation_empty_input:
  "cropLandData [] = [] \<and> totalLand [] = 0 \<and> totalYield [] = 0 \<and>
   varietyCount [] = 0 \<and> pieData [] = []"
  by (simp add: cropLandData_def totalLand_def totalYield_def varietyCount_def pieData_def)

text \<open>
  C8: the percentage computation does not short-circuit on a zero total: a
  non-empty list of crops whose land is all zero yields pie slices that all
  print \<open>NaN\<close>, where the specification asks for an empty share list.
\<close>

theorem pieData_zero_land_NaN:
  assumes "cs \<noteq> []" and "list_all (\<lambda>c. landUsed c = 0) cs"
  shows "pieData cs \<noteq> [] \<and> list_all (\<lambda>s. slice_percentage s = TextNaN) (pieData cs)"
proof -
  from assms(2) have zeros: "\<And>c. c \<in> set cs \<Longrightarrow> landUsed c = 0" by (simp add: list_all_iff)
  then have total: "totalLand cs = 0" by (simp add: totalLand_sum_list sum_list_map_eq_0)
  have "\<And>k. sum_list (map landUsed (filter (\<lambda>c. name c = k) cs)) = 0"
    by (rule sum_list_map_eq_0) (simp add: zeros)
  then have "list_all (\<lambda>i. item_landUsed i = 0) (group_by_name cs)"
    by (simp add: group_by_name_def group_entry_def list_all_iff)
  then have zero: "list_all (\<lambda>i. item_landUsed i = 0) (cropLandData cs)"
    by (simp add: cropLandData_group)
  from assms(1) have "cropLandData cs \<noteq> []"
    by (metis Nil_is_map_conv cropLandData_item_names first_occurrences_def rev_is_Nil_conv
        remdups_eq_nil_iff)
  with zero total show ?thesis
    by (simp add: pieData_def js_div_def list_all_iff)
qed

theorem pieData_zero_land_NaN_witness:
  "[\<lparr>crop_id = ''a'', name = ''Rice'', landUsed = 0, expectedYield = 0, currentPrice = 2100,
     season = ''Kharif'', sowingMonth = ''June'', harvestMonth = ''October''\<rparr>] \<noteq> [] \<and>
   list_all (\<lambda>c. landUsed c = 0)
     [\<lparr>crop_id = ''a'', name = ''Rice'', landUsed = 0, expectedYield = 0, currentPrice = 2100,
       season = ''Kharif'', sowingMonth = ''June'', harvestMonth = ''October''\<rparr>] \<and>
   list_all (\<lambda>s. slice_percentage s = TextNaN)
     (pieData [\<lparr>crop_id = ''a'', name = ''Rice'', landUsed = 0, expectedYield = 0, currentPrice = 2100,
                season = ''Kharif'', sowingMonth = ''June'', harvestMonth = ''October''\<rparr>])"
  using pieData_zero_land_NaN
    [of "[\<lparr>crop_id = ''a'', name = ''Rice'', landUsed = 0, expectedYield = 0, currentPrice = 2100,
           season = ''Kharif'', sowingMonth = ''June'', harvestMonth = ''October''\<rparr>]"]
  by simp

text \<open>
  When one crop name carries different prices, the item keeps the price of
  the first crop of that name: for Rice at 2100 and then at 2500 the chart
  item's price is 2100, not the last-seen 2500 the specification describes.
\<close>

theorem cropLandData_price_first_seen:
  "map item_currentPrice
     (cropLandData
        [\<lparr>crop_id = ''rice-hyd'', name = ''Rice'', landUsed = 12500, expectedYield = 38750,
          currentPrice = 2100, season = ''Kharif'', sowingMonth = ''June'', harvestMonth = ''October''\<rparr>,
         \<lparr>crop_id = ''rice-x'', name = ''Rice'', landUsed = 1000, expectedYield = 3000,
          currentPrice = 2500, season = ''Kharif'', sowingMonth = ''June'', harvestMonth = ''October''\<rparr>])
   = [2100]"
  by (simp add: cropLandData_def)

end
