(* ===== verification/Dashboard.thy ===== *)
theory Dashboard
  imports Aggregation Fixtures
begin

text \<open>
  The dashboard page's view state and location selection
  (\<open>src/src/pages/Dashboard.tsx\<close>, lines 35 to 44, 100 to 134 and 153): the two
  \<open>useState\<close> strings \<open>selectedState\<close> and \<open>selectedDistrict\<close>, the derived
  lookups \<open>currentState\<close> and \<open>currentDistrict\<close> (absence is \<open>None\<close>, never
  a failure), the crops on display, and the two \<open>Select\<close> handlers as the
  events of a state machine.  An event is enabled when the UI offers it: a
  state from the options of \<open>cropDatabase\<close>; a district only while a state is
  selected (\<open>disabled={!selectedState}\<close>) and from the options of the current
  state.  The dataset is a parameter \<open>db\<close>, instantiated with \<open>cropDatabase\<close>
  where the page uses it.
\<close>

record dashboard_view =
  selectedState :: string
  selectedDistrict :: string

definition dashboard_init :: dashboard_view where
  "dashboard_init = \<lparr>selectedState = '''', selectedDistrict = ''''\<rparr>"

definition currentState :: "state list \<Rightarrow> dashboard_view \<Rightarrow> state option" where
  "currentState db v =
     (if selectedState v \<noteq> '''' then find (\<lambda>s. state_id s = selectedState v) db else None)"

definition currentDistrict :: "state list \<Rightarrow> dashboard_view \<Rightarrow> district option" where
  "currentDistrict db v =
     (case currentState db v of
        Some s \<Rightarrow> if selectedDistrict v \<noteq> ''''
                  then find (\<lambda>d. district_id d = selectedDistrict v) (districts s) else None
      | None \<Rightarrow> None)"

definition displayCrops :: "state list \<Rightarrow> dashboard_view \<Rightarrow> crop_data list" where
  "displayCrops db v =
     (case currentDistrict db v of
        Some d \<Rightarrow> crops d
      | None \<Rightarrow> (case currentState db v of Some s \<Rightarrow> state_crops s | None \<Rightarrow> []))"

text \<open>The caption "Across N crop varieties" of the land card (line 169) counts crops, not names.\<close>

definition landCardVarieties :: "state list \<Rightarrow> dashboard_view \<Rightarrow> nat" where
  "landCardVarieties db v = length (displayCrops db v)"

datatype dashboard_event = SelectState string | SelectDistrict string

fun dashboard_step :: "dashboard_view \<Rightarrow> dashboard_event \<Rightarrow> dashboard_view" where
  "dashboard_step v (SelectState value) = v\<lparr>selectedState := value, selectedDistrict := ''''\<rparr>"
| "dashboard_step v (SelectDistrict value) = v\<lparr>selectedDistrict := value\<rparr>"

fun dashboard_enabled :: "state list \<Rightarrow> dashboard_view \<Rightarrow> dashboard_event \<Rightarrow> bool" where
  "dashboard_enabled db v (SelectState value) = (value \<in> set (map state_id db))"
| "dashboard_enabled db v (SelectDistrict value) =
     (selectedState v \<noteq> '''' \<and>
      (case currentState db v of
         Some s \<Rightarrow> value \<in> set (map district_id (districts s))
       | None \<Rightarrow> False))"

inductive dashboard_reachable :: "state list \<Rightarrow> dashboard_view \<Rightarrow> bool" for db where
  init: "dashboard_reachable db dashboard_init"
| step: "dashboard_reachable db v \<Longrightarrow> dashboard_enabled db v e \<Longrightarrow>
           dashboard_reachable db (dashboard_step v e)"

text \<open>The selection invariant: a non-empty selection always resolves.\<close>

definition dashboard_inv :: "state list \<Rightarrow> dashboard_view \<Rightarrow> bool" where
  "dashboard_inv db v \<longleftrightarrow>
     (selectedState v \<noteq> '''' \<longrightarrow> currentState db v \<noteq> None) \<and>
     (selectedDistrict v \<noteq> '''' \<longrightarrow> currentDistrict db v \<noteq> None)"

subsection \<open>Lemmas\<close>

lemma find_Some_of_mem: "x \<in> set (map f xs) \<Longrightarrow> \<exists>y. find (\<lambda>y. f y = x) xs = Some y"
  by (induction xs) auto

lemma find_Some_D: "find P xs = Some y \<Longrightarrow> y \<in> set xs \<and> P y"
  by (induction xs) (auto split: if_splits)

lemma currentState_selectedDistrict [simp]:
  "currentState db (v\<lparr>selectedDistrict := x\<rparr>) = currentState db v"
  by (simp add: currentState_def)

lemma dashboard_inv_init: "dashboard_inv db dashboard_init"
  by (simp add: dashboard_inv_def dashboard_init_def)

lemma dashboard_step_inv:
  assumes "dashboard_inv db v" and "dashboard_enabled db v e"
  shows "dashboard_inv db (dashboard_step v e)"
proof (cases e)
  case (SelectState x)
  with assms(2) have "\<exists>s. find (\<lambda>s. state_id s = x) db = Some s"
    by (simp add: find_Some_of_mem)
  with SelectState show ?thesis
    by (auto simp: dashboard_inv_def currentState_def currentDistrict_def)
next
  case (SelectDistrict x)
  with assms(2) obtain s where cur: "currentState db v = Some s"
    and mem: "x \<in> set (map district_id (districts s))"
    by (auto split: option.splits)
  from mem have "\<exists>d. find (\<lambda>d. district_id d = x) (districts s) = Some d"
    by (rule find_Some_of_mem)
  with cur SelectDistrict assms(1) show ?thesis
    by (auto simp: dashboard_inv_def currentDistrict_def)
qed

lemma dashboard_reachable_inv: "dashboard_reachable db v \<Longrightarrow> dashboard_inv db v"
proof (induction rule: dashboard_reachable.induct)
  case init
  show ?case by (rule dashboard_inv_init)
next
  case (step v e)
  then show ?case by (blast intro: dashboard_step_inv)
qed

lemma currentDistrict_in_currentState:
  "currentDistrict db v = Some d \<Longrightarrow>
     \<exists>s. currentState db v = Some s \<and> d \<in> set (districts s) \<and> district_id d = selectedDistrict v"
  by (auto simp: currentDistrict_def split: option.splits if_splits dest: find_Some_D)

lemma displayCrops_subset: "set (displayCrops db v) \<subseteq> set (database_crops db)"
proof -
  have state_sub: "currentState db v = Some s \<Longrightarrow> set (state_crops s) \<subseteq> set (database_crops db)" for s
    by (auto simp: currentState_def database_crops_def split: if_splits dest!: find_Some_D)
  have dist_sub: "currentDistrict db v = Some d \<Longrightarrow> set (crops d) \<subseteq> set (database_crops db)" for d
    using state_sub by (fastforce simp: state_crops_def dest: currentDistrict_in_currentState)
  show ?thesis
  proof (cases "currentDistrict db v")
    case (Some d)
    with dist_sub show ?thesis by (simp add: displayCrops_def)
  next
    case None
    with state_sub show ?thesis
      by (cases "currentState db v") (simp_all add: displayCrops_def)
  qed
qed

lemma sum_list_pos: "xs \<noteq> [] \<Longrightarrow> list_all (\<lambda>x. 0 < f x) xs \<Longrightarrow> (0 :: rat) < sum_list (map f xs)"
proof (induction xs)
  case Nil
  then show ?case by simp
next
  case (Cons a xs)
  then show ?case by (cases "xs = []") (auto intro: add_pos_pos)
qed

subsection \<open>Properties of the dashboard selection\<close>

text \<open>
  C4: in every state the dashboard can reach, a selected district resolves to a
  district of the selected state with the selected id, and the page displays
  exactly that district's crops.
\<close>

theorem dashboard_selection_consistent:
  assumes "dashboard_reachable db v" and "selectedDistrict v \<noteq> ''''"
  shows "\<exists>s d. currentState db v = Some s \<and> d \<in> set (districts s) \<and>
                district_id d = selectedDistrict v \<and>
                currentDistrict db v = Some d \<and> displayCrops db v = crops d"
proof -
  from assms(1) have "dashboard_inv db v" by (rule dashboard_reachable_inv)
  with assms(2) obtain d where d: "currentDistrict db v = Some d"
    by (auto simp: dashboard_inv_def)
  then obtain s where "currentState db v = Some s" and "d \<in> set (districts s)"
    and "district_id d = selectedDistrict v"
    by (blast dest: currentDistrict_in_currentState)
  with d show ?thesis by (auto simp: displayCrops_def)
qed

theorem dashboard_selection_consistent_witness:
  "dashboard_reachable cropDatabase
     (dashboard_step (dashboard_step dashboard_init (SelectState ''telangana'')) (SelectDistrict ''warangal'')) \<and>
   selectedDistrict
     (dashboard_step (dashboard_step dashboard_init (SelectState ''telangana'')) (SelectDistrict ''warangal'')) \<noteq> '''' \<and>
   (\<exists>s d. currentState cropDatabase
              (dashboard_step (dashboard_step dashboard_init (SelectState ''telangana'')) (SelectDistrict ''warangal''))
              = Some s \<and>
           d \<in> set (districts s) \<and> district_id d = ''warangal'' \<and>
           displayCrops cropDatabase
              (dashboard_step (dashboard_step dashboard_init (SelectState ''telangana'')) (SelectDistrict ''warangal''))
              = crops d)"
proof -
  have r1: "dashboard_reachable cropDatabase (dashboard_step dashboard_init (SelectState ''telangana''))"
    by (rule dashboard_reachable.step [OF dashboard_reachable.init]) (simp add: fixture_simps)
  have r2: "dashboard_reachable cropDatabase
     (dashboard_step (dashboard_step dashboard_init (SelectState ''telangana'')) (SelectDistrict ''warangal''))"
    by (rule dashboard_reachable.step [OF r1])
      (simp add: fixture_simps currentState_def dashboard_init_def)
  have sel: "selectedDistrict
     (dashboard_step (dashboard_step dashboard_init (SelectState ''telangana'')) (SelectDistrict ''warangal''))
     = ''warangal''" by simp
  show ?thesis
    using r2 dashboard_selection_consistent [OF r2] sel by auto
qed

text \<open>
  With the static dataset, whatever is selected, a non-empty crop display
  has a positive total land, so every pie slice prints a finite percentage.
\<close>

theorem dashboard_fixture_pie_finite:
  assumes "displayCrops cropDatabase v \<noteq> []"
  shows "0 < totalLand (displayCrops cropDatabase v) \<and>
         list_all (\<lambda>s. \<exists>k. slice_percentage s = Tenths k) (pieData (displayCrops cropDatabase v))"
proof -
  have "list_all (\<lambda>c. 0 < landUsed c) (displayCrops cropDatabase v)"
    using cropDatabase_crops_positive_land displayCrops_subset
    by (fastforce simp: list_all_iff)
  with assms have pos: "0 < totalLand (displayCrops cropDatabase v)"
    by (simp add: totalLand_sum_list sum_list_pos)
  then have "totalLand (displayCrops cropDatabase v) \<noteq> 0" by simp
  with pos show ?thesis by (simp add: pieData_nonzero list_all_iff)
qed

theorem dashboard_fixture_pie_finite_witness:
  "displayCrops cropDatabase \<lparr>selectedState = ''maharashtra'', selectedDistrict = ''nashik''\<rparr> \<noteq> [] \<and>
   0 < totalLand (displayCrops cropDatabase \<lparr>selectedState = ''maharashtra'', selectedDistrict = ''nashik''\<rparr>)"
proof -
  have ne: "displayCrops cropDatabase \<lparr>selectedState = ''maharashtra'', selectedDistrict = ''nashik''\<rparr> \<noteq> []"
    by (simp add: displayCrops_def currentDistrict_def currentState_def fixture_simps)
  show ?thesis using ne dashboard_fixture_pie_finite [OF ne] by simp
qed

text \<open>
  C11: a lookup by an identifier that does not match yields absence, never a
  failure: a selected state id that is not in the dataset displays no crops,
  and a district id that is not a district of the current state falls back to
  all crops of that state.
\<close>

theorem dashboard_unknown_ids:
  "(selectedState v \<notin> set (map state_id db) \<longrightarrow> displayCrops db v = []) \<and>
   (currentState db v = Some s \<and> selectedDistrict v \<notin> set (map district_id (districts s))
      \<longrightarrow> displayCrops db v = state_crops s)"
proof (intro conjI impI)
  assume "selectedState v \<notin> set (map state_id db)"
  then have "currentState db v = None"
    by (simp add: currentState_def find_notin_map)
  then show "displayCrops db v = []"
    by (simp add: displayCrops_def currentDistrict_def)
next
  assume a: "currentState db v = Some s \<and> selectedDistrict v \<notin> set (map district_id (districts s))"
  then have "currentDistrict db v = None"
    by (simp add: currentDistrict_def find_notin_map)
  with a show "displayCrops db v = state_crops s"
    by (simp add: displayCrops_def)
qed

theorem dashboard_unknown_ids_witness:
  "''kerala'' \<notin> set (map state_id cropDatabase) \<and>
   displayCrops cropDatabase \<lparr>selectedState = ''kerala'', selectedDistrict = ''''\<rparr> = [] \<and>
   currentState cropDatabase \<lparr>selectedState = ''telangana'', selectedDistrict = ''pune''\<rparr> = Some telangana \<and>
   ''pune'' \<notin> set (map district_id (districts telangana)) \<and>
   displayCrops cropDatabase \<lparr>selectedState = ''telangana'', selectedDistrict = ''pune''\<rparr>
     = state_crops telangana"
proof -
  have k: "''kerala'' \<notin> set (map state_id cropDatabase)" by (simp add: fixture_simps)
  have t: "currentState cropDatabase \<lparr>selectedState = ''telangana'', selectedDistrict = ''pune''\<rparr> = Some telangana"
    by (simp add: currentState_def cropDatabase_def telangana_def)
  have p: "''pune'' \<notin> set (map district_id (districts telangana))" by (simp add: telangana_def)
  show ?thesis
    using k t p
      dashboard_unknown_ids [of "\<lparr>selectedState = ''kerala'', selectedDistrict = ''''\<rparr>" cropDatabase]
      dashboard_unknown_ids [of "\<lparr>selectedState = ''telangana'', selectedDistrict = ''pune''\<rparr>" cropDatabase telangana]
    by simp
qed

text \<open>
  The land card's caption "Across N crop varieties" counts crops, not
  varieties: for Telangana it says 11 while the "Crop Varieties" card says 6.
\<close>

theorem dashboard_caption_counts_crops:
  "landCardVarieties cropDatabase \<lparr>selectedState = ''telangana'', selectedDistrict = ''''\<rparr> = 11 \<and>
   varietyCount (displayCrops cropDatabase \<lparr>selectedState = ''telangana'', selectedDistrict = ''''\<rparr>) = 6"
  by (simp add: landCardVarieties_def varietyCount_def displayCrops_def currentDistrict_def
      currentState_def state_crops_def first_occurrences_def fixture_simps)

text \<open>
  C9: the land card's caption "Across N crop varieties" counts the crops on
  display, not their varieties: for every dataset and selection it is never
  below the "Crop Varieties" card's count, and it equals that count exactly
  when no two displayed crops share a name; with two districts growing Rice it
  is larger.
\<close>

theorem landCard_counts_rows:
  "varietyCount (displayCrops db v) \<le> landCardVarieties db v \<and>
   (landCardVarieties db v = varietyCount (displayCrops db v) \<longleftrightarrow> distinct (map name (displayCrops db v)))"
proof -
  let ?ns = "map name (displayCrops db v)"
  have v: "varietyCount (displayCrops db v) = length (remdups (rev ?ns))"
    by (simp add: varietyCount_def first_occurrences_def)
  have l: "landCardVarieties db v = length (rev ?ns)"
    by (simp add: landCardVarieties_def)
  have "length (remdups (rev ?ns)) \<le> length (rev ?ns)" by (rule length_remdups_leq)
  moreover have "length (remdups (rev ?ns)) = length (rev ?ns) \<longleftrightarrow> distinct ?ns"
    using length_remdups_eq [of "rev ?ns"] remdups_id_iff_distinct [of "rev ?ns"] by simp
  ultimately show ?thesis using v l by auto
qed

text \<open>
  C5: the state-wide view is the concatenation of the state's district views:
  with no district selected, the page displays exactly the crops of the views
  of each district in order, and its total land is the sum of theirs, provided
  the state's district ids are distinct and non-empty (else \<open>find\<close> or the
  truthiness test picks another branch).
\<close>

theorem state_view_concat_districts:
  assumes cur: "currentState db v = Some s" and sel: "selectedDistrict v = ''''"
    and ids: "distinct (map district_id (districts s))" and nonempty: "'''' \<notin> set (map district_id (districts s))"
  shows "displayCrops db v =
           concat (map (\<lambda>d. displayCrops db (v\<lparr>selectedDistrict := district_id d\<rparr>)) (districts s)) \<and>
         totalLand (displayCrops db v) =
           sum_list (map (\<lambda>d. totalLand (displayCrops db (v\<lparr>selectedDistrict := district_id d\<rparr>))) (districts s))"
proof -
  have each: "displayCrops db (v\<lparr>selectedDistrict := district_id d\<rparr>) = crops d" if "d \<in> set (districts s)" for d
  proof -
    from that nonempty have "district_id d \<noteq> ''''" by force
    with that ids cur show ?thesis
      by (simp add: displayCrops_def currentDistrict_def find_distinct_key)
  qed
  have state: "displayCrops db v = state_crops s"
    using cur sel by (simp add: displayCrops_def currentDistrict_def)
  have views: "map (\<lambda>d. displayCrops db (v\<lparr>selectedDistrict := district_id d\<rparr>)) (districts s) = map crops (districts s)"
    using each by simp
  have tot: "map (\<lambda>d. totalLand (displayCrops db (v\<lparr>selectedDistrict := district_id d\<rparr>))) (districts s)
             = map (\<lambda>d. totalLand (crops d)) (districts s)"
    using each by simp
  show ?thesis
    by (simp only: state views tot) (simp add: state_crops_def totalLand_sum_list sum_list_map_concat comp_def)
qed


theorem state_view_concat_districts_witness:
  "currentState cropDatabase \<lparr>selectedState = ''telangana'', selectedDistrict = ''''\<rparr> = Some telangana \<and>
   distinct (map district_id (districts telangana)) \<and> '''' \<notin> set (map district_id (districts telangana)) \<and>
   totalLand (displayCrops cropDatabase \<lparr>selectedState = ''telangana'', selectedDistrict = ''''\<rparr>) =
     sum_list (map (\<lambda>d. totalLand (displayCrops cropDatabase
                     \<lparr>selectedState = ''telangana'', selectedDistrict = district_id d\<rparr>)) (districts telangana))"
proof -
  have cur: "currentState cropDatabase \<lparr>selectedState = ''telangana'', selectedDistrict = ''''\<rparr> = Some telangana"
    by (simp add: currentState_def cropDatabase_def telangana_def)
  have ids: "distinct (map district_id (districts telangana))" by (simp add: telangana_def)
  have ne: "'''' \<notin> set (map district_id (districts telangana))" by (simp add: telangana_def)
  show ?thesis
    using conjunct2 [OF state_view_concat_districts [OF cur _ ids ne]] cur ids ne by simp
qed

end
