(* ===== verification/DashboardView.thy ===== *)
theory DashboardView
  imports Dashboard
begin

text \<open>
  What the dashboard page renders (\<open>src/src/pages/Dashboard.tsx\<close>, lines 66
  and 138 to 347): the location badges, then either the prompt to select a
  location or the panels: three summary cards, the bar chart's data, the pie's
  slices with their cell colours, the caption of the crop list and one card per
  displayed crop.  Numbers the page prints with \<open>toLocaleString()\<close> go
  through the parameter \<open>loc\<close>, and the price, printed by string
  interpolation, through \<open>str\<close>: both are the browser's formatting, which the
  page does not control.  A JSX expression \<open>{undefined}\<close> renders nothing,
  which is \<open>opt_name\<close>.
\<close>

definition opt_name :: "('a \<Rightarrow> string) \<Rightarrow> 'a option \<Rightarrow> string" where
  "opt_name f x = (case x of Some a \<Rightarrow> f a | None \<Rightarrow> '''')"

definition location_badges :: "state list \<Rightarrow> dashboard_view \<Rightarrow> string list" where
  "location_badges db v =
     (if selectedState v = '''' then []
      else (''State: '' @ opt_name state_name (currentState db v)) #
           (if selectedDistrict v = '''' then []
            else [''District: '' @ opt_name district_name (currentDistrict db v)]))"

record summary_cards =
  land_text :: string
  land_count :: nat
  yield_text :: string
  variety_total :: nat

definition summary :: "(rat \<Rightarrow> string) \<Rightarrow> crop_data list \<Rightarrow> summary_cards" where
  "summary loc cs =
     \<lparr>land_text = loc (totalLand cs) @ '' hectares'', land_count = length cs,
      yield_text = loc (totalYield cs) @ '' MT'', variety_total = varietyCount cs\<rparr>"

definition COLORS :: "string list" where
  "COLORS =
     [''hsl(var(--primary))'', ''hsl(var(--success))'', ''hsl(var(--earth))'',
      ''hsl(var(--accent))'', ''hsl(var(--warning))'']"

text \<open>\<open>pieData.map((entry, index) => <Cell fill={COLORS[index % COLORS.length]} />)\<close>.\<close>

definition pie_cells :: "pie_slice list \<Rightarrow> (pie_slice \<times> string) list" where
  "pie_cells slices = map (\<lambda>(i, s). (s, COLORS ! (i mod length COLORS))) (enumerate 0 slices)"

definition crop_list_caption :: "state list \<Rightarrow> dashboard_view \<Rightarrow> string" where
  "crop_list_caption db v =
     (case currentDistrict db v of
        Some d \<Rightarrow> ''Crops cultivated in '' @ district_name d @ '' district''
      | None \<Rightarrow> (case currentState db v of
                  Some s \<Rightarrow> ''All crops in '' @ state_name s @ '' state''
                | None \<Rightarrow> ''Select a location to view crop details''))"

record crop_card =
  card_key :: string
  card_title :: string
  card_season :: string
  card_land :: string
  card_yield :: string
  card_price :: string
  card_sowing :: string
  card_harvest :: string

definition render_crop_card :: "(rat \<Rightarrow> string) \<Rightarrow> (rat \<Rightarrow> string) \<Rightarrow> crop_data \<Rightarrow> crop_card" where
  "render_crop_card loc str c =
     \<lparr>card_key = crop_id c, card_title = name c, card_season = season c @ '' Season'',
      card_land = loc (landUsed c) @ '' ha'', card_yield = loc (expectedYield c) @ '' MT'',
      card_price = str (currentPrice c) @ ''/quintal'', card_sowing = sowingMonth c,
      card_harvest = harvestMonth c\<rparr>"

record dashboard_panels =
  p_summary :: summary_cards
  p_bars :: "crop_land_item list"
  p_pie :: "(pie_slice \<times> string) list"
  p_caption :: string
  p_cards :: "crop_card list"

datatype dashboard_body = SelectPrompt | Panels dashboard_panels

definition dashboard_body :: "(rat \<Rightarrow> string) \<Rightarrow> (rat \<Rightarrow> string) \<Rightarrow> state list \<Rightarrow> dashboard_view \<Rightarrow> dashboard_body" where
  "dashboard_body loc str db v =
     (let cs = displayCrops db v
      in if length cs > 0
         then Panels \<lparr>p_summary = summary loc cs, p_bars = cropLandData cs,
                      p_pie = pie_cells (pieData cs), p_caption = crop_list_caption db v,
                      p_cards = map (render_crop_card loc str) cs\<rparr>
         else SelectPrompt)"

subsection \<open>Lemmas\<close>

lemma displayCrops_nonempty_state: "displayCrops db v \<noteq> [] \<Longrightarrow> currentState db v \<noteq> None"
  by (auto simp: displayCrops_def currentDistrict_def split: option.splits)

lemma dashboard_body_Panels:
  "dashboard_body loc str db v = Panels p \<longleftrightarrow>
     displayCrops db v \<noteq> [] \<and>
     p = \<lparr>p_summary = summary loc (displayCrops db v), p_bars = cropLandData (displayCrops db v),
          p_pie = pie_cells (pieData (displayCrops db v)), p_caption = crop_list_caption db v,
          p_cards = map (render_crop_card loc str) (displayCrops db v)\<rparr>"
  by (auto simp: dashboard_body_def Let_def)

lemma length_COLORS [simp]: "length COLORS = 5"
  by (simp add: COLORS_def)

lemma pie_cells_nth:
  "i < length slices \<Longrightarrow> pie_cells slices ! i = (slices ! i, COLORS ! (i mod 5))"
  by (simp add: pie_cells_def nth_enumerate_eq)

lemma length_pie_cells [simp]: "length (pie_cells slices) = length slices"
  by (simp add: pie_cells_def)

lemma map_fst_pie_cells [simp]: "map fst (pie_cells slices) = slices"
  by (simp add: list_eq_iff_nth_eq pie_cells_nth)

lemma distinct_COLORS: "distinct COLORS"
  by (simp add: COLORS_def)

lemma COLORS_eq_iff: "i < 5 \<Longrightarrow> j < 5 \<Longrightarrow> COLORS ! i = COLORS ! j \<longleftrightarrow> i = j"
  using distinct_COLORS by (simp add: nth_eq_iff_index_eq COLORS_def)

lemma mod5_Suc_neq: "i mod 5 \<noteq> Suc i mod (5 :: nat)"
  by (simp add: mod_Suc)

lemma database_crops_distinct_state:
  assumes "distinct (map crop_id (database_crops db))" and "currentState db v = Some s"
  shows "distinct (map crop_id (state_crops s))"
proof -
  from assms(2) have "s \<in> set db"
    by (auto simp: currentState_def split: if_splits dest: find_Some_D)
  then obtain ys zs where "db = ys @ s # zs" by (metis split_list)
  with assms(1) show ?thesis by (simp add: database_crops_def)
qed

lemma distinct_displayCrops:
  assumes "distinct (map crop_id (database_crops db))"
  shows "distinct (map crop_id (displayCrops db v))"
proof (cases "currentState db v")
  case None
  then show ?thesis by (simp add: displayCrops_def currentDistrict_def)
next
  case (Some s)
  with assms have ds: "distinct (map crop_id (state_crops s))" by (rule database_crops_distinct_state)
  show ?thesis
  proof (cases "currentDistrict db v")
    case None
    with Some ds show ?thesis by (simp add: displayCrops_def)
  next
    case (Some d)
    with \<open>currentState db v = Some s\<close> have "d \<in> set (districts s)"
      by (auto dest: currentDistrict_in_currentState)
    then obtain ys zs where "districts s = ys @ d # zs" by (metis split_list)
    with ds Some show ?thesis by (simp add: displayCrops_def state_crops_def)
  qed
qed

text \<open>
  In every view the page can reach, the badges name what the selection
  resolves to: a \<open>State:\<close> or \<open>District:\<close> badge never renders with an
  empty name.
\<close>

lemma location_badges_resolved:
  assumes "dashboard_reachable db v"
  shows "location_badges db v =
           (case currentState db v of
              None \<Rightarrow> []
            | Some s \<Rightarrow> (''State: '' @ state_name s) #
                (case currentDistrict db v of
                   None \<Rightarrow> []
                 | Some d \<Rightarrow> [''District: '' @ district_name d]))"
proof -
  from assms have inv: "dashboard_inv db v" by (rule dashboard_reachable_inv)
  show ?thesis
  proof (cases "selectedState v = ''''")
    case True
    then show ?thesis by (simp add: location_badges_def currentState_def)
  next
    case False
    with inv obtain s where s: "currentState db v = Some s" by (auto simp: dashboard_inv_def)
    show ?thesis
    proof (cases "selectedDistrict v = ''''")
      case True
      with False s show ?thesis by (simp add: location_badges_def opt_name_def currentDistrict_def)
    next
      case dist: False
      with inv obtain d where "currentDistrict db v = Some d" by (auto simp: dashboard_inv_def)
      with False dist s show ?thesis by (simp add: location_badges_def opt_name_def)
    qed
  qed
qed

subsection \<open>Properties of the rendered page\<close>

text \<open>
  C7: the crop list's fallback caption "Select a location to view crop
  details" is never shown: the panels are rendered only when crops are
  displayed, a state is then resolved, and the caption names the resolved
  district, or else the resolved state.
\<close>

theorem crop_list_caption_resolved:
  assumes "displayCrops db v \<noteq> []"
  shows "\<exists>p s. dashboard_body loc str db v = Panels p \<and> currentState db v = Some s \<and>
           p_caption p = (case currentDistrict db v of
                            Some d \<Rightarrow> ''Crops cultivated in '' @ district_name d @ '' district''
                          | None \<Rightarrow> ''All crops in '' @ state_name s @ '' state'')"
proof -
  from assms obtain s where "currentState db v = Some s"
    using displayCrops_nonempty_state by blast
  with assms show ?thesis
    by (auto simp: dashboard_body_Panels crop_list_caption_def split: option.split)
qed

theorem crop_list_caption_resolved_witness:
  "displayCrops cropDatabase \<lparr>selectedState = ''telangana'', selectedDistrict = ''''\<rparr> \<noteq> [] \<and>
   (\<exists>p. dashboard_body (\<lambda>_. '''') (\<lambda>_. '''') cropDatabase
          \<lparr>selectedState = ''telangana'', selectedDistrict = ''''\<rparr> = Panels p \<and>
        p_caption p = ''All crops in Telangana state'')"
proof -
  have ne: "displayCrops cropDatabase \<lparr>selectedState = ''telangana'', selectedDistrict = ''''\<rparr> \<noteq> []"
    by (simp add: displayCrops_def currentDistrict_def currentState_def state_crops_def fixture_simps)
  have cs: "currentState cropDatabase \<lparr>selectedState = ''telangana'', selectedDistrict = ''''\<rparr> = Some telangana"
    by (simp add: currentState_def cropDatabase_def telangana_def)
  have cd: "currentDistrict cropDatabase \<lparr>selectedState = ''telangana'', selectedDistrict = ''''\<rparr> = None"
    by (simp add: currentDistrict_def split: option.split)
  show ?thesis
    using ne crop_list_caption_resolved [OF ne, of "\<lambda>_. ''''" "\<lambda>_. ''''"] cs cd
    by (simp add: telangana_def)
qed

text \<open>
  C25: the pie's cell colours cycle through the five \<open>COLORS\<close>: adjacent
  slices always differ, and the first and the last slice, which touch on the
  circle, share a colour exactly when the number of slices leaves remainder 1
  modulo 5 (Telangana's six crop names, for one).
\<close>

theorem pie_cells_colours:
  "(\<forall>i. Suc i < length (pie_cells sl) \<longrightarrow> snd (pie_cells sl ! i) \<noteq> snd (pie_cells sl ! Suc i)) \<and>
   (1 < length sl \<longrightarrow>
      (snd (pie_cells sl ! 0) = snd (pie_cells sl ! (length sl - 1)) \<longleftrightarrow> length sl mod 5 = 1))"
proof (intro conjI allI impI)
  fix i assume "Suc i < length (pie_cells sl)"
  then show "snd (pie_cells sl ! i) \<noteq> snd (pie_cells sl ! Suc i)"
    by (simp add: pie_cells_nth COLORS_eq_iff mod5_Suc_neq)
next
  assume n: "1 < length sl"
  have "(length sl - 1) mod 5 = 0 \<longleftrightarrow> length sl mod 5 = 1"
    using n by presburger
  moreover from n have "0 < length sl" by linarith
  ultimately show "snd (pie_cells sl ! 0) = snd (pie_cells sl ! (length sl - 1)) \<longleftrightarrow> length sl mod 5 = 1"
    by (simp add: pie_cells_nth COLORS_eq_iff eq_commute [of 0])
qed

text \<open>
  C27: when the dataset's crop ids are unique, the rendered panels agree with
  the data: one crop card per displayed crop, in order, with distinct React
  keys; the land card counts the cards; the varieties card, the bar chart and
  the pie each have one entry per crop name, the pie's slices in the bar
  chart's order.
\<close>

theorem crop_panels_agree:
  assumes "distinct (map crop_id (database_crops db))" and "displayCrops db v \<noteq> []"
  shows "\<exists>p. dashboard_body loc str db v = Panels p \<and>
           map card_title (p_cards p) = map name (displayCrops db v) \<and>
           distinct (map card_key (p_cards p)) \<and>
           land_count (p_summary p) = length (p_cards p) \<and>
           variety_total (p_summary p) = length (p_bars p) \<and>
           length (p_pie p) = length (p_bars p) \<and>
           map item_name (p_bars p) = map (slice_name \<circ> fst) (p_pie p)"
proof -
  have "distinct (map crop_id (displayCrops db v))"
    using assms(1) by (rule distinct_displayCrops)
  moreover have "map (slice_name \<circ> fst) (pie_cells (pieData cs)) = map item_name (cropLandData cs)" for cs
  proof -
    have "map (slice_name \<circ> fst) (pie_cells (pieData cs)) = map slice_name (pieData cs)"
      by (simp flip: map_map)
    then show ?thesis by (simp add: pieData_def comp_def)
  qed
  ultimately show ?thesis using assms(2)
    by (simp add: dashboard_body_Panels render_crop_card_def summary_def comp_def
        varietyCount_def pieData_def cropLandData_item_names [symmetric])
qed


theorem pie_cells_colours_witness:
  "1 < length (pieData (displayCrops cropDatabase \<lparr>selectedState = ''telangana'', selectedDistrict = ''''\<rparr>)) \<and>
   length (pieData (displayCrops cropDatabase \<lparr>selectedState = ''telangana'', selectedDistrict = ''''\<rparr>)) = 6 \<and>
   snd (pie_cells (pieData (displayCrops cropDatabase \<lparr>selectedState = ''telangana'', selectedDistrict = ''''\<rparr>)) ! 0)
   = snd (pie_cells (pieData (displayCrops cropDatabase \<lparr>selectedState = ''telangana'', selectedDistrict = ''''\<rparr>)) ! 5)"
proof -
  have six: "length (pieData (displayCrops cropDatabase \<lparr>selectedState = ''telangana'', selectedDistrict = ''''\<rparr>)) = 6"
    unfolding pieData_def length_map
    by (simp add: length_map [of item_name, symmetric] cropLandData_item_names displayCrops_def
        currentDistrict_def currentState_def state_crops_def first_occurrences_def fixture_simps
        del: length_map)
  show ?thesis
    using pie_cells_colours [of "pieData (displayCrops cropDatabase \<lparr>selectedState = ''telangana'', selectedDistrict = ''''\<rparr>)"] six
    by simp
qed

theorem crop_panels_agree_witness:
  "distinct (map crop_id (database_crops cropDatabase)) \<and>
   displayCrops cropDatabase \<lparr>selectedState = ''maharashtra'', selectedDistrict = ''''\<rparr> \<noteq> [] \<and>
   (\<exists>p. dashboard_body (\<lambda>_. '''') (\<lambda>_. '''') cropDatabase
          \<lparr>selectedState = ''maharashtra'', selectedDistrict = ''''\<rparr> = Panels p \<and>
        distinct (map card_key (p_cards p)) \<and> length (p_cards p) = 6)"
proof -
  have u: "distinct (map crop_id (database_crops cropDatabase))"
    using cropDatabase_ids_unique by blast
  have ne: "displayCrops cropDatabase \<lparr>selectedState = ''maharashtra'', selectedDistrict = ''''\<rparr> \<noteq> []"
    by (simp add: displayCrops_def currentDistrict_def currentState_def state_crops_def fixture_simps)
  have n: "length (displayCrops cropDatabase \<lparr>selectedState = ''maharashtra'', selectedDistrict = ''''\<rparr>) = 6"
    by (simp add: displayCrops_def currentDistrict_def currentState_def state_crops_def fixture_simps)
  show ?thesis
    using u ne n crop_panels_agree [OF u ne, of "\<lambda>_. ''''" "\<lambda>_. ''''"]
    by (metis length_map)
qed

end
