(* ===== verification/AdminView.thy ===== *)
theory AdminView
  imports Admin DashboardView
begin

text \<open>
  What the admin page renders (\<open>src/src/pages/Admin.tsx\<close>, lines 348 to
  702): the loading screen, or the panel with its four statistics cards, the
  location badges, and, once a district is selected, the crops card with the
  two captions naming the district and either the table or the empty state
  No crops found.  The badges and captions look the selection up in the page's
  own lists (\<open>currentState\<close>, \<open>currentDistrict\<close>, lines 348 and 349); a JSX
  \<open>{undefined}\<close> renders nothing (\<open>opt_name\<close>).  Numbers printed with
  \<open>toLocaleString()\<close> go through the browser's formatting \<open>loc\<close>, the price
  by string interpolation through \<open>str\<close>.
\<close>

definition admin_currentState :: "admin_ui \<Rightarrow> db_state option" where
  "admin_currentState u = find (\<lambda>s. dbs_id s = a_selectedState u) (a_states u)"

definition admin_currentDistrict :: "admin_ui \<Rightarrow> db_district option" where
  "admin_currentDistrict u = find (\<lambda>d. dbd_id d = a_selectedDistrict u) (a_districts u)"

text \<open>The rupee sign U+20B9 the price cell starts with, as its UTF-8 bytes.\<close>

definition rupee_sign :: string where
  "rupee_sign = [CHR 0xE2, CHR 0x82, CHR 0xB9]"

record crop_row =
  cr_key :: string
  cr_name :: string
  cr_land :: string
  cr_yield :: string
  cr_price :: string
  cr_season :: string

definition render_crop_row :: "(rat \<Rightarrow> string) \<Rightarrow> (rat \<Rightarrow> string) \<Rightarrow> db_crop \<Rightarrow> crop_row" where
  "render_crop_row loc str c =
     \<lparr>cr_key = dbc_id c, cr_name = dbc_name c, cr_land = loc (dbc_land_used c),
      cr_yield = loc (dbc_expected_yield c), cr_price = rupee_sign @ str (dbc_current_price c),
      cr_season = dbc_season c\<rparr>"

definition admin_badges :: "admin_ui \<Rightarrow> string list" where
  "admin_badges u =
     (if a_selectedState u = '''' then []
      else (''State: '' @ opt_name dbs_name (admin_currentState u)) #
           (if a_selectedDistrict u = '''' then []
            else [''District: '' @ opt_name dbd_name (admin_currentDistrict u)]))"

text \<open>The crops card: the add dialog's description, the card's description, and the table (\<open>None\<close>: No crops found).\<close>

record crops_card =
  cc_add_description :: string
  cc_description :: string
  cc_rows :: "crop_row list option"

definition render_crops_card :: "(rat \<Rightarrow> string) \<Rightarrow> (rat \<Rightarrow> string) \<Rightarrow> admin_ui \<Rightarrow> crops_card option" where
  "render_crops_card loc str u =
     (if a_selectedDistrict u = '''' then None
      else Some \<lparr>cc_add_description = ''Add a new crop to '' @ opt_name dbd_name (admin_currentDistrict u) @ '' district'',
                 cc_description = ''Manage crops for '' @ opt_name dbd_name (admin_currentDistrict u) @ '' district'',
                 cc_rows = (if 0 < length (a_crops u) then Some (map (render_crop_row loc str) (a_crops u))
                            else None)\<rparr>)"

record admin_panel =
  ap_total_states :: nat
  ap_total_districts :: nat
  ap_total_crops :: nat
  ap_avg_price :: int
  ap_badges :: "string list"
  ap_crops :: "crops_card option"

datatype admin_screen = AdminLoading | AdminPanel admin_panel

definition admin_render :: "(rat \<Rightarrow> string) \<Rightarrow> (rat \<Rightarrow> string) \<Rightarrow> admin_ui \<Rightarrow> admin_screen" where
  "admin_render loc str u =
     (if a_loading u then AdminLoading
      else AdminPanel \<lparr>ap_total_states = length (a_states u), ap_total_districts = length (a_districts u),
                       ap_total_crops = length (a_crops u), ap_avg_price = avgPrice (a_crops u),
                       ap_badges = admin_badges u, ap_crops = render_crops_card loc str u\<rparr>)"

text \<open>The mismatched selection of \<open>demo_mismatch\<close> once both awaited replies (Andhra Pradesh's districts, then Hyderabad's crops) have arrived.\<close>

definition demo_mismatch_settled :: admin_sys where
  "demo_mismatch_settled = foldl admin_step demo_mismatch [Reply 0 Delivered, Reply 0 Delivered]"

subsection \<open>Lemmas\<close>

text \<open>
  In every run the table the page renders lists the crops of one district only,
  one row per crop in the order of the reply, keyed by the crop's id, and the
  Total Crops card counts those rows.
\<close>

lemma admin_render_table:
  assumes reach: "admin_reachable S" and panel: "admin_render loc str (ui S) = AdminPanel p"
    and card: "ap_crops p = Some c" and rows: "cc_rows c = Some rs"
  shows "map cr_key rs = map dbc_id (a_crops (ui S)) \<and> length rs = ap_total_crops p \<and>
         one_district (a_crops (ui S))"
proof -
  from reach have "admin_inv S" by (rule admin_reachable_inv)
  then have "one_district (a_crops (ui S))" by (simp add: admin_inv_def)
  with panel card rows show ?thesis
    by (auto simp: admin_render_def render_crops_card_def render_crop_row_def split: if_splits)
qed

lemma demo_mismatch_settled_reachable: "admin_reachable demo_mismatch_settled"
proof -
  have "admin_trace_ok demo_mismatch [Reply 0 Delivered, Reply 0 Delivered]"
    unfolding demo_mismatch_def demo_tg_state by (simp add: demo_mismatch_events_def demo_eval)
  from admin_reachable_trace [OF demo_mismatch_reachable this] show ?thesis
    by (simp add: demo_mismatch_settled_def)
qed

lemma demo_mismatch_settled_ui:
  "a_loading (ui demo_mismatch_settled) = False \<and>
   a_selectedState (ui demo_mismatch_settled) = ''ap'' \<and> a_selectedDistrict (ui demo_mismatch_settled) = ''hyderabad'' \<and>
   a_states (ui demo_mismatch_settled) = states_tbl demo_store \<and>
   a_districts (ui demo_mismatch_settled) = [districts_tbl demo_store ! 0] \<and>
   a_crops (ui demo_mismatch_settled) = [crops_tbl demo_store ! 1] \<and>
   store demo_mismatch_settled = store demo_mismatch"
  unfolding demo_mismatch_settled_def demo_mismatch_def demo_tg_state
  by (simp add: demo_mismatch_events_def demo_eval)

subsection \<open>Properties of the rendered page\<close>

text \<open>
  C34: a district of another state can be selected, and the page then shows
  it: Andhra Pradesh is chosen while Telangana's district list is still shown,
  Hyderabad is picked from it, and once both replies have arrived the page
  shows the badges State: Andhra Pradesh and an empty District badge, the
  caption Manage crops for (empty) district, and a table of Hyderabad's crops,
  although Hyderabad is not a district of Andhra Pradesh.
\<close>

theorem admin_mismatch_rendered:
  "\<exists>S. admin_reachable S \<and> a_selectedState (ui S) = ''ap'' \<and> a_selectedDistrict (ui S) = ''hyderabad'' \<and>
       ''hyderabad'' \<notin> set (map dbd_id (filter (\<lambda>d. dbd_state_id d = ''ap'') (districts_tbl (store S)))) \<and>
       (\<exists>p c. admin_render loc str (ui S) = AdminPanel p \<and>
          ap_badges p = [''State: Andhra Pradesh'', ''District: ''] \<and> ap_crops p = Some c \<and>
          cc_description c = ''Manage crops for  district'' \<and>
          map_option (map cr_name) (cc_rows c) = Some [''Rice''] \<and>
          map dbc_district_id (a_crops (ui S)) = [''hyderabad''])"
proof (intro exI [where x = demo_mismatch_settled] conjI)
  show "admin_reachable demo_mismatch_settled" by (rule demo_mismatch_settled_reachable)
  show "a_selectedState (ui demo_mismatch_settled) = ''ap''"
    and "a_selectedDistrict (ui demo_mismatch_settled) = ''hyderabad''"
    using demo_mismatch_settled_ui by simp_all
  show "''hyderabad'' \<notin> set (map dbd_id (filter (\<lambda>d. dbd_state_id d = ''ap'') (districts_tbl (store demo_mismatch_settled))))"
    using demo_mismatch_settled_ui demo_mismatch_view by simp
  show "\<exists>p c. admin_render loc str (ui demo_mismatch_settled) = AdminPanel p \<and>
          ap_badges p = [''State: Andhra Pradesh'', ''District: ''] \<and> ap_crops p = Some c \<and>
          cc_description c = ''Manage crops for  district'' \<and>
          map_option (map cr_name) (cc_rows c) = Some [''Rice''] \<and>
          map dbc_district_id (a_crops (ui demo_mismatch_settled)) = [''hyderabad'']"
    using demo_mismatch_settled_ui
    by (simp add: admin_render_def admin_badges_def render_crops_card_def render_crop_row_def
        admin_currentState_def admin_currentDistrict_def opt_name_def demo_store_eval)
qed

end
