(* ===== verification/Spec2Isabelle.thy ===== *)
theory Spec2Isabelle
  imports PredictionsPage App StaticPages AdminView
begin

text \<open>
  A verification development of the farm-forecaster dashboard
  (TypeScript/React, \<open>src/src\<close>).  The program is a set of pages over a static
  crop dataset and a thin client of a hosted Postgres database.  Its parts, and
  how they interact:
  \<^item> the domain model and static dataset (\<open>data/cropData.ts\<close>): States own
    Districts own Crops; four fixture price predictions;
  \<^item> the dashboard page (\<open>pages/Dashboard.tsx\<close>): the user selects a state and
    a district from the dataset, the page looks both up by id, collects the
    crops on display and derives chart data from them (group by crop name,
    totals, variety count, pie percentages);
  \<^item> the database gateway (\<open>dbQueries\<close> in \<open>pages/Admin.tsx\<close>, duplicated in
    \<open>lib/supabase.ts\<close>): list, create, update and delete calls on the tables
    \<open>states\<close>, \<open>districts\<close>, \<open>crops\<close>, \<open>price_predictions\<close>;
  \<^item> the admin page (\<open>pages/Admin.tsx\<close>), whose handlers call the gateway and
    reload; the predictions page (\<open>pages/Predictions.tsx\<close>), which classifies
    the fixture predictions;
  \<^item> the site around them: the layout's header (\<open>components/layout/Header.tsx\<close>)
    with navigation, language menu and login state, and the login and contact
    pages (\<open>pages/Login.tsx\<close>, \<open>pages/Contact.tsx\<close>), whose submissions are
    simulated by a one-second \<open>setTimeout\<close> that toasts and, for login,
    navigates; static content pages.

  \<^bold>\<open>Theories.\<close>
  \<^item> \<open>Prelude\<close>: JavaScript number semantics the code relies on
    (\<open>js_div\<close> with \<open>NaN\<close> and infinities, \<open>js_round\<close> for \<open>Math.round\<close>,
    \<open>to_fixed1\<close> for \<open>toFixed(1)\<close>), \<open>first_occurrences\<close> for the iteration
    order of a JavaScript \<open>Set\<close>, and shared lemmas (rounding error, sums over
    groups).  Finite numbers are exact rationals: the development does not model
    floating-point rounding, which is exact on the dataset's integer values.
  \<^item> \<open>Domain\<close>: the interfaces of \<open>cropData.ts\<close> as records (\<open>crop_data\<close>,
    \<open>district\<close>, \<open>state\<close>, \<open>price_prediction\<close>), the \<open>level\<close> union, the
    admin form's \<open>seasons\<close> and \<open>months\<close>, and the specification's crop
    invariant \<open>crop_wf\<close>.
  \<^item> \<open>Fixtures\<close>: \<open>cropDatabase\<close> (one definition per state) and
    \<open>pricePredictions\<close>, with lemmas that the data meets the invariants.
  \<^item> \<open>Aggregation\<close>: the dashboard's chart computations, Dashboard.tsx lines
    46 to 72 and 200.  The \<open>reduce\<close> callback is \<open>cropLandData_step\<close> (find the
    first item of the crop's name and add to it, or push a new item);
    \<open>group_by_name\<close> is the reference grouping the specification describes.
    Lemmas: refinement of the reduction to the reference (C1), conservation of
    land and yield (C2), the pie percentages add to
    100 within rounding (C3), the worked example of the specification,
    and two divergences from the specification: a zero
    total prints \<open>NaN\<close> shares rather than none (C8), and the representative
    price is the first seen, not the last (part of C1).
  \<^item> \<open>Dashboard\<close>: the page's view state (\<open>selectedState\<close>,
    \<open>selectedDistrict\<close>), the lookups \<open>currentState\<close> and \<open>currentDistrict\<close>,
    \<open>displayCrops\<close>, and the two select handlers as events of a step function
    whose enabledness is what the UI offers; \<open>dashboard_reachable\<close> is the
    inductive set of reachable views.  Lemmas: the selection invariant by rule
    induction and its consequence that a selected district always resolves
    within the selected state (C4); with the fixture, finite pie percentages
    for every selection; unknown ids give absence (C11); the land card's
    caption counts crops, not varieties, for every selection (C9); the state-wide view is the
    concatenation of its district views, with the sum of their land, when the
    district ids are distinct and non-empty (C5).
  \<^item> \<open>DashboardView\<close>: what the dashboard renders (lines 66 and 138 to
    347): the location badges, and either the prompt to select a location or
    the panels (summary cards, bar data, pie slices with the cell colours
    \<open>COLORS[index % COLORS.length]\<close>, the crop list's caption and one
    \<open>crop_card\<close> per crop).  The browser's number formatting
    (\<open>toLocaleString\<close>, string interpolation) is a parameter.  Lemmas: in
    reachable views the badges name the resolved state and district; the
    caption's fallback branch is dead (C7); the pie's colours (C25); the
    panels agree with the data and the cards' React keys are distinct (C27).

  \<^item> \<open>GatewayStore\<close>: the persisted rows (\<open>lib/supabase.ts\<close> lines 9 to 51,
    repeated in \<open>Admin.tsx\<close> lines 47 to 75) as records split into insert
    payload and server-filled columns; the database as the record \<open>db_store\<close>
    of four tables, a server clock and a key counter; the PostgREST requests
    the client issues (\<open>pg_insert_*\<close>, \<open>pg_update_crop_single\<close>,
    \<open>pg_delete_crop\<close>), modelled from section 6 of the specification since
    the database is not code of the repository; \<open>pg_request\<close> over a
    \<open>link\<close> that delivers, fails, or commits and loses the reply.
  \<^item> \<open>Gateway\<close>: \<open>dbQueries\<close> (\<open>Admin.tsx\<close> lines 77 to 167, and
    \<open>lib/supabase.ts\<close> lines 54 to 186 with the prediction calls and the
    nested read), one definition per function, \<open>throw error\<close> as \<open>Inl\<close>;
    \<open>gateway_call\<close> and \<open>run_call\<close> are the interface the admin page uses.
    Lemmas: every branch of \<open>updateCrop\<close> (C16, C17) and \<open>deleteCrop\<close>
    (C18), the create/list round trip (C19), the predictions listed newest
    first (C20), the truthiness test of the optional filters (C21),
    completeness of the nested read as a multiset identity (C23), and ordering
    and filtering of the lists (C24); and, of the database model rather than
    of the client, the foreign-key error, transport failures and the schema
    invariant over every reachable store by rule induction (plain lemmas).
  \<^item> \<open>Admin\<close>: the admin page (\<open>Admin.tsx\<close> lines 168 to 828).  Its hooks are
    the record \<open>admin_ui\<close>; each async handler is split at its \<open>await\<close>
    into \<open>issue\<close> (the request reaches the store) and a continuation
    \<open>admin_cont\<close>, queued with its reply in \<open>pending\<close>; \<open>resume\<close> is the
    code after the \<open>await\<close>; the selects with their effects, the dialogs and
    each form field are events of \<open>admin_step\<close>, offered as
    \<open>admin_enabled\<close> says; \<open>admin_reachable\<close> adds replies in any order and
    writes of other clients.  Lemmas: the table never mixes districts (C28),
    the loading screen ends (C29), failures change only the toasts (C30), an
    added crop appears in the table (C31), a deleted crop disappears from it
    while the district's other crops stay (C13), an edit writes back the whole row
    (C32), a stale reply can show another district's crops (C33), a district of
    another state can be selected, the average price card's bounds (C35).
    The runs used by the existence theorems are short concrete traces
    (\<open>demo_stale\<close>, \<open>demo_mismatch\<close>) checked by evaluation.  The
    shared toast type of the \<open>useToast\<close> hook is in \<open>Toast\<close>.
  \<^item> \<open>AdminView\<close>: what the admin page renders (\<open>Admin.tsx\<close> lines 348
    to 702): the loading screen or the panel (\<open>admin_render\<close>) with its
    four statistics cards, the location badges (\<open>admin_badges\<close>), which look
    the selection up in the page's own lists (\<open>admin_currentState\<close>,
    \<open>admin_currentDistrict\<close>), and the crops card with its two captions and
    the table or the empty state (\<open>render_crops_card\<close>,
    \<open>render_crop_row\<close>).  Lemmas: in every run the rendered table lists one
    district's crops keyed by id, and the Total Crops card counts its rows; the
    mismatched selection is visible: the page shows State: Andhra Pradesh, an
    empty District badge and caption, and Hyderabad's crops (C34).
  \<^item> \<open>AdminSettle\<close>: the event loop delivering the admin page's pending
    replies oldest first, \<open>drain_replies\<close>, a \<open>function\<close> whose
    termination is proved by the measure \<open>pending_weight\<close> (a mutation's
    continuation counts 2, since it may queue one reload; a load's counts 1).
    Lemma: the queue empties, after at most twice as many deliveries as there
    were pending requests (C39).  No fuel is used anywhere in the development:
    every other definition is structurally recursive.

  \<^item> \<open>Predictions\<close>: the predictions page (\<open>Predictions.tsx\<close>): the lookup of
    the selected card, the random price history with \<open>Math.random()\<close> as a
    parameter \<open>rnd\<close> (the \<open>k\<close>-th call's value), the mock usage table, and
    the badge, icon and note classifiers.  Lemmas: bounds of the random history
    for every \<open>rnd\<close> with values in \<open>[0, 1)\<close> (C36), the clicked card's
    lookup and the classification of the fixture (plain lemmas), agreement of
    the card's trend icon with the detail view's sign, the usage badge's
    bounds (C40).
  \<^item> \<open>PredictionsPage\<close>: the page's one hook \<open>selectedCrop\<close> and the card
    click as a state machine (\<open>predictions_step\<close>, \<open>predictions_reachable\<close>),
    and what it renders (\<open>predictions_render\<close>: a \<open>prediction_card\<close> per
    prediction with its ring, and the \<open>prediction_detail\<close> of the selected
    one, whose chart data is drawn afresh on every render), and the rows of
    the crop usage table.  Lemmas: the ringed card and the detail view agree
    (C6); the usage rows have distinct keys and positive badges.
  \<^item> \<open>Site\<close>: the layout and the routed page as one record \<open>site\<close>: the
    location, the header's hooks \<open>header_ui\<close>, the login page's
    \<open>login_ui\<close> and the contact page's \<open>contact_ui\<close>, a mount generation
    and the queue of pending \<open>setTimeout\<close> callbacks (\<open>site_timer\<close>, each
    with its captured closure and the generation of the instance that
    scheduled it).  \<open>navigate\<close> is the router: a change of location
    remounts the page (fresh hooks, next generation) and keeps the header.
    \<open>handleLoginSubmit\<close>, \<open>handleContactSubmit\<close> and the callbacks
    \<open>login_callback\<close>, \<open>contact_callback\<close> are the handlers, and
    \<open>login_view\<close>, \<open>contact_view\<close> what the two forms render; a callback's
    \<open>setState\<close> on an unmounted instance is dropped, its toast and navigation
    are not.  Every header link, menu and form control is an event of
    \<open>site_step\<close>, offered as \<open>site_enabled\<close> says; \<open>site_reachable\<close> is
    the inductive set of runs; the footer's and the home page's links are
    among the links offered.  Lemmas: every offered link leads to a route of
    the navigation, \<open>/login\<close>, \<open>/signup\<close> or \<open>/forgot-password\<close> (the
    last two have no page in \<open>src/pages\<close>); the invariant \<open>site_inv\<close> by
    rule induction; the header highlights exactly the entry of the current
    location (C10); the header never shows a logged-in user (C14); each busy flag
    is set exactly while its instance's timer is pending (C15); a login
    submitted before leaving the page still redirects to the dashboard later
    (C26); text typed during the contact submission is cleared while the page
    reports success (C37); firing the pending timeouts answers every
    submission with its toast and leaves both forms idle (C22).  The forms are
    submitted only when the browser's checks pass: the \<open>required\<close> fields
    non-empty and the \<open>type="email"\<close> value a valid address in the sense of
    the HTML standard (\<open>valid_email\<close>, browser behaviour modelled from that
    standard).
  \<^item> \<open>App\<close>: the site and the admin page composed (\<open>app\<close>): the router
    mounts the admin page when the location becomes \<open>/admin\<close>
    (\<open>mount_admin\<close>: fresh hooks and \<open>loadData\<close> over the shared store) and
    unmounts it on leaving (\<open>unmount_admin\<close>); the replies the unmounted
    page still awaits are \<open>orphans\<close>, whose handlers resume on the shared
    store with only their toasts (\<open>stray_toasts\<close>) and requests taking effect
    (\<open>orphan_deliver\<close>).  \<open>app_step\<close> lifts the site's and the admin page's
    events, \<open>app_reachable\<close> adds other clients and the server clock.
    Lemmas: the composition refines its components, so the admin page inside
    the site is a run of \<open>admin_reachable\<close> and the Admin lemmas apply to
    it; any e-mail the browser accepts and any password with the Admin role
    lead to the mounted admin page (C12); a delete's success toast shows up on
    the dashboard after the user
    left the admin page, with the unmounted page's reload under way (C38).
  \<^item> \<open>Recommendations\<close>: the recommendations page
    (\<open>pages/Recommendations.tsx\<close>), which has no hooks: its two constant
    arrays \<open>recommendations\<close> and \<open>quickTips\<close> transcribed field for field
    (an icon as its component name and class), and the two \<open>map\<close> calls that
    render them (\<open>render_tips\<close>, keyed by index; \<open>render_recommendation\<close>,
    keyed by id, with the implementation steps numbered \<open>index + 1\<close>).
    Lemmas: every card numbers its steps 1, 2, ... in order; the tips' keys are
    their indices; on the data, the card keys are distinct and each card has
    six steps and four benefits.
  \<^item> \<open>StaticPages\<close>: the constant arrays of the home page (\<open>features\<close>,
    \<open>benefits\<close>, the quick stats), the about page (\<open>features\<close>,
    \<open>benefits\<close> with their points, \<open>team\<close>, the data sources and methods)
    and the contact page (\<open>contactInfo\<close>, \<open>faqItems\<close>, the three help
    buttons, which have no \<open>onClick\<close>), the footer's contact lines and
    social icons (\<open>components/layout/Footer.tsx\<close>), and the index-keyed
    \<open>map\<close> calls that render them.  The shared lemma \<open>enumerate_keys\<close> (in
    \<open>Recommendations\<close>) gives every such list its keys \<open>0, 1, ...\<close>; the
    shape of each page on its data follows, and the footer's contact lines
    agree with the contact page's cards.
  \<^item> This theory: \<open>advertised_coverage_exceeds_dataset\<close>, the one fact that
    links pages with no data flow between them: the coverage the home page and
    the FAQ advertise is not that of the dataset the dashboard shows.

  \<^bold>\<open>Not modelled.\<close> Styling, layout and the drawing of the charts (the
  data handed to them is modelled); the static text of the pages outside
  their arrays and lists (headings, paragraphs, the footer's copyright
  line: JSX literals with no logic); the router and the
  toaster, beyond the semantics \<open>navigate\<close> and the toast list give them;
  the Supabase client's setup and transport beyond the success or failure of
  a call; the browser's sanitising of an e-mail field's value (trimming
  white space), the value being what the field reports.  Timers fire in the
  order they were scheduled, which holds since every timeout of the program
  has the same delay.
\<close>

section \<open>Properties across pages\<close>

text \<open>
  The home page's quick stats and the contact page's FAQ advertise 15+ states,
  200+ districts and 50+ crops, while the dataset the dashboard selects from
  (\<open>cropDatabase\<close>) has three states, seven districts and thirteen crop
  names: the figures are marketing text that no code derives from the data.
\<close>

lemma advertised_coverage_exceeds_dataset:
  "map snd (take 3 home_quick_stats) = [''15+'', ''200+'', ''50+''] \<and>
   faq_answer (faqItems ! 1) = ''Yes! We cover 200+ districts across 15+ states with detailed crop information.'' \<and>
   length cropDatabase < 15 \<and> length (concat (map districts cropDatabase)) < 200 \<and>
   card (set (map name (database_crops cropDatabase))) < 50"
proof -
  have "length (database_crops cropDatabase) < 50"
    by (simp add: database_crops_def state_crops_def cropDatabase_def telangana_def andhra_pradesh_def
        maharashtra_def)
  then have "card (set (map name (database_crops cropDatabase))) < 50"
    using card_length [of "map name (database_crops cropDatabase)"] by simp
  moreover have "length (concat (map districts cropDatabase)) < 200"
    by (simp add: cropDatabase_def telangana_def andhra_pradesh_def maharashtra_def)
  ultimately show ?thesis
    by (simp add: home_quick_stats_def faqItems_def cropDatabase_def)
qed

end
